theory Spec2Isabelle
  imports Main "HOL-Library.Word"
begin

section \<open>Go values the configuration code works with\<close>

text \<open>
  The embedding follows package \<open>config\<close> (the chain-scoped configuration, in
  \<open>src/unnamed/part_001\<close>), package \<open>types\<close> (\<open>src/unnamed/part_003\<close>) and package
  \<open>evm\<close> (\<open>src/core/chains/evm/chain_collection.go\<close>).

  Machine integers are words: \<open>uint16\<close>, \<open>uint32\<close>, \<open>uint64\<close> and \<open>int64\<close> have their
  width, \<open>uint\<close> is 64 bits wide (a 64-bit platform), \<open>time.Duration\<close> is an \<open>int64\<close>.
  A \<open>*big.Int\<close> that is not nil is an \<open>int\<close>; a pointer that may be nil is an
  \<open>option\<close>. A \<open>float32\<close> and a \<open>float64\<close> are their bit patterns: the code only
  passes them on, except for one conversion, which is a parameter.
\<close>

type_synonym uint16 = "16 word"
type_synonym uint32 = "32 word"
type_synonym uint64 = "64 word"
type_synonym uint = "64 word"
type_synonym int64 = "64 word"
type_synonym duration = "64 word"
type_synonym float32 = "32 word"
type_synonym float64 = "64 word"

subsection \<open>Errors and \<open>multierr\<close>\<close>

text \<open>
  An \<open>error\<close> value is built by \<open>errors.New\<close>, \<open>errors.Errorf\<close> or \<open>errors.Wrapf\<close>;
  the format string is kept as the source writes it, next to its arguments. \<open>Multi\<close> is
  the error \<open>multierr\<close> returns for more than one error. A Go \<open>error\<close> that may be nil
  is an \<open>error option\<close>.
\<close>

datatype fmtarg = FUint16 uint16 | FUint64 uint64 | FBig int | FStr string

datatype error =
    New string
  | Errorf string "fmtarg list"
  | Wrapf error string "fmtarg list"
  | Multi "error list"

text \<open>\<open>multierr.Errors\<close>: the errors a (possibly combined, possibly nil) error holds.\<close>

fun errs_of :: "error \<Rightarrow> error list" where
  "errs_of (Multi es) = es"
| "errs_of e = [e]"

definition Errors :: "error option \<Rightarrow> error list" where
  "Errors err = (case err of None \<Rightarrow> [] | Some e \<Rightarrow> errs_of e)"

text \<open>
  \<open>multierr.Combine\<close>: nil errors are skipped; no error left gives nil, one error left
  gives that error itself, more give one combined error, a combined error among the
  arguments being flattened into it.
\<close>

definition Combine :: "error option list \<Rightarrow> error option" where
  "Combine errs =
     (case List.map_filter (\<lambda>e. e) errs of
        [] \<Rightarrow> None
      | [e] \<Rightarrow> Some e
      | es \<Rightarrow> Some (Multi (concat (map errs_of es))))"

subsection \<open>Calls that may not return\<close>

text \<open>
  A call returns a value, panics, or blocks for ever (a lock that is never released: the
  model is the code run by one goroutine).
\<close>

datatype panic =
    InterfaceConversion string string
  | PanicStr string
  | FatalUnlock

datatype 'a outcome = Returns 'a | Panics panic | Blocks

fun obind :: "'a outcome \<Rightarrow> ('a \<Rightarrow> 'b outcome) \<Rightarrow> 'b outcome" where
  "obind (Returns x) f = f x"
| "obind (Panics p) f = Panics p"
| "obind Blocks f = Blocks"

fun value_of :: "('a \<times> 's) outcome \<Rightarrow> 'a outcome" where
  "value_of (Returns (x, s)) = Returns x"
| "value_of (Panics p) = Panics p"
| "value_of Blocks = Blocks"

subsection \<open>\<open>big.Int\<close>\<close>

text \<open>\<open>x.Cmp(y)\<close> is -1, 0 or 1.\<close>

definition Cmp :: "int \<Rightarrow> int \<Rightarrow> int" where
  "Cmp x y = (if x < y then - 1 else if x = y then 0 else 1)"

text \<open>\<open>x.String()\<close>: the decimal digits of \<open>x\<close>, after a minus sign when \<open>x < 0\<close>.\<close>

definition digit :: "nat \<Rightarrow> char" where
  "digit n = char_of (48 + n)"

function decimal :: "nat \<Rightarrow> string" where
  "decimal n = (if n < 10 then [digit n] else decimal (n div 10) @ [digit (n mod 10)])"
  by pat_completeness auto
termination
  by (relation "measure (\<lambda>n. n)") auto

definition big_String :: "int \<Rightarrow> string" where
  "big_String x = (if x < 0 then CHR ''-'' # decimal (nat (- x)) else decimal (nat x))"

subsection \<open>Values of type \<open>interface{}\<close> and type assertions\<close>

text \<open>
  A value of type \<open>interface{}\<close> carries its dynamic type. \<open>val.(T)\<close> returns the value
  when its dynamic type is \<open>T\<close> and panics otherwise; \<open>uint\<close> and \<open>uint64\<close> are
  different types.
\<close>

datatype any =
    ANil
  | AUint16 uint16
  | AUint32 uint32
  | AUint64 uint64
  | AUint uint
  | ABigInt int
  | ADuration duration
  | AString string
  | ABool bool
  | AFloat32 float32
  | ALink "int option"

fun type_name :: "any \<Rightarrow> string" where
  "type_name ANil = ''nil''"
| "type_name (AUint16 v) = ''uint16''"
| "type_name (AUint32 v) = ''uint32''"
| "type_name (AUint64 v) = ''uint64''"
| "type_name (AUint v) = ''uint''"
| "type_name (ABigInt v) = ''*big.Int''"
| "type_name (ADuration v) = ''time.Duration''"
| "type_name (AString v) = ''string''"
| "type_name (ABool v) = ''bool''"
| "type_name (AFloat32 v) = ''float32''"
| "type_name (ALink v) = ''*assets.Link''"

fun as_uint16 :: "any \<Rightarrow> uint16 outcome" where
  "as_uint16 (AUint16 v) = Returns v"
| "as_uint16 a = Panics (InterfaceConversion (type_name a) ''uint16'')"

fun as_uint32 :: "any \<Rightarrow> uint32 outcome" where
  "as_uint32 (AUint32 v) = Returns v"
| "as_uint32 a = Panics (InterfaceConversion (type_name a) ''uint32'')"

fun as_uint64 :: "any \<Rightarrow> uint64 outcome" where
  "as_uint64 (AUint64 v) = Returns v"
| "as_uint64 a = Panics (InterfaceConversion (type_name a) ''uint64'')"

fun as_uint :: "any \<Rightarrow> uint outcome" where
  "as_uint (AUint v) = Returns v"
| "as_uint a = Panics (InterfaceConversion (type_name a) ''uint'')"

fun as_BigInt :: "any \<Rightarrow> int outcome" where
  "as_BigInt (ABigInt v) = Returns v"
| "as_BigInt a = Panics (InterfaceConversion (type_name a) ''*big.Int'')"

fun as_Duration :: "any \<Rightarrow> duration outcome" where
  "as_Duration (ADuration v) = Returns v"
| "as_Duration a = Panics (InterfaceConversion (type_name a) ''time.Duration'')"

fun as_string :: "any \<Rightarrow> string outcome" where
  "as_string (AString v) = Returns v"
| "as_string a = Panics (InterfaceConversion (type_name a) ''string'')"

fun as_bool :: "any \<Rightarrow> bool outcome" where
  "as_bool (ABool v) = Returns v"
| "as_bool a = Panics (InterfaceConversion (type_name a) ''bool'')"

fun as_float32 :: "any \<Rightarrow> float32 outcome" where
  "as_float32 (AFloat32 v) = Returns v"
| "as_float32 a = Panics (InterfaceConversion (type_name a) ''float32'')"

fun as_Link :: "any \<Rightarrow> int option outcome" where
  "as_Link (ALink v) = Returns v"
| "as_Link a = Panics (InterfaceConversion (type_name a) ''*assets.Link'')"

section \<open>The process environment and the packages outside \<open>src/\<close>\<close>

text \<open>
  \<open>sys\<close> holds what the configuration code reads and is not under \<open>src/\<close>:
  \<^item> \<open>environ\<close>: the process environment, as \<open>os.LookupEnv\<close> reads it;
  \<^item> the parse functions of package \<open>core/store/config\<close>. Each is a parameter, typed by
    the Go type of the value it returns on success: \<open>ParseUint64\<close> returns a \<open>uint64\<close>,
    which is the type the getters \<open>EvmGasBumpThreshold\<close>, \<open>EvmMaxQueuedTransactions\<close>,
    \<open>EvmGasLimitDefault\<close>, \<open>EvmGasLimitTransfer\<close>, \<open>MinRequiredOutgoingConfirmations\<close> and
    \<open>EvmHeadTrackerMaxBufferSize\<close> assert of its result; \<open>Inl\<close> is the parse error;
  \<^item> \<open>PriceBump\<close>: go-ethereum's \<open>core.DefaultTxPoolConfig.PriceBump\<close>;
  \<^item> \<open>SanityCheckLocalConfig\<close>: libocr's check of the local OCR configuration;
  \<^item> \<open>float32_of_float64\<close>: Go's conversion \<open>float32(x)\<close> of a \<open>float64\<close>.
\<close>

record LocalConfig =
  BlockchainTimeout :: duration
  ContractConfigConfirmations :: uint16
  ContractConfigTrackerPollInterval :: duration
  ContractConfigTrackerSubscribeInterval :: duration
  ContractTransmitterTransmitTimeout :: duration
  DatabaseTimeout :: duration
  DataSourceTimeout :: duration
  DataSourceGracePeriod :: duration

record sys =
  environ :: "string \<rightharpoonup> string"
  ParseUint16 :: "string \<Rightarrow> error + uint16"
  ParseUint32 :: "string \<Rightarrow> error + uint32"
  ParseUint64 :: "string \<Rightarrow> error + uint64"
  ParseBigInt :: "string \<Rightarrow> error + int"
  ParseDuration :: "string \<Rightarrow> error + duration"
  ParseString :: "string \<Rightarrow> error + string"
  ParseBool :: "string \<Rightarrow> error + bool"
  ParseF32 :: "string \<Rightarrow> error + float32"
  ParseLink :: "string \<Rightarrow> error + int option"
  PriceBump :: uint64
  SanityCheckLocalConfig :: "LocalConfig \<Rightarrow> error option"
  float32_of_float64 :: "float64 \<Rightarrow> float32"

text \<open>
  A parse function as \<open>lookupEnv\<close> receives it, of Go type
  \<open>func(string) (interface{}, error)\<close>: the value carries the dynamic type. With an
  error the value is not read.
\<close>

type_synonym parser = "string \<Rightarrow> any \<times> error option"

definition as_parser :: "('a \<Rightarrow> any) \<Rightarrow> (string \<Rightarrow> error + 'a) \<Rightarrow> parser" where
  "as_parser tag p s = (case p s of Inl e \<Rightarrow> (ANil, Some e) | Inr v \<Rightarrow> (tag v, None))"

definition config_ParseUint16 :: "sys \<Rightarrow> parser" where
  "config_ParseUint16 S = as_parser AUint16 (ParseUint16 S)"

definition config_ParseUint32 :: "sys \<Rightarrow> parser" where
  "config_ParseUint32 S = as_parser AUint32 (ParseUint32 S)"

definition config_ParseUint64 :: "sys \<Rightarrow> parser" where
  "config_ParseUint64 S = as_parser AUint64 (ParseUint64 S)"

definition config_ParseBigInt :: "sys \<Rightarrow> parser" where
  "config_ParseBigInt S = as_parser ABigInt (ParseBigInt S)"

definition config_ParseDuration :: "sys \<Rightarrow> parser" where
  "config_ParseDuration S = as_parser ADuration (ParseDuration S)"

definition config_ParseString :: "sys \<Rightarrow> parser" where
  "config_ParseString S = as_parser AString (ParseString S)"

definition config_ParseBool :: "sys \<Rightarrow> parser" where
  "config_ParseBool S = as_parser ABool (ParseBool S)"

definition config_ParseF32 :: "sys \<Rightarrow> parser" where
  "config_ParseF32 S = as_parser AFloat32 (ParseF32 S)"

definition config_ParseLink :: "sys \<Rightarrow> parser" where
  "config_ParseLink S = as_parser ALink (ParseLink S)"

subsection \<open>\<open>lookupEnv\<close>\<close>

text \<open>
  A line of the log: \<open>logger.Errorw\<close> with its message and the values of the keys
  \<open>value\<close>, \<open>key\<close> and \<open>error\<close>.
\<close>

datatype logline = Errorw string string string error

text \<open>
  \<open>lookupEnv\<close> returns the pair the Go function returns, and the lines it logs. The
  message is formatted with the value \<open>s\<close>, as in the source.
\<close>

definition lookupEnv :: "(string \<rightharpoonup> string) \<Rightarrow> string \<Rightarrow> parser \<Rightarrow> (any \<times> bool) \<times> logline list" where
  "lookupEnv env k parse =
     (case env k of
        Some s \<Rightarrow>
          (case parse s of
             (val, Some err) \<Rightarrow>
               ((ANil, False),
                [Errorw (''Invalid value provided for '' @ s @ '', falling back to default.'') s k err])
           | (val, None) \<Rightarrow> ((val, True), []))
      | None \<Rightarrow> ((ANil, False), []))"

section \<open>The chain-scoped configuration\<close>

text \<open>
  \<open>null.Int\<close>, \<open>null.String\<close>, \<open>null.Bool\<close> and \<open>null.Float\<close>: a value and the flag
  \<open>Valid\<close>. The two are independent fields, as in Go.
\<close>

record 'a null =
  Value :: 'a
  Valid :: bool

text \<open>
  \<open>evmtypes.ChainCfg\<close>, the persisted overrides. The type is not under \<open>src/\<close>; the
  fields are the ones the getters read, with the types they are read at.
\<close>

record ChainCfg =
  cfg_BlockHistoryEstimatorBlockDelay :: "int64 null"
  cfg_BlockHistoryEstimatorBlockHistorySize :: "int64 null"
  cfg_EthTxResendAfterThreshold :: "duration option"
  cfg_EvmFinalityDepth :: "int64 null"
  cfg_EvmGasBumpPercent :: "int64 null"
  cfg_EvmGasBumpTxDepth :: "int64 null"
  cfg_EvmGasBumpWei :: "int option"
  cfg_EvmGasLimitDefault :: "int64 null"
  cfg_EvmGasLimitMultiplier :: "float64 null"
  cfg_EvmGasPriceDefault :: "int option"
  cfg_EvmHeadTrackerHistoryDepth :: "int64 null"
  cfg_EvmHeadTrackerMaxBufferSize :: "int64 null"
  cfg_EvmHeadTrackerSamplingInterval :: "duration option"
  cfg_EvmLogBackfillBatchSize :: "int64 null"
  cfg_EvmMaxGasPriceWei :: "int option"
  cfg_EvmNonceAutoSync :: "bool null"
  cfg_EvmRPCDefaultBatchSize :: "int64 null"
  cfg_FlagsContractAddress :: "string null"
  cfg_GasEstimatorMode :: "string null"
  cfg_MinRequiredOutgoingConfirmations :: "int64 null"

text \<open>
  \<open>chainSpecificConfigDefaultSet\<close>, the defaults of one chain. The type is not under
  \<open>src/\<close>; the fields are the ones the getters read.
\<close>

record chainSpecificConfigDefaultSet =
  balanceMonitorBlockDelay :: uint16
  balanceMonitorEnabled :: bool
  blockEmissionIdleWarningThreshold :: duration
  blockHistoryEstimatorBatchSize :: uint32
  blockHistoryEstimatorBlockDelay :: uint16
  blockHistoryEstimatorBlockHistorySize :: uint16
  blockHistoryEstimatorTransactionPercentile :: uint16
  ethTxReaperInterval :: duration
  ethTxReaperThreshold :: duration
  ethTxResendAfterThreshold :: duration
  finalityDepth :: uint
  flagsContractAddress :: string
  gasBumpPercent :: uint16
  gasBumpThreshold :: uint64
  gasBumpTxDepth :: uint16
  gasBumpWei :: int
  gasEstimatorMode :: string
  gasLimitDefault :: uint64
  gasLimitMultiplier :: float32
  gasLimitTransfer :: uint64
  gasPriceDefault :: int
  headTrackerHistoryDepth :: uint
  headTrackerMaxBufferSize :: uint
  headTrackerSamplingInterval :: duration
  linkContractAddress :: string
  logBackfillBatchSize :: uint32
  maxGasPriceWei :: int
  maxInFlightTransactions :: uint32
  maxQueuedTransactions :: uint64
  minGasPriceWei :: int
  minIncomingConfirmations :: uint32
  minRequiredOutgoingConfirmations :: uint64
  minimumContractPayment :: "int option"
  nonceAutoSync :: bool
  ocrContractConfirmations :: uint16
  rpcDefaultBatchSize :: uint32

text \<open>
  \<open>config.GeneralConfig\<close>, the global configuration: the methods the chain-scoped
  configuration and the chain collection call. \<open>GeneralConfig_Validate\<close> is what its
  \<open>Validate()\<close> returns.
\<close>

record GeneralConfig =
  EthereumDisabled :: bool
  DefaultChainID :: "int option"
  GeneralConfig_Validate :: "error option"
  OCRBlockchainTimeout :: "duration \<Rightarrow> duration"
  OCRContractPollInterval :: "duration \<Rightarrow> duration"
  OCRContractSubscribeInterval :: "duration \<Rightarrow> duration"
  OCRContractTransmitterTransmitTimeout :: duration
  OCRDatabaseTimeout :: duration
  OCRObservationTimeout :: "duration \<Rightarrow> duration"
  OCRObservationGracePeriod :: duration

text \<open>
  \<open>chainScopedConfigORM\<close>: \<open>store\<close> is what \<open>orm.store(name, value)\<close> returns, nil when
  the value was persisted.
\<close>

record chainScopedConfigORM =
  store :: "string \<Rightarrow> int \<Rightarrow> error option"

text \<open>
  \<open>sync.RWMutex\<close>, as one goroutine sees it: the number of read locks held and whether
  the write lock is held. \<open>Lock\<close> waits until no lock is held and \<open>RLock\<close> until the
  write lock is free; with no other goroutine to release a lock, waiting is for ever.
\<close>

record RWMutex =
  readers :: nat
  writer :: bool

definition RLock :: "RWMutex \<Rightarrow> RWMutex outcome" where
  "RLock m = (if writer m then Blocks else Returns (m\<lparr>readers := readers m + 1\<rparr>))"

definition Lock :: "RWMutex \<Rightarrow> RWMutex outcome" where
  "Lock m = (if writer m \<or> 0 < readers m then Blocks else Returns (m\<lparr>writer := True\<rparr>))"

definition Unlock :: "RWMutex \<Rightarrow> RWMutex outcome" where
  "Unlock m = (if writer m then Returns (m\<lparr>writer := False\<rparr>) else Panics FatalUnlock)"

record chainScopedConfig =
  GeneralConfig :: GeneralConfig
  orm :: chainScopedConfigORM
  persistedCfg :: ChainCfg
  defaultSet :: chainSpecificConfigDefaultSet
  id' :: int
  persistMu :: RWMutex


subsection \<open>The getters\<close>

text \<open>
  Each getter is the Go method of its name, in the order of the source
  (\<open>EvmDefaultBatchSize\<close> stands before its caller). A getter returns
  an \<open>outcome\<close>: a type assertion \<open>val.(T)\<close> can panic. The lines \<open>lookupEnv\<close> logs
  are its only other effect and are not passed on. Conversions between integer types
  of the same width keep the bits (\<open>uint64(x)\<close> and \<open>uint(x)\<close> of an \<open>int64\<close>);
  a conversion to a narrower type truncates (\<open>ucast\<close>).

  The source of \<open>EvmMaxQueuedTransactions\<close> reads \<open>nf ok\<close> where every other getter reads
  \<open>if ok\<close>; it is embedded as \<open>if ok\<close>. \<open>getPersistedCfg\<close> locks a field \<open>c.mu\<close> that
  the struct does not have and is called nowhere; it is not embedded.
\<close>

definition EvmBalanceMonitorBlockDelay :: "sys \<Rightarrow> chainScopedConfig \<Rightarrow> uint16 outcome" where
  "EvmBalanceMonitorBlockDelay S c =
     (case fst (lookupEnv (environ S) ''ETH_BALANCE_MONITOR_BLOCK_DELAY'' (config_ParseUint16 S)) of
        (val, ok) \<Rightarrow>
          if ok then as_uint16 val
          else Returns (balanceMonitorBlockDelay (defaultSet c)))"

definition EvmGasBumpThreshold :: "sys \<Rightarrow> chainScopedConfig \<Rightarrow> uint64 outcome" where
  "EvmGasBumpThreshold S c =
     (case fst (lookupEnv (environ S) ''ETH_GAS_BUMP_THRESHOLD'' (config_ParseUint64 S)) of
        (val, ok) \<Rightarrow>
          if ok then as_uint64 val
          else Returns (gasBumpThreshold (defaultSet c)))"

definition EvmGasBumpWei :: "sys \<Rightarrow> chainScopedConfig \<Rightarrow> int outcome" where
  "EvmGasBumpWei S c =
     (case fst (lookupEnv (environ S) ''ETH_GAS_BUMP_WEI'' (config_ParseBigInt S)) of
        (val, ok) \<Rightarrow>
          if ok then as_BigInt val
          else (case cfg_EvmGasBumpWei (persistedCfg c) of
                  Some p \<Rightarrow> Returns p
                | None \<Rightarrow> Returns (gasBumpWei (defaultSet c))))"

definition EvmMaxInFlightTransactions :: "sys \<Rightarrow> chainScopedConfig \<Rightarrow> uint32 outcome" where
  "EvmMaxInFlightTransactions S c =
     (case fst (lookupEnv (environ S) ''ETH_MAX_IN_FLIGHT_TRANSACTIONS'' (config_ParseUint32 S)) of
        (val, ok) \<Rightarrow>
          if ok then as_uint32 val
          else Returns (maxInFlightTransactions (defaultSet c)))"

definition EvmMaxGasPriceWei :: "sys \<Rightarrow> chainScopedConfig \<Rightarrow> int outcome" where
  "EvmMaxGasPriceWei S c =
     (case fst (lookupEnv (environ S) ''ETH_MAX_GAS_PRICE_WEI'' (config_ParseBigInt S)) of
        (val, ok) \<Rightarrow>
          if ok then as_BigInt val
          else (case cfg_EvmMaxGasPriceWei (persistedCfg c) of
                  Some p \<Rightarrow> Returns p
                | None \<Rightarrow> Returns (maxGasPriceWei (defaultSet c))))"

definition EvmMaxQueuedTransactions :: "sys \<Rightarrow> chainScopedConfig \<Rightarrow> uint64 outcome" where
  "EvmMaxQueuedTransactions S c =
     (case fst (lookupEnv (environ S) ''ETH_MAX_QUEUED_TRANSACTIONS'' (config_ParseUint64 S)) of
        (val, ok) \<Rightarrow>
          if ok then as_uint64 val
          else Returns (maxQueuedTransactions (defaultSet c)))"

definition EvmMinGasPriceWei :: "sys \<Rightarrow> chainScopedConfig \<Rightarrow> int outcome" where
  "EvmMinGasPriceWei S c =
     (case fst (lookupEnv (environ S) ''ETH_MIN_GAS_PRICE_WEI'' (config_ParseBigInt S)) of
        (val, ok) \<Rightarrow>
          if ok then as_BigInt val
          else Returns (minGasPriceWei (defaultSet c)))"

definition EvmGasLimitDefault :: "sys \<Rightarrow> chainScopedConfig \<Rightarrow> uint64 outcome" where
  "EvmGasLimitDefault S c =
     (case fst (lookupEnv (environ S) ''ETH_GAS_LIMIT_DEFAULT'' (config_ParseUint64 S)) of
        (val, ok) \<Rightarrow>
          if ok then as_uint64 val
          else if Valid (cfg_EvmGasLimitDefault (persistedCfg c)) then Returns (Value (cfg_EvmGasLimitDefault (persistedCfg c)))
          else Returns (gasLimitDefault (defaultSet c)))"

definition EvmGasLimitTransfer :: "sys \<Rightarrow> chainScopedConfig \<Rightarrow> uint64 outcome" where
  "EvmGasLimitTransfer S c =
     (case fst (lookupEnv (environ S) ''ETH_GAS_LIMIT_TRANSFER'' (config_ParseUint64 S)) of
        (val, ok) \<Rightarrow>
          if ok then as_uint64 val
          else Returns (gasLimitTransfer (defaultSet c)))"

text \<open>
  \<open>EvmGasPriceDefault\<close> takes the read lock of \<open>persistMu\<close> when the environment gives no
  value, and its deferred call is \<open>c.persistMu.RLock()\<close> again: the getter returns the
  configuration with two more read locks held.
\<close>

definition EvmGasPriceDefault :: "sys \<Rightarrow> chainScopedConfig \<Rightarrow> (int \<times> chainScopedConfig) outcome" where
  "EvmGasPriceDefault S c =
     (case fst (lookupEnv (environ S) ''ETH_GAS_PRICE_DEFAULT'' (config_ParseBigInt S)) of
        (val, ok) \<Rightarrow>
          if ok then obind (as_BigInt val) (\<lambda>v. Returns (v, c))
          else
            obind (RLock (persistMu c)) (\<lambda>m1.
              let r = (case cfg_EvmGasPriceDefault (persistedCfg c) of
                         Some p \<Rightarrow> p
                       | None \<Rightarrow> gasPriceDefault (defaultSet c))
              in obind (RLock m1) (\<lambda>m2. Returns (r, c\<lparr>persistMu := m2\<rparr>))))"

text \<open>
  \<open>EvmFinalityDepth\<close> and \<open>EvmHeadTrackerHistoryDepth\<close> parse with \<open>config.ParseUint64\<close>
  and assert \<open>val.(uint)\<close>.
\<close>

definition EvmFinalityDepth :: "sys \<Rightarrow> chainScopedConfig \<Rightarrow> uint outcome" where
  "EvmFinalityDepth S c =
     (case fst (lookupEnv (environ S) ''ETH_FINALITY_DEPTH'' (config_ParseUint64 S)) of
        (val, ok) \<Rightarrow>
          if ok then as_uint val
          else if Valid (cfg_EvmFinalityDepth (persistedCfg c)) then Returns (Value (cfg_EvmFinalityDepth (persistedCfg c)))
          else Returns (finalityDepth (defaultSet c)))"

definition EvmHeadTrackerHistoryDepth :: "sys \<Rightarrow> chainScopedConfig \<Rightarrow> uint outcome" where
  "EvmHeadTrackerHistoryDepth S c =
     (case fst (lookupEnv (environ S) ''ETH_HEAD_TRACKER_HISTORY_DEPTH'' (config_ParseUint64 S)) of
        (val, ok) \<Rightarrow>
          if ok then as_uint val
          else if Valid (cfg_EvmHeadTrackerHistoryDepth (persistedCfg c)) then Returns (Value (cfg_EvmHeadTrackerHistoryDepth (persistedCfg c)))
          else Returns (headTrackerHistoryDepth (defaultSet c)))"

definition EvmHeadTrackerSamplingInterval :: "sys \<Rightarrow> chainScopedConfig \<Rightarrow> duration outcome" where
  "EvmHeadTrackerSamplingInterval S c =
     (case fst (lookupEnv (environ S) ''ETH_HEAD_TRACKER_SAMPLING_INTERVAL'' (config_ParseDuration S)) of
        (val, ok) \<Rightarrow>
          if ok then as_Duration val
          else (case cfg_EvmHeadTrackerSamplingInterval (persistedCfg c) of
                  Some p \<Rightarrow> Returns p
                | None \<Rightarrow> Returns (headTrackerSamplingInterval (defaultSet c))))"

definition BlockEmissionIdleWarningThreshold :: "sys \<Rightarrow> chainScopedConfig \<Rightarrow> duration outcome" where
  "BlockEmissionIdleWarningThreshold S c =
     Returns (blockEmissionIdleWarningThreshold (defaultSet c))"

definition EthTxResendAfterThreshold :: "sys \<Rightarrow> chainScopedConfig \<Rightarrow> duration outcome" where
  "EthTxResendAfterThreshold S c =
     (case fst (lookupEnv (environ S) ''ETH_TX_RESEND_AFTER_THRESHOLD'' (config_ParseDuration S)) of
        (val, ok) \<Rightarrow>
          if ok then as_Duration val
          else (case cfg_EthTxResendAfterThreshold (persistedCfg c) of
                  Some p \<Rightarrow> Returns p
                | None \<Rightarrow> Returns (ethTxResendAfterThreshold (defaultSet c))))"

definition EvmDefaultBatchSize :: "sys \<Rightarrow> chainScopedConfig \<Rightarrow> uint32 outcome" where
  "EvmDefaultBatchSize S c =
     (case fst (lookupEnv (environ S) ''ETH_RPC_DEFAULT_BATCH_SIZE'' (config_ParseUint32 S)) of
        (val, ok) \<Rightarrow>
          if ok then as_uint32 val
          else Returns (rpcDefaultBatchSize (defaultSet c)))"

definition BlockHistoryEstimatorBatchSize :: "sys \<Rightarrow> chainScopedConfig \<Rightarrow> uint32 outcome" where
  "BlockHistoryEstimatorBatchSize S c =
     obind
       (case fst (lookupEnv (environ S) ''BLOCK_HISTORY_ESTIMATOR_BATCH_SIZE'' (config_ParseUint32 S)) of
          (val, ok) \<Rightarrow>
            if ok then as_uint32 val
            else Returns (blockHistoryEstimatorBatchSize (defaultSet c)))
       (\<lambda>size. if 0 < size then Returns size else EvmDefaultBatchSize S c)"

definition BlockHistoryEstimatorBlockDelay :: "sys \<Rightarrow> chainScopedConfig \<Rightarrow> uint16 outcome" where
  "BlockHistoryEstimatorBlockDelay S c =
     (case fst (lookupEnv (environ S) ''BLOCK_HISTORY_ESTIMATOR_BLOCK_DELAY'' (config_ParseUint16 S)) of
        (val, ok) \<Rightarrow>
          if ok then as_uint16 val
          else if Valid (cfg_BlockHistoryEstimatorBlockDelay (persistedCfg c)) then Returns (ucast (Value (cfg_BlockHistoryEstimatorBlockDelay (persistedCfg c))))
          else Returns (blockHistoryEstimatorBlockDelay (defaultSet c)))"

definition BlockHistoryEstimatorBlockHistorySize :: "sys \<Rightarrow> chainScopedConfig \<Rightarrow> uint16 outcome" where
  "BlockHistoryEstimatorBlockHistorySize S c =
     (case fst (lookupEnv (environ S) ''BLOCK_HISTORY_ESTIMATOR_BLOCK_HISTORY_SIZE'' (config_ParseUint16 S)) of
        (val, ok) \<Rightarrow>
          if ok then as_uint16 val
          else if Valid (cfg_BlockHistoryEstimatorBlockHistorySize (persistedCfg c)) then Returns (ucast (Value (cfg_BlockHistoryEstimatorBlockHistorySize (persistedCfg c))))
          else Returns (blockHistoryEstimatorBlockHistorySize (defaultSet c)))"

definition BlockHistoryEstimatorTransactionPercentile :: "sys \<Rightarrow> chainScopedConfig \<Rightarrow> uint16 outcome" where
  "BlockHistoryEstimatorTransactionPercentile S c =
     (case fst (lookupEnv (environ S) ''BLOCK_HISTORY_ESTIMATOR_TRANSACTION_PERCENTILE'' (config_ParseUint16 S)) of
        (val, ok) \<Rightarrow>
          if ok then as_uint16 val
          else Returns (blockHistoryEstimatorTransactionPercentile (defaultSet c)))"

definition GasEstimatorMode :: "sys \<Rightarrow> chainScopedConfig \<Rightarrow> string outcome" where
  "GasEstimatorMode S c =
     (if EthereumDisabled (GeneralConfig c) then Returns ''FixedPrice''
      else
        (case fst (lookupEnv (environ S) ''GAS_ESTIMATOR_MODE'' (config_ParseString S)) of
           (val, ok) \<Rightarrow>
             if ok then as_string val
             else if Valid (cfg_GasEstimatorMode (persistedCfg c))
               then Returns (Value (cfg_GasEstimatorMode (persistedCfg c)))
             else Returns (gasEstimatorMode (defaultSet c))))"

definition LinkContractAddress :: "sys \<Rightarrow> chainScopedConfig \<Rightarrow> string outcome" where
  "LinkContractAddress S c =
     (case fst (lookupEnv (environ S) ''LINK_CONTRACT_ADDRESS'' (config_ParseString S)) of
        (val, ok) \<Rightarrow>
          if ok then as_string val
          else Returns (linkContractAddress (defaultSet c)))"

definition OCRContractConfirmations :: "sys \<Rightarrow> chainScopedConfig \<Rightarrow> uint16 \<Rightarrow> uint16 outcome" where
  "OCRContractConfirmations S c override =
     (if override \<noteq> 0 then Returns override
      else
        (case fst (lookupEnv (environ S) ''OCR_CONTRACT_CONFIRMATIONS'' (config_ParseUint16 S)) of
           (val, ok) \<Rightarrow>
             if ok then as_uint16 val
             else Returns (ocrContractConfirmations (defaultSet c))))"

definition MinIncomingConfirmations :: "sys \<Rightarrow> chainScopedConfig \<Rightarrow> uint32 outcome" where
  "MinIncomingConfirmations S c =
     (case fst (lookupEnv (environ S) ''MIN_INCOMING_CONFIRMATIONS'' (config_ParseUint32 S)) of
        (val, ok) \<Rightarrow>
          if ok then as_uint32 val
          else Returns (minIncomingConfirmations (defaultSet c)))"

definition MinRequiredOutgoingConfirmations :: "sys \<Rightarrow> chainScopedConfig \<Rightarrow> uint64 outcome" where
  "MinRequiredOutgoingConfirmations S c =
     (case fst (lookupEnv (environ S) ''MIN_REQUIRED_OUTGOING_CONFIRMATIONS'' (config_ParseUint64 S)) of
        (val, ok) \<Rightarrow>
          if ok then as_uint64 val
          else if Valid (cfg_MinRequiredOutgoingConfirmations (persistedCfg c)) then Returns (Value (cfg_MinRequiredOutgoingConfirmations (persistedCfg c)))
          else Returns (minRequiredOutgoingConfirmations (defaultSet c)))"

definition MinimumContractPayment :: "sys \<Rightarrow> chainScopedConfig \<Rightarrow> int option outcome" where
  "MinimumContractPayment S c =
     (case fst (lookupEnv (environ S) ''MINIMUM_CONTRACT_PAYMENT_LINK_JUELS'' (config_ParseLink S)) of
        (val, ok) \<Rightarrow>
          if ok then as_Link val
          else Returns (minimumContractPayment (defaultSet c)))"

definition EvmGasBumpTxDepth :: "sys \<Rightarrow> chainScopedConfig \<Rightarrow> uint16 outcome" where
  "EvmGasBumpTxDepth S c =
     (case fst (lookupEnv (environ S) ''ETH_GAS_BUMP_TX_DEPTH'' (config_ParseUint16 S)) of
        (val, ok) \<Rightarrow>
          if ok then as_uint16 val
          else if Valid (cfg_EvmGasBumpTxDepth (persistedCfg c)) then Returns (ucast (Value (cfg_EvmGasBumpTxDepth (persistedCfg c))))
          else Returns (gasBumpTxDepth (defaultSet c)))"

definition EvmGasBumpPercent :: "sys \<Rightarrow> chainScopedConfig \<Rightarrow> uint16 outcome" where
  "EvmGasBumpPercent S c =
     (case fst (lookupEnv (environ S) ''ETH_GAS_BUMP_PERCENT'' (config_ParseUint16 S)) of
        (val, ok) \<Rightarrow>
          if ok then as_uint16 val
          else if Valid (cfg_EvmGasBumpPercent (persistedCfg c)) then Returns (ucast (Value (cfg_EvmGasBumpPercent (persistedCfg c))))
          else Returns (gasBumpPercent (defaultSet c)))"

definition EvmNonceAutoSync :: "sys \<Rightarrow> chainScopedConfig \<Rightarrow> bool outcome" where
  "EvmNonceAutoSync S c =
     (case fst (lookupEnv (environ S) ''ETH_NONCE_AUTO_SYNC'' (config_ParseBool S)) of
        (val, ok) \<Rightarrow>
          if ok then as_bool val
          else if Valid (cfg_EvmNonceAutoSync (persistedCfg c)) then Returns (Value (cfg_EvmNonceAutoSync (persistedCfg c)))
          else Returns (nonceAutoSync (defaultSet c)))"

definition EvmGasLimitMultiplier :: "sys \<Rightarrow> chainScopedConfig \<Rightarrow> float32 outcome" where
  "EvmGasLimitMultiplier S c =
     (case fst (lookupEnv (environ S) ''ETH_GAS_LIMIT_MULTIPLIER'' (config_ParseF32 S)) of
        (val, ok) \<Rightarrow>
          if ok then as_float32 val
          else if Valid (cfg_EvmGasLimitMultiplier (persistedCfg c)) then Returns (float32_of_float64 S (Value (cfg_EvmGasLimitMultiplier (persistedCfg c))))
          else Returns (gasLimitMultiplier (defaultSet c)))"

text \<open>\<open>EvmHeadTrackerMaxBufferSize\<close> asserts \<open>val.(uint64)\<close> and converts to \<open>uint\<close>.\<close>

definition EvmHeadTrackerMaxBufferSize :: "sys \<Rightarrow> chainScopedConfig \<Rightarrow> uint outcome" where
  "EvmHeadTrackerMaxBufferSize S c =
     (case fst (lookupEnv (environ S) ''ETH_HEAD_TRACKER_MAX_BUFFER_SIZE'' (config_ParseUint64 S)) of
        (val, ok) \<Rightarrow>
          if ok then as_uint64 val
          else if Valid (cfg_EvmHeadTrackerMaxBufferSize (persistedCfg c)) then Returns (Value (cfg_EvmHeadTrackerMaxBufferSize (persistedCfg c)))
          else Returns (headTrackerMaxBufferSize (defaultSet c)))"

definition EthTxReaperInterval :: "sys \<Rightarrow> chainScopedConfig \<Rightarrow> duration outcome" where
  "EthTxReaperInterval S c =
     (case fst (lookupEnv (environ S) ''ETH_TX_REAPER_INTERVAL'' (config_ParseDuration S)) of
        (val, ok) \<Rightarrow>
          if ok then as_Duration val
          else Returns (ethTxReaperInterval (defaultSet c)))"

definition EthTxReaperThreshold :: "sys \<Rightarrow> chainScopedConfig \<Rightarrow> duration outcome" where
  "EthTxReaperThreshold S c =
     (case fst (lookupEnv (environ S) ''ETH_TX_REAPER_THRESHOLD'' (config_ParseDuration S)) of
        (val, ok) \<Rightarrow>
          if ok then as_Duration val
          else Returns (ethTxReaperThreshold (defaultSet c)))"

definition EvmLogBackfillBatchSize :: "sys \<Rightarrow> chainScopedConfig \<Rightarrow> uint32 outcome" where
  "EvmLogBackfillBatchSize S c =
     (case fst (lookupEnv (environ S) ''ETH_LOG_BACKFILL_BATCH_SIZE'' (config_ParseUint32 S)) of
        (val, ok) \<Rightarrow>
          if ok then as_uint32 val
          else if Valid (cfg_EvmLogBackfillBatchSize (persistedCfg c)) then Returns (ucast (Value (cfg_EvmLogBackfillBatchSize (persistedCfg c))))
          else Returns (logBackfillBatchSize (defaultSet c)))"

definition EvmRPCDefaultBatchSize :: "sys \<Rightarrow> chainScopedConfig \<Rightarrow> uint32 outcome" where
  "EvmRPCDefaultBatchSize S c =
     (case fst (lookupEnv (environ S) ''ETH_RPC_DEFAULT_BATCH_SIZE'' (config_ParseUint32 S)) of
        (val, ok) \<Rightarrow>
          if ok then as_uint32 val
          else if Valid (cfg_EvmRPCDefaultBatchSize (persistedCfg c)) then Returns (ucast (Value (cfg_EvmRPCDefaultBatchSize (persistedCfg c))))
          else Returns (rpcDefaultBatchSize (defaultSet c)))"

definition FlagsContractAddress :: "sys \<Rightarrow> chainScopedConfig \<Rightarrow> string outcome" where
  "FlagsContractAddress S c =
     (case fst (lookupEnv (environ S) ''FLAGS_CONTRACT_ADDRESS'' (config_ParseString S)) of
        (val, ok) \<Rightarrow>
          if ok then as_string val
          else if Valid (cfg_FlagsContractAddress (persistedCfg c)) then Returns (Value (cfg_FlagsContractAddress (persistedCfg c)))
          else Returns (flagsContractAddress (defaultSet c)))"

definition BalanceMonitorEnabled :: "sys \<Rightarrow> chainScopedConfig \<Rightarrow> bool outcome" where
  "BalanceMonitorEnabled S c =
     (if EthereumDisabled (GeneralConfig c) then Returns False
      else
        (case fst (lookupEnv (environ S) ''BALANCE_MONITOR_ENABLED'' (config_ParseBool S)) of
           (val, ok) \<Rightarrow>
             if ok then as_bool val
             else Returns (balanceMonitorEnabled (defaultSet c))))"

subsection \<open>\<open>SetEvmGasPriceDefault\<close>\<close>

text \<open>
  The setter returns the error of the Go method and the configuration as the call leaves
  it. \<open>value\<close> is a \<open>*big.Int\<close> that is not nil. The bounds are checked before the
  write lock is taken; the deferred \<open>Unlock\<close> runs after \<open>orm.store\<close> has returned.
\<close>

definition SetEvmGasPriceDefault ::
  "sys \<Rightarrow> chainScopedConfig \<Rightarrow> int \<Rightarrow> (error option \<times> chainScopedConfig) outcome" where
  "SetEvmGasPriceDefault S c v =
     obind (EvmMinGasPriceWei S c) (\<lambda>min.
     obind (EvmMaxGasPriceWei S c) (\<lambda>max.
       if Cmp v min < 0 then
         Returns (Some (Errorf
           ''cannot set default gas price to %s, it is below the minimum allowed value of %s''
           [FStr (big_String v), FStr (big_String min)]), c)
       else if Cmp v max > 0 then
         Returns (Some (Errorf
           ''cannot set default gas price to %s, it is above the maximum allowed value of %s''
           [FStr (big_String v), FStr (big_String max)]), c)
       else
         obind (Lock (persistMu c)) (\<lambda>m.
           let c1 = c\<lparr>persistMu := m,
                      persistedCfg := (persistedCfg c)\<lparr>cfg_EvmGasPriceDefault := Some v\<rparr>\<rparr>;
               err = store (orm c1) ''EvmGasPriceDefault'' v
           in obind (Unlock (persistMu c1)) (\<lambda>m'. Returns (err, c1\<lparr>persistMu := m'\<rparr>)))))"

subsection \<open>\<open>Validate\<close>\<close>

text \<open>
  \<open>validate\<close> runs the checks in the order of the source; each getter is called where
  the source calls it, so a getter that does not return ends the validation there.
  The second operand of \<open>&&\<close> is evaluated only when the first is true.
\<close>

definition validate :: "sys \<Rightarrow> chainScopedConfig \<Rightarrow> (error option \<times> chainScopedConfig) outcome" where
  "validate S c =
     obind (EvmGasBumpPercent S c) (\<lambda>ethGasBumpPercent.
     obind (if (ucast ethGasBumpPercent :: uint64) < PriceBump S
            then obind (EvmGasBumpPercent S c) (\<lambda>p.
                   Returns (Combine [None, Some (Errorf
                     ''ETH_GAS_BUMP_PERCENT of %v may not be less than Geth's default of %v''
                     [FUint16 p, FUint64 (PriceBump S)])]))
            else Returns None) (\<lambda>err1.
     obind (EvmGasBumpTxDepth S c) (\<lambda>depth.
     obind (EvmMaxInFlightTransactions S c) (\<lambda>inflight.
     let err2 = (if (ucast depth :: uint32) > inflight
                 then Combine [err1, Some (New
                   ''ETH_GAS_BUMP_TX_DEPTH must be less than or equal to ETH_MAX_IN_FLIGHT_TRANSACTIONS'')]
                 else err1) in
     obind (EvmMinGasPriceWei S c) (\<lambda>min.
     obind (EvmGasPriceDefault S c) (\<lambda>(price, c1).
     let err3 = (if Cmp min price > 0
                 then Combine [err2, Some (New
                   ''ETH_MIN_GAS_PRICE_WEI must be less than or equal to ETH_GAS_PRICE_DEFAULT'')]
                 else err2) in
     obind (EvmMaxGasPriceWei S c1) (\<lambda>max.
     obind (EvmGasPriceDefault S c1) (\<lambda>(price', c2).
     let err4 = (if Cmp max price' < 0
                 then Combine [err3, Some (New
                   ''ETH_MAX_GAS_PRICE_WEI must be greater than or equal to ETH_GAS_PRICE_DEFAULT'')]
                 else err3) in
     obind (EvmHeadTrackerHistoryDepth S c2) (\<lambda>history.
     obind (EvmFinalityDepth S c2) (\<lambda>finality.
     let err5 = (if history < finality
                 then Combine [err4, Some (New
                   ''ETH_HEAD_TRACKER_HISTORY_DEPTH must be equal to or greater than ETH_FINALITY_DEPTH'')]
                 else err4) in
     obind (GasEstimatorMode S c2) (\<lambda>mode.
     obind (if mode = ''BlockHistory''
            then obind (BlockHistoryEstimatorBlockHistorySize S c2) (\<lambda>size. Returns (size \<le> 0))
            else Returns False) (\<lambda>no_history.
     let err6 = (if no_history
                 then Combine [err5, Some (New
                   ''GAS_UPDATER_BLOCK_HISTORY_SIZE must be greater than or equal to 1 if block history estimator is enabled'')]
                 else err5) in
     obind (EvmFinalityDepth S c2) (\<lambda>finality'.
     let err7 = (if finality' < 1
                 then Combine [err6, Some (New
                   ''ETH_FINALITY_DEPTH must be greater than or equal to 1'')]
                 else err6) in
     obind (MinIncomingConfirmations S c2) (\<lambda>confirmations.
     let err8 = (if confirmations < 1
                 then Combine [err7, Some (New
                   ''MIN_INCOMING_CONFIRMATIONS must be greater than or equal to 1'')]
                 else err7) in
     obind (OCRContractConfirmations S c2 0) (\<lambda>ocr_confirmations.
     let override = (0 :: duration);
         lc = \<lparr>BlockchainTimeout = OCRBlockchainTimeout (GeneralConfig c2) override,
               ContractConfigConfirmations = ocr_confirmations,
               ContractConfigTrackerPollInterval = OCRContractPollInterval (GeneralConfig c2) override,
               ContractConfigTrackerSubscribeInterval =
                 OCRContractSubscribeInterval (GeneralConfig c2) override,
               ContractTransmitterTransmitTimeout =
                 OCRContractTransmitterTransmitTimeout (GeneralConfig c2),
               DatabaseTimeout = OCRDatabaseTimeout (GeneralConfig c2),
               DataSourceTimeout = OCRObservationTimeout (GeneralConfig c2) override,
               DataSourceGracePeriod = OCRObservationGracePeriod (GeneralConfig c2)\<rparr>;
         ocrerr = SanityCheckLocalConfig S lc;
         err9 = (if ocrerr \<noteq> None then Combine [err8, ocrerr] else err8)
     in Returns (err9, c2))))))))))))))))"

text \<open>
  \<open>Validate\<close> combines the error of the global configuration's \<open>Validate()\<close> with the
  error of \<open>validate\<close>.
\<close>

definition Validate :: "sys \<Rightarrow> chainScopedConfig \<Rightarrow> (error option \<times> chainScopedConfig) outcome" where
  "Validate S c =
     (let general = GeneralConfig_Validate (GeneralConfig c)
      in obind (validate S c) (\<lambda>(err, c'). Returns (Combine [general, err], c')))"

section \<open>Chain families\<close>

text \<open>\<open>id\<close> is a \<open>*big.Int\<close> that is not nil.\<close>

definition IsArbitrum :: "int \<Rightarrow> bool" where
  "IsArbitrum i = (Cmp i 42161 = 0 \<or> Cmp i 421611 = 0)"

definition IsOptimism :: "int \<Rightarrow> bool" where
  "IsOptimism i = (Cmp i 10 = 0 \<or> Cmp i 69 = 0)"

definition IsL2 :: "int \<Rightarrow> bool" where
  "IsL2 i = (IsOptimism i \<or> IsArbitrum i)"

section \<open>The chain collection\<close>

text \<open>
  \<open>types.Node\<close> and \<open>types.Chain\<close>, the records read from the database (the field
  \<open>EVMChain\<close> of a node, filled by the database layer, is left out).
\<close>

record Node =
  Node_ID :: "32 word"
  Name :: string
  EVMChainID :: int
  WSURL :: string
  HTTPURL :: "string null"
  SendOnly :: bool

record Chain =
  ID :: int
  Nodes :: "Node list"

text \<open>
  A built \<open>chain\<close>. The type is not under \<open>src/\<close>; the collection calls its methods
  \<open>ID()\<close> and \<open>Ready()\<close>: \<open>chain_ID\<close> is the identity, not nil, and \<open>chain_Ready\<close> is what
  \<open>Ready()\<close> returns when it is called.
\<close>

record chain =
  chain_ID :: int
  chain_Ready :: "error option"

text \<open>
  \<open>chainCollection\<close>: \<open>defaultID\<close> is a \<open>*big.Int\<close> that may be nil; the map is keyed by
  the decimal string of the identity. A nil map reads as the empty map.
\<close>

record chainCollection =
  defaultID :: "int option"
  chains :: "string \<rightharpoonup> chain"

text \<open>
  \<open>Get\<close> and \<open>Default\<close> return the pair of the Go methods: the chain (nil is \<open>None\<close>)
  and the error.
\<close>

definition Get :: "chainCollection \<Rightarrow> int option \<Rightarrow> (chain option \<times> error option) outcome" where
  "Get cll i =
     (case i of
        None \<Rightarrow> Panics (PanicStr ''FIXME: return default?'')
      | Some n \<Rightarrow>
          (case chains cll (big_String n) of
             Some c \<Rightarrow>
               (case chain_Ready c of
                  Some err \<Rightarrow>
                    Returns (None, Some (Wrapf err ''chain with ID %d is not ready'' [FBig n]))
                | None \<Rightarrow> Returns (Some c, None))
           | None \<Rightarrow> Returns (None, Some (Errorf ''chain not found with id %d'' [FBig n]))))"

definition Default :: "chainCollection \<Rightarrow> (chain option \<times> error option) outcome" where
  "Default cll = Get cll (defaultID cll)"

definition ChainCount :: "chainCollection \<Rightarrow> nat" where
  "ChainCount cll = card (dom (chains cll))"

text \<open>
  \<open>ChainCollectionOpts\<close>: the global configuration, which is not nil, and the database,
  which is what its two queries return (\<open>Inl\<close> the error). The other fields are
  handles that \<open>newChain\<close> receives. \<open>newChain\<close> is not under \<open>src/\<close>: it is a
  parameter that returns the built chain or its error.
\<close>

record DB =
  Find_chains :: "error + Chain list"
  Find_nodes :: "error + Node list"

record ChainCollectionOpts =
  Config :: GeneralConfig
  DB :: DB

text \<open>
  The loop of \<open>NewChainCollection\<close>, over the records that are left, with the map and
  the error built so far. The two \<open>fmt.Println\<close> calls of the loop only print.
\<close>

fun build_chains ::
  "(Chain \<Rightarrow> ChainCollectionOpts \<Rightarrow> error + chain) \<Rightarrow> ChainCollectionOpts \<Rightarrow> Chain list \<Rightarrow>
   (string \<rightharpoonup> chain) \<times> error option \<Rightarrow> (string \<rightharpoonup> chain) \<times> error option" where
  "build_chains newChain opts [] (m, err) = (m, err)"
| "build_chains newChain opts (d # ds) (m, err) =
     (case newChain d opts of
        Inl err2 \<Rightarrow> build_chains newChain opts ds (m, Combine [err, Some err2])
      | Inr ch \<Rightarrow> build_chains newChain opts ds (m(big_String (chain_ID ch) \<mapsto> ch), err))"

definition NewChainCollection ::
  "(Chain \<Rightarrow> ChainCollectionOpts \<Rightarrow> error + chain) \<Rightarrow> ChainCollectionOpts \<Rightarrow> Chain list \<Rightarrow>
   chainCollection \<times> error option" where
  "NewChainCollection newChain opts dbchains =
     (case build_chains newChain opts dbchains (Map.empty, None) of
        (m, err) \<Rightarrow> (\<lparr>defaultID = DefaultChainID (Config opts), chains = m\<rparr>, err))"

text \<open>
  \<open>LoadChainCollection\<close> returns the collection (nil is \<open>None\<close>) and the error. Each
  chain record gets the nodes of its identity appended before the collection is built.
\<close>

definition LoadChainCollection ::
  "(Chain \<Rightarrow> ChainCollectionOpts \<Rightarrow> error + chain) \<Rightarrow> ChainCollectionOpts \<Rightarrow>
   chainCollection option \<times> error option" where
  "LoadChainCollection newChain opts =
     (if EthereumDisabled (Config opts)
      then (Some \<lparr>defaultID = None, chains = Map.empty\<rparr>, None)
      else
        (case Find_chains (DB opts) of
           Inl err \<Rightarrow> (None, Some err)
         | Inr dbchains \<Rightarrow>
             (case Find_nodes (DB opts) of
                Inl err \<Rightarrow> (None, Some err)
              | Inr nodes \<Rightarrow>
                  (case NewChainCollection newChain opts
                          (map (\<lambda>c. c\<lparr>Nodes := Nodes c @ filter (\<lambda>n. Cmp (EVMChainID n) (ID c) = 0) nodes\<rparr>)
                             dbchains) of
                     (cll, err) \<Rightarrow> (Some cll, err)))))"

text \<open>
  What a construction built, for stating its result: the chains \<open>newChain\<close> returned and
  the errors it returned, each in the order of the records.
\<close>

definition built_chains ::
  "(Chain \<Rightarrow> ChainCollectionOpts \<Rightarrow> error + chain) \<Rightarrow> ChainCollectionOpts \<Rightarrow> Chain list \<Rightarrow> chain list" where
  "built_chains newChain opts ds =
     List.map_filter (\<lambda>d. case newChain d opts of Inl e \<Rightarrow> None | Inr ch \<Rightarrow> Some ch) ds"

definition build_errors ::
  "(Chain \<Rightarrow> ChainCollectionOpts \<Rightarrow> error + chain) \<Rightarrow> ChainCollectionOpts \<Rightarrow> Chain list \<Rightarrow> error list" where
  "build_errors newChain opts ds =
     List.map_filter (\<lambda>d. case newChain d opts of Inl e \<Rightarrow> Some e | Inr ch \<Rightarrow> None) ds"

section \<open>Stating what the environment holds\<close>

text \<open>
  \<open>env_value\<close> is the well-formed value of a variable, if the variable is set and its
  parse function accepts the string; \<open>malformed\<close> says that a variable is set and its
  parse function rejects the string; \<open>unsetenv\<close> removes a variable.
\<close>

definition env_value :: "sys \<Rightarrow> string \<Rightarrow> (string \<Rightarrow> error + 'a) \<Rightarrow> 'a option" where
  "env_value S k p =
     (case environ S k of
        None \<Rightarrow> None
      | Some s \<Rightarrow> (case p s of Inl e \<Rightarrow> None | Inr v \<Rightarrow> Some v))"

definition malformed :: "sys \<Rightarrow> string \<Rightarrow> parser \<Rightarrow> bool" where
  "malformed S k parse =
     (case environ S k of None \<Rightarrow> False | Some s \<Rightarrow> snd (parse s) \<noteq> None)"

definition unsetenv :: "string \<Rightarrow> sys \<Rightarrow> sys" where
  "unsetenv k S = S\<lparr>environ := (environ S)(k := None)\<rparr>"

section \<open>Example values\<close>

text \<open>Concrete values, at which the theorems below are evaluated.\<close>

definition example_GeneralConfig :: GeneralConfig where
  "example_GeneralConfig =
     \<lparr>EthereumDisabled = False, DefaultChainID = Some 1, GeneralConfig_Validate = None,
      OCRBlockchainTimeout = (\<lambda>override. 20), OCRContractPollInterval = (\<lambda>override. 60),
      OCRContractSubscribeInterval = (\<lambda>override. 120),
      OCRContractTransmitterTransmitTimeout = 10, OCRDatabaseTimeout = 10,
      OCRObservationTimeout = (\<lambda>override. 10), OCRObservationGracePeriod = 1\<rparr>"

definition example_opts :: ChainCollectionOpts where
  "example_opts =
     \<lparr>Config = example_GeneralConfig,
      DB = \<lparr>Find_chains = Inr [], Find_nodes = Inr []\<rparr>\<rparr>"

definition example_node :: Node where
  "example_node =
     \<lparr>Node_ID = 1, Name = ''primary'', EVMChainID = 2, WSURL = ''ws://example.invalid'',
      HTTPURL = \<lparr>Value = [], Valid = False\<rparr>, SendOnly = False\<rparr>"

definition example_newChain :: "Chain \<Rightarrow> ChainCollectionOpts \<Rightarrow> error + chain" where
  "example_newChain d opts =
     (if Nodes d = [] then Inl (New ''no nodes'')
      else Inr \<lparr>chain_ID = ID d, chain_Ready = (if SendOnly (hd (Nodes d)) then Some (New ''no primary node'') else None)\<rparr>)"

definition example_collection :: chainCollection where
  "example_collection =
     \<lparr>defaultID = Some 1,
      chains = [''1'' \<mapsto> \<lparr>chain_ID = 1, chain_Ready = Some (New ''no live nodes'')\<rparr>,
                ''2'' \<mapsto> \<lparr>chain_ID = 2, chain_Ready = None\<rparr>]\<rparr>"


text \<open>
  Example parse functions: decimal digits for the integers, two literals for a boolean,
  one literal each for a duration and a float, any string for a string.
\<close>

fun parse_digits :: "string \<Rightarrow> nat \<Rightarrow> nat option" where
  "parse_digits [] acc = Some acc"
| "parse_digits (ch # cs) acc =
     (if (48 :: nat) \<le> of_char ch \<and> (of_char ch :: nat) \<le> 57
      then parse_digits cs (10 * acc + (of_char ch - 48))
      else None)"

definition example_ParseUint :: "nat \<Rightarrow> string \<Rightarrow> error + nat" where
  "example_ParseUint bits s =
     (if s = [] then Inl (New ''invalid syntax'')
      else (case parse_digits s 0 of
              None \<Rightarrow> Inl (New ''invalid syntax'')
            | Some n \<Rightarrow> if n < 2 ^ bits then Inr n else Inl (New ''value out of range'')))"

definition example_sys :: sys where
  "example_sys =
     \<lparr>environ = Map.empty,
      ParseUint16 = (\<lambda>s. map_sum id of_nat (example_ParseUint 16 s)),
      ParseUint32 = (\<lambda>s. map_sum id of_nat (example_ParseUint 32 s)),
      ParseUint64 = (\<lambda>s. map_sum id of_nat (example_ParseUint 64 s)),
      ParseBigInt = (\<lambda>s. map_sum id int (example_ParseUint 256 s)),
      ParseDuration = (\<lambda>s. if s = ''1s'' then Inr 1000000000 else Inl (New ''invalid duration'')),
      ParseString = Inr,
      ParseBool = (\<lambda>s. if s = ''true'' then Inr True else if s = ''false'' then Inr False
                        else Inl (New ''invalid syntax'')),
      ParseF32 = (\<lambda>s. if s = ''1.0'' then Inr 0x3F800000 else Inl (New ''invalid syntax'')),
      ParseLink = (\<lambda>s. map_sum id (\<lambda>n. Some (int n)) (example_ParseUint 256 s)),
      PriceBump = 10,
      SanityCheckLocalConfig = (\<lambda>lc. None),
      float32_of_float64 = (\<lambda>x. if x = 0x3FF0000000000000 then 0x3F800000 else 0)\<rparr>"


definition example_ChainCfg :: ChainCfg where
  "example_ChainCfg =
     \<lparr>cfg_BlockHistoryEstimatorBlockDelay = \<lparr>Value = 0, Valid = False\<rparr>,
      cfg_BlockHistoryEstimatorBlockHistorySize = \<lparr>Value = 0, Valid = False\<rparr>,
      cfg_EthTxResendAfterThreshold = None,
      cfg_EvmFinalityDepth = \<lparr>Value = 0, Valid = False\<rparr>,
      cfg_EvmGasBumpPercent = \<lparr>Value = 0, Valid = False\<rparr>,
      cfg_EvmGasBumpTxDepth = \<lparr>Value = 0, Valid = False\<rparr>,
      cfg_EvmGasBumpWei = None,
      cfg_EvmGasLimitDefault = \<lparr>Value = 0, Valid = False\<rparr>,
      cfg_EvmGasLimitMultiplier = \<lparr>Value = 0, Valid = False\<rparr>,
      cfg_EvmGasPriceDefault = None,
      cfg_EvmHeadTrackerHistoryDepth = \<lparr>Value = 0, Valid = False\<rparr>,
      cfg_EvmHeadTrackerMaxBufferSize = \<lparr>Value = 0, Valid = False\<rparr>,
      cfg_EvmHeadTrackerSamplingInterval = None,
      cfg_EvmLogBackfillBatchSize = \<lparr>Value = 0, Valid = False\<rparr>,
      cfg_EvmMaxGasPriceWei = None,
      cfg_EvmNonceAutoSync = \<lparr>Value = False, Valid = False\<rparr>,
      cfg_EvmRPCDefaultBatchSize = \<lparr>Value = 0, Valid = False\<rparr>,
      cfg_FlagsContractAddress = \<lparr>Value = [], Valid = False\<rparr>,
      cfg_GasEstimatorMode = \<lparr>Value = [], Valid = False\<rparr>,
      cfg_MinRequiredOutgoingConfirmations = \<lparr>Value = 0, Valid = False\<rparr>\<rparr>"

definition example_defaultSet :: chainSpecificConfigDefaultSet where
  "example_defaultSet =
     \<lparr>balanceMonitorBlockDelay = 1,
      balanceMonitorEnabled = True,
      blockEmissionIdleWarningThreshold = 60000000000,
      blockHistoryEstimatorBatchSize = 4,
      blockHistoryEstimatorBlockDelay = 1,
      blockHistoryEstimatorBlockHistorySize = 24,
      blockHistoryEstimatorTransactionPercentile = 60,
      ethTxReaperInterval = 3600000000000,
      ethTxReaperThreshold = 86400000000000,
      ethTxResendAfterThreshold = 60000000000,
      finalityDepth = 50,
      flagsContractAddress = [],
      gasBumpPercent = 20,
      gasBumpThreshold = 3,
      gasBumpTxDepth = 10,
      gasBumpWei = 5000000000,
      gasEstimatorMode = ''BlockHistory'',
      gasLimitDefault = 500000,
      gasLimitMultiplier = 0x3F800000,
      gasLimitTransfer = 21000,
      gasPriceDefault = 20000000000,
      headTrackerHistoryDepth = 100,
      headTrackerMaxBufferSize = 3,
      headTrackerSamplingInterval = 1000000000,
      linkContractAddress = [],
      logBackfillBatchSize = 100,
      maxGasPriceWei = 5000000000000,
      maxInFlightTransactions = 16,
      maxQueuedTransactions = 250,
      minGasPriceWei = 1000000000,
      minIncomingConfirmations = 3,
      minRequiredOutgoingConfirmations = 12,
      minimumContractPayment = Some 100000000000000,
      nonceAutoSync = True,
      ocrContractConfirmations = 4,
      rpcDefaultBatchSize = 100\<rparr>"

definition example_config :: chainScopedConfig where
  "example_config =
     \<lparr>GeneralConfig = example_GeneralConfig,
      orm = \<lparr>store = (\<lambda>name v. None)\<rparr>,
      persistedCfg = example_ChainCfg,
      defaultSet = example_defaultSet,
      id' = 1,
      persistMu = \<lparr>readers = 0, writer = False\<rparr>\<rparr>"

definition example_disabled_config :: chainScopedConfig where
  "example_disabled_config =
     example_config\<lparr>GeneralConfig := example_GeneralConfig\<lparr>EthereumDisabled := True\<rparr>\<rparr>"

text \<open>
  An environment that sets every variable to a string that only \<open>ParseString\<close>, which
  accepts every string, accepts.
\<close>

definition example_bad_sys :: sys where
  "example_bad_sys =
     example_sys\<lparr>environ := (\<lambda>k. Some ''x7'')\<rparr>"

text \<open>An environment that sets every variable the getters consult to a well-formed value.\<close>

definition example_env :: "(string \<times> string) list" where
  "example_env =
     [(''ETH_BALANCE_MONITOR_BLOCK_DELAY'', ''7''),
      (''ETH_GAS_BUMP_THRESHOLD'', ''7''),
      (''ETH_GAS_BUMP_WEI'', ''7''),
      (''ETH_MAX_IN_FLIGHT_TRANSACTIONS'', ''7''),
      (''ETH_MAX_GAS_PRICE_WEI'', ''7''),
      (''ETH_MAX_QUEUED_TRANSACTIONS'', ''7''),
      (''ETH_MIN_GAS_PRICE_WEI'', ''7''),
      (''ETH_GAS_LIMIT_DEFAULT'', ''7''),
      (''ETH_GAS_LIMIT_TRANSFER'', ''7''),
      (''ETH_HEAD_TRACKER_SAMPLING_INTERVAL'', ''1s''),
      (''ETH_TX_RESEND_AFTER_THRESHOLD'', ''1s''),
      (''ETH_RPC_DEFAULT_BATCH_SIZE'', ''7''),
      (''BLOCK_HISTORY_ESTIMATOR_BLOCK_DELAY'', ''7''),
      (''BLOCK_HISTORY_ESTIMATOR_BLOCK_HISTORY_SIZE'', ''7''),
      (''BLOCK_HISTORY_ESTIMATOR_TRANSACTION_PERCENTILE'', ''7''),
      (''LINK_CONTRACT_ADDRESS'', ''0x7''),
      (''MIN_INCOMING_CONFIRMATIONS'', ''7''),
      (''MIN_REQUIRED_OUTGOING_CONFIRMATIONS'', ''7''),
      (''MINIMUM_CONTRACT_PAYMENT_LINK_JUELS'', ''7''),
      (''ETH_GAS_BUMP_TX_DEPTH'', ''7''),
      (''ETH_GAS_BUMP_PERCENT'', ''7''),
      (''ETH_NONCE_AUTO_SYNC'', ''true''),
      (''ETH_GAS_LIMIT_MULTIPLIER'', ''1.0''),
      (''ETH_HEAD_TRACKER_MAX_BUFFER_SIZE'', ''7''),
      (''ETH_TX_REAPER_INTERVAL'', ''1s''),
      (''ETH_TX_REAPER_THRESHOLD'', ''1s''),
      (''ETH_LOG_BACKFILL_BATCH_SIZE'', ''7''),
      (''FLAGS_CONTRACT_ADDRESS'', ''0x7''),
      (''ETH_GAS_PRICE_DEFAULT'', ''7''),
      (''BLOCK_HISTORY_ESTIMATOR_BATCH_SIZE'', ''7''),
      (''GAS_ESTIMATOR_MODE'', ''0x7''),
      (''OCR_CONTRACT_CONFIRMATIONS'', ''7''),
      (''BALANCE_MONITOR_ENABLED'', ''true'')]"

definition example_env_sys :: sys where
  "example_env_sys = example_sys\<lparr>environ := map_of example_env\<rparr>"

text \<open>A configuration whose \<open>orm.store\<close> fails.\<close>

definition example_failing_config :: chainScopedConfig where
  "example_failing_config =
     example_config\<lparr>orm := \<lparr>store = (\<lambda>name v. Some (New ''connection refused''))\<rparr>\<rparr>"

text \<open>
  Configurations for the validation: a persisted head tracker history depth of 10 and a
  default minimum gas price above the default gas price; and the same with a persisted
  finality depth of 15.
\<close>

definition example_history_config :: chainScopedConfig where
  "example_history_config =
     example_config
       \<lparr>persistedCfg := example_ChainCfg\<lparr>cfg_EvmHeadTrackerHistoryDepth := \<lparr>Value = 10, Valid = True\<rparr>\<rparr>,
        defaultSet := example_defaultSet\<lparr>minGasPriceWei := 30000000000\<rparr>\<rparr>"

definition example_depths_config :: chainScopedConfig where
  "example_depths_config =
     example_history_config
       \<lparr>persistedCfg :=
          (persistedCfg example_history_config)\<lparr>cfg_EvmFinalityDepth := \<lparr>Value = 15, Valid = True\<rparr>\<rparr>\<rparr>"

section \<open>The decimal string determines the identity\<close>

declare decimal.simps [simp del]

lemma digit_inj: "n < 10 \<Longrightarrow> m < 10 \<Longrightarrow> digit n = digit m \<Longrightarrow> n = m"
proof -
  assume a: "n < 10" "m < 10" "digit n = digit m"
  then have "(of_char (char_of (48 + n)) :: nat) = of_char (char_of (48 + m))"
    by (simp add: digit_def)
  then have "(48 + n) mod 256 = (48 + m) mod 256" by simp
  with a show ?thesis by simp
qed

lemma digit_not_minus: "n < 10 \<Longrightarrow> digit n \<noteq> CHR ''-''"
proof
  assume a: "n < 10" "digit n = CHR ''-''"
  then have "(of_char (char_of (48 + n)) :: nat) = of_char (CHR ''-'')"
    by (simp add: digit_def)
  then have "(48 + n) mod 256 = 45" by simp
  with a show False by simp
qed

lemma decimal_not_Nil: "decimal n \<noteq> []"
  by (subst decimal.simps) simp

lemma decimal_inj: "decimal n = decimal m \<Longrightarrow> n = m"
proof (induction n arbitrary: m rule: decimal.induct)
  case (1 n)
  show ?case
  proof (cases "n < 10")
    case True
    then have n: "decimal n = [digit n]" by (subst decimal.simps) simp
    show ?thesis
    proof (cases "m < 10")
      case True
      then have "decimal m = [digit m]" by (subst decimal.simps) simp
      with n "1.prems" have "digit n = digit m" by simp
      with \<open>n < 10\<close> True show ?thesis by (rule digit_inj)
    next
      case False
      then have "decimal m = decimal (m div 10) @ [digit (m mod 10)]"
        by (subst decimal.simps) simp
      with n "1.prems" have "decimal (m div 10) = []" by simp
      then show ?thesis by (simp add: decimal_not_Nil)
    qed
  next
    case False
    then have n: "decimal n = decimal (n div 10) @ [digit (n mod 10)]"
      by (subst decimal.simps) simp
    show ?thesis
    proof (cases "m < 10")
      case True
      then have "decimal m = [digit m]" by (subst decimal.simps) simp
      with n "1.prems" have "decimal (n div 10) = []" by simp
      then show ?thesis by (simp add: decimal_not_Nil)
    next
      case m: False
      then have "decimal m = decimal (m div 10) @ [digit (m mod 10)]"
        by (subst decimal.simps) simp
      with n "1.prems" have eq: "decimal (n div 10) = decimal (m div 10)"
        and d: "digit (n mod 10) = digit (m mod 10)" by simp_all
      from False eq have "n div 10 = m div 10" by (rule "1.IH")
      moreover from d have "n mod 10 = m mod 10" by (intro digit_inj) simp_all
      ultimately show ?thesis by (metis div_mult_mod_eq)
    qed
  qed
qed

lemma hd_decimal_not_minus: "hd (decimal n) \<noteq> CHR ''-''"
proof (induction n rule: decimal.induct)
  case (1 n)
  show ?case
  proof (cases "n < 10")
    case True
    then show ?thesis by (subst decimal.simps) (simp add: digit_not_minus)
  next
    case False
    with 1 show ?thesis
      by (subst decimal.simps) (simp add: decimal_not_Nil)
  qed
qed

lemma big_String_inj: "big_String x = big_String y \<Longrightarrow> x = y"
proof -
  assume a: "big_String x = big_String y"
  have neg: "decimal n \<noteq> CHR ''-'' # s \<and> CHR ''-'' # s \<noteq> decimal n" for n s
    using hd_decimal_not_minus [of n] by (cases "decimal n") auto
  show ?thesis
  proof (cases "x < 0")
    case True
    show ?thesis
    proof (cases "y < 0")
      case y: True
      with True a have "decimal (nat (- x)) = decimal (nat (- y))"
        by (simp add: big_String_def)
      then have "nat (- x) = nat (- y)" by (rule decimal_inj)
      with True y show ?thesis by simp
    next
      case False
      with True a neg [of "nat y"] show ?thesis by (simp add: big_String_def)
    qed
  next
    case False
    show ?thesis
    proof (cases "y < 0")
      case True
      with False a neg [of "nat x"] show ?thesis by (simp add: big_String_def)
    next
      case y: False
      with False a have "decimal (nat x) = decimal (nat y)"
        by (simp add: big_String_def)
      then have "nat x = nat y" by (rule decimal_inj)
      with False y show ?thesis by simp
    qed
  qed
qed

section \<open>Combined errors\<close>

lemma map_filter_Cons:
  "List.map_filter f (x # xs) = (case f x of None \<Rightarrow> List.map_filter f xs | Some y \<Rightarrow> y # List.map_filter f xs)"
  by (simp add: List.map_filter_def split: option.splits)

lemma Errors_Combine: "Errors (Combine xs) = concat (map Errors xs)"
proof -
  have c: "concat (map Errors xs) = concat (map errs_of (List.map_filter (\<lambda>e. e) xs))"
    by (induction xs) (auto simp: map_filter_Cons Errors_def List.map_filter_simps split: option.splits)
  show ?thesis
  proof (cases "List.map_filter (\<lambda>e. e) xs")
    case Nil
    then show ?thesis by (simp add: c Combine_def Errors_def)
  next
    case (Cons e es)
    then show ?thesis by (cases es) (simp_all add: c Combine_def Errors_def)
  qed
qed

lemma Combine_eq_None: "Combine xs = None \<longleftrightarrow> (\<forall>x \<in> set xs. x = None)"
proof -
  have "List.map_filter (\<lambda>e. e) xs = [] \<longleftrightarrow> (\<forall>x \<in> set xs. x = None)"
    by (induction xs) (auto simp: map_filter_Cons List.map_filter_simps split: option.splits)
  then show ?thesis
    by (auto simp: Combine_def split: list.splits)
qed

section \<open>Chain families\<close>

text \<open>
  C8. The classification predicates depend on the identity alone: \<open>IsArbitrum\<close> holds
  exactly for 42161 and 421611, \<open>IsOptimism\<close> exactly for 10 and 69, \<open>IsL2\<close> is their
  disjunction, and every other identity, 1 among them, is in no family.
\<close>

theorem chain_families:
  "IsArbitrum i = (i = 42161 \<or> i = 421611) \<and>
   IsOptimism i = (i = 10 \<or> i = 69) \<and>
   IsL2 i = (IsOptimism i \<or> IsArbitrum i) \<and>
   (IsL2 i \<or> IsArbitrum i \<or> IsOptimism i) = (i \<in> {10, 69, 42161, 421611}) \<and>
   \<not> IsL2 1 \<and> \<not> IsArbitrum 1 \<and> \<not> IsOptimism 1"
  by (auto simp: IsArbitrum_def IsOptimism_def IsL2_def Cmp_def)

section \<open>The chain collection\<close>

lemma big_String_examples:
  "big_String 0 = ''0''" "big_String 1 = ''1''" "big_String 2 = ''2''" "big_String 3 = ''3''"
  "big_String 5 = ''5''" "big_String 7 = ''7''"
  by code_simp+

lemma built_chains_simps:
  "built_chains nc opts [] = []"
  "built_chains nc opts (d # ds) =
     (case nc d opts of Inl e \<Rightarrow> built_chains nc opts ds | Inr ch \<Rightarrow> ch # built_chains nc opts ds)"
  by (simp_all add: built_chains_def map_filter_Cons List.map_filter_simps split: sum.splits)

lemma build_errors_simps:
  "build_errors nc opts [] = []"
  "build_errors nc opts (d # ds) =
     (case nc d opts of Inl e \<Rightarrow> e # build_errors nc opts ds | Inr ch \<Rightarrow> build_errors nc opts ds)"
  by (simp_all add: build_errors_def map_filter_Cons List.map_filter_simps split: sum.splits)

lemma build_chains_err:
  "Errors (snd (build_chains nc opts ds (m, err))) =
   Errors err @ concat (map errs_of (build_errors nc opts ds))"
proof (induction ds arbitrary: m err)
  case Nil
  then show ?case by (simp add: build_errors_simps)
next
  case (Cons d ds)
  show ?case
    by (cases "nc d opts") (simp_all add: Cons.IH build_errors_simps Errors_Combine, simp add: Errors_def)
qed

lemma build_chains_nil_err:
  "snd (build_chains nc opts ds (m, err)) = None \<longleftrightarrow> err = None \<and> build_errors nc opts ds = []"
proof (induction ds arbitrary: m err)
  case Nil
  then show ?case by (simp add: build_errors_simps)
next
  case (Cons d ds)
  show ?case
    by (cases "nc d opts") (simp_all add: Cons.IH build_errors_simps Combine_eq_None)
qed

lemma build_chains_map:
  "fst (build_chains nc opts ds (m, err)) =
   m ++ map_of (rev (map (\<lambda>ch. (big_String (chain_ID ch), ch)) (built_chains nc opts ds)))"
proof (induction ds arbitrary: m err)
  case Nil
  then show ?case by (simp add: built_chains_simps)
next
  case (Cons d ds)
  show ?case
    by (cases "nc d opts") (simp_all add: Cons.IH built_chains_simps, simp add: fun_upd_def)
qed

lemma registry_of_distinct:
  assumes d: "distinct (map chain_ID cs)"
  defines "m \<equiv> map_of (rev (map (\<lambda>ch. (big_String (chain_ID ch), ch)) cs))"
  shows "(m k = Some ch) = (ch \<in> set cs \<and> k = big_String (chain_ID ch))"
    and "card (dom m) = length cs"
proof -
  let ?kv = "map (\<lambda>ch. (big_String (chain_ID ch), ch)) cs"
  have inj: "inj_on (\<lambda>ch. big_String (chain_ID ch)) (set cs)"
    using d by (auto simp: inj_on_def distinct_map dest!: big_String_inj)
  have keys: "map fst ?kv = map (\<lambda>ch. big_String (chain_ID ch)) cs" by (simp add: comp_def)
  have dk: "distinct (map fst (rev ?kv))"
    unfolding rev_map [symmetric] map_map keys using d inj
    by (simp add: distinct_map comp_def rev_map)
  show "(m k = Some ch) = (ch \<in> set cs \<and> k = big_String (chain_ID ch))"
    unfolding m_def map_of_eq_Some_iff [OF dk] by auto
  have "dom m = (\<lambda>ch. big_String (chain_ID ch)) ` set cs"
    unfolding m_def dom_map_of_conv_image_fst by (simp add: image_image)
  then have "card (dom m) = card (set cs)" by (simp add: card_image inj)
  also have "\<dots> = length cs" using d by (simp add: distinct_card distinct_map)
  finally show "card (dom m) = length cs" .
qed


lemma built_chains_ID:
  assumes "\<forall>d \<in> set ds. \<forall>ch. nc d opts = Inr ch \<longrightarrow> chain_ID ch = ID d"
  shows "map chain_ID (built_chains nc opts ds) =
         map ID (filter (\<lambda>d. \<exists>ch. nc d opts = Inr ch) ds)"
  using assms
proof (induction ds)
  case Nil
  then show ?case by (simp add: built_chains_simps)
next
  case (Cons d ds)
  then show ?case by (cases "nc d opts") (simp_all add: built_chains_simps)
qed

lemma built_chains_distinct:
  assumes "distinct (map ID ds)"
    and "\<forall>d \<in> set ds. \<forall>ch. nc d opts = Inr ch \<longrightarrow> chain_ID ch = ID d"
  shows "distinct (map chain_ID (built_chains nc opts ds))"
proof -
  have "map chain_ID (built_chains nc opts ds) =
        map ID (filter (\<lambda>d. \<exists>ch. nc d opts = Inr ch) ds)"
    using assms(2) by (rule built_chains_ID)
  then show ?thesis using assms(1) by (simp add: distinct_map_filter)
qed

text \<open>
  C4. The chain records of a collection come from the table of chains, whose primary key
  is the identity, so no two records have the same identity; \<open>newChain\<close>, which is not
  under \<open>src/\<close>, gives the chain it builds the identity of its record. For every such list of
  records \<open>NewChainCollection\<close> goes through every record: the errors of the records that
  failed to build are combined, in order, into the returned error, which is nil exactly
  when no record failed, and a failure does not stop the loop. The collection holds
  exactly the chains that were built, each under its identity, and \<open>ChainCount\<close> is their
  number.
\<close>

theorem NewChainCollection_collects:
  assumes "distinct (map ID dbchains)"
    and "\<forall>d \<in> set dbchains. \<forall>ch. newChain d opts = Inr ch \<longrightarrow> chain_ID ch = ID d"
    and "NewChainCollection newChain opts dbchains = (cll, err)"
  shows "defaultID cll = DefaultChainID (Config opts) \<and>
     (err \<noteq> None) = (build_errors newChain opts dbchains \<noteq> []) \<and>
     Errors err = concat (map errs_of (build_errors newChain opts dbchains)) \<and>
     (\<forall>k ch. (chains cll k = Some ch) =
              (ch \<in> set (built_chains newChain opts dbchains) \<and> k = big_String (chain_ID ch))) \<and>
     ChainCount cll = length (built_chains newChain opts dbchains)"
proof -
  let ?r = "build_chains newChain opts dbchains (Map.empty, None)"
  from assms(3) have cll: "cll = \<lparr>defaultID = DefaultChainID (Config opts), chains = fst ?r\<rparr>"
    and err: "err = snd ?r"
    by (auto simp: NewChainCollection_def split: prod.splits)
  have d: "distinct (map chain_ID (built_chains newChain opts dbchains))"
    using assms(1,2) by (rule built_chains_distinct)
  have m: "chains cll =
      map_of (rev (map (\<lambda>ch. (big_String (chain_ID ch), ch)) (built_chains newChain opts dbchains)))"
    by (simp add: cll build_chains_map)
  have e1: "(err \<noteq> None) = (build_errors newChain opts dbchains \<noteq> [])"
    using build_chains_nil_err [of newChain opts dbchains Map.empty None] by (simp add: err)
  have e2: "Errors err = concat (map errs_of (build_errors newChain opts dbchains))"
    using build_chains_err [of newChain opts dbchains Map.empty None] by (simp add: err Errors_def)
  show ?thesis
    using m e1 e2 registry_of_distinct [OF d]
    by (simp add: cll ChainCount_def)
qed

text \<open>
  Two records, of which the first has no node and fails to build: the collection holds
  the chain of the second, \<open>ChainCount\<close> is 1 and the error is the error of the first.
\<close>

theorem NewChainCollection_collects_witness:
  "distinct (map ID [\<lparr>ID = 1, Nodes = []\<rparr>, \<lparr>ID = 2, Nodes = [example_node]\<rparr>]) \<and>
   example_newChain \<lparr>ID = 1, Nodes = []\<rparr> example_opts = Inl (New ''no nodes'') \<and>
   example_newChain \<lparr>ID = 2, Nodes = [example_node]\<rparr> example_opts =
     Inr \<lparr>chain_ID = 2, chain_Ready = None\<rparr> \<and>
   NewChainCollection example_newChain example_opts
      [\<lparr>ID = 1, Nodes = []\<rparr>, \<lparr>ID = 2, Nodes = [example_node]\<rparr>] =
     (\<lparr>defaultID = Some 1, chains = [''2'' \<mapsto> \<lparr>chain_ID = 2, chain_Ready = None\<rparr>]\<rparr>,
      Some (New ''no nodes'')) \<and>
   built_chains example_newChain example_opts
      [\<lparr>ID = 1, Nodes = []\<rparr>, \<lparr>ID = 2, Nodes = [example_node]\<rparr>] =
     [\<lparr>chain_ID = 2, chain_Ready = None\<rparr>] \<and>
   build_errors example_newChain example_opts
      [\<lparr>ID = 1, Nodes = []\<rparr>, \<lparr>ID = 2, Nodes = [example_node]\<rparr>] = [New ''no nodes''] \<and>
   ChainCount \<lparr>defaultID = Some 1, chains = [''2'' \<mapsto> \<lparr>chain_ID = 2, chain_Ready = None\<rparr>]\<rparr> = 1"
proof -
  have i: "distinct (map ID [\<lparr>ID = 1, Nodes = []\<rparr>, \<lparr>ID = 2, Nodes = [example_node]\<rparr>])"
    by simp
  have p: "\<forall>d \<in> set [\<lparr>ID = 1, Nodes = []\<rparr>, \<lparr>ID = 2, Nodes = [example_node]\<rparr>].
      \<forall>ch. example_newChain d example_opts = Inr ch \<longrightarrow> chain_ID ch = ID d"
    by (auto simp: example_newChain_def)
  have r: "NewChainCollection example_newChain example_opts
      [\<lparr>ID = 1, Nodes = []\<rparr>, \<lparr>ID = 2, Nodes = [example_node]\<rparr>] =
     (\<lparr>defaultID = Some 1, chains = [''2'' \<mapsto> \<lparr>chain_ID = 2, chain_Ready = None\<rparr>]\<rparr>,
      Some (New ''no nodes''))"
    by (simp add: NewChainCollection_def example_newChain_def example_opts_def example_node_def
        example_GeneralConfig_def Combine_def List.map_filter_simps big_String_examples)
  have b: "built_chains example_newChain example_opts
      [\<lparr>ID = 1, Nodes = []\<rparr>, \<lparr>ID = 2, Nodes = [example_node]\<rparr>] =
     [\<lparr>chain_ID = 2, chain_Ready = None\<rparr>]"
    by (simp add: built_chains_simps example_newChain_def example_node_def)
  have e: "build_errors example_newChain example_opts
      [\<lparr>ID = 1, Nodes = []\<rparr>, \<lparr>ID = 2, Nodes = [example_node]\<rparr>] = [New ''no nodes'']"
    by (simp add: build_errors_simps example_newChain_def example_node_def)
  have "ChainCount \<lparr>defaultID = Some 1, chains = [''2'' \<mapsto> \<lparr>chain_ID = 2, chain_Ready = None\<rparr>]\<rparr> =
        length (built_chains example_newChain example_opts
                  [\<lparr>ID = 1, Nodes = []\<rparr>, \<lparr>ID = 2, Nodes = [example_node]\<rparr>])"
    using NewChainCollection_collects [OF i p r] by blast
  then have n: "ChainCount \<lparr>defaultID = Some 1, chains = [''2'' \<mapsto> \<lparr>chain_ID = 2, chain_Ready = None\<rparr>]\<rparr> = 1"
    by (simp add: b)
  have c: "example_newChain \<lparr>ID = 1, Nodes = []\<rparr> example_opts = Inl (New ''no nodes'')"
    "example_newChain \<lparr>ID = 2, Nodes = [example_node]\<rparr> example_opts =
       Inr \<lparr>chain_ID = 2, chain_Ready = None\<rparr>"
    by (simp_all add: example_newChain_def example_node_def)
  show ?thesis
    using i c r b e n by blast
qed

text \<open>
  C5. For an identity that is not nil, \<open>Get\<close> returns the not-found error and no chain
  when the collection has no chain under the identity; the not-ready error wrapping the
  error of \<open>Ready()\<close>, and no chain, when the chain is there and not ready; the chain and
  a nil error when it is there and ready, and in no other case a chain.
\<close>

theorem Get_cases:
  "(chains cll (big_String n) = None \<longrightarrow>
      Get cll (Some n) = Returns (None, Some (Errorf ''chain not found with id %d'' [FBig n]))) \<and>
   (\<forall>c e. chains cll (big_String n) = Some c \<and> chain_Ready c = Some e \<longrightarrow>
      Get cll (Some n) =
        Returns (None, Some (Wrapf e ''chain with ID %d is not ready'' [FBig n]))) \<and>
   (\<forall>c. chains cll (big_String n) = Some c \<and> chain_Ready c = None \<longrightarrow>
      Get cll (Some n) = Returns (Some c, None)) \<and>
   (\<forall>c err. Get cll (Some n) = Returns (Some c, err) \<longrightarrow>
      chains cll (big_String n) = Some c \<and> chain_Ready c = None \<and> err = None)"
  by (auto simp: Get_def split: option.splits)

theorem Get_cases_witness:
  "chains example_collection (big_String 3) = None \<and>
   Get example_collection (Some 3) =
     Returns (None, Some (Errorf ''chain not found with id %d'' [FBig 3])) \<and>
   chains example_collection (big_String 1) =
     Some \<lparr>chain_ID = 1, chain_Ready = Some (New ''no live nodes'')\<rparr> \<and>
   Get example_collection (Some 1) =
     Returns (None, Some (Wrapf (New ''no live nodes'') ''chain with ID %d is not ready'' [FBig 1])) \<and>
   chains example_collection (big_String 2) = Some \<lparr>chain_ID = 2, chain_Ready = None\<rparr> \<and>
   Get example_collection (Some 2) = Returns (Some \<lparr>chain_ID = 2, chain_Ready = None\<rparr>, None)"
  using Get_cases [of example_collection 3] Get_cases [of example_collection 1]
    Get_cases [of example_collection 2]
  by (simp add: example_collection_def big_String_examples)

text \<open>
  C6. \<open>Get\<close> of a nil identity panics, so \<open>Default\<close> panics on a collection whose default
  identity is nil; \<open>LoadChainCollection\<close> returns such a collection, empty and with a
  nil error, when the global configuration disables Ethereum.
\<close>

theorem Get_nil_panics:
  "Get cll None = Panics (PanicStr ''FIXME: return default?'') \<and>
   (defaultID cll = None \<longrightarrow> Default cll = Panics (PanicStr ''FIXME: return default?'')) \<and>
   (EthereumDisabled (Config opts) \<longrightarrow>
      LoadChainCollection newChain opts = (Some \<lparr>defaultID = None, chains = Map.empty\<rparr>, None) \<and>
      ChainCount \<lparr>defaultID = None, chains = Map.empty\<rparr> = 0 \<and>
      Default \<lparr>defaultID = None, chains = Map.empty\<rparr> = Panics (PanicStr ''FIXME: return default?''))"
  by (simp add: Get_def Default_def LoadChainCollection_def ChainCount_def)

theorem Get_nil_panics_witness:
  "EthereumDisabled (Config (example_opts\<lparr>Config := example_GeneralConfig\<lparr>EthereumDisabled := True\<rparr>\<rparr>)) \<and>
   LoadChainCollection example_newChain
     (example_opts\<lparr>Config := example_GeneralConfig\<lparr>EthereumDisabled := True\<rparr>\<rparr>) =
     (Some \<lparr>defaultID = None, chains = Map.empty\<rparr>, None) \<and>
   defaultID \<lparr>defaultID = None, chains = Map.empty\<rparr> = None \<and>
   Default \<lparr>defaultID = None, chains = Map.empty\<rparr> = Panics (PanicStr ''FIXME: return default?'')"
  using Get_nil_panics [of "\<lparr>defaultID = None, chains = Map.empty\<rparr>"
      "example_opts\<lparr>Config := example_GeneralConfig\<lparr>EthereumDisabled := True\<rparr>\<rparr>" example_newChain]
  by simp

section \<open>The getters\<close>

lemma lookupEnv_env_value:
  "fst (lookupEnv (environ S) k (as_parser tag p)) =
     (case env_value S k p of None \<Rightarrow> (ANil, False) | Some v \<Rightarrow> (tag v, True))"
  by (simp add: lookupEnv_def as_parser_def env_value_def split: option.splits sum.splits)

lemmas config_Parse_defs =
  config_ParseUint16_def config_ParseUint32_def config_ParseUint64_def config_ParseBigInt_def
  config_ParseDuration_def config_ParseString_def config_ParseBool_def config_ParseF32_def
  config_ParseLink_def

lemma EvmBalanceMonitorBlockDelay_eq:
  "EvmBalanceMonitorBlockDelay S c =
     Returns (case env_value S ''ETH_BALANCE_MONITOR_BLOCK_DELAY'' (ParseUint16 S) of
                Some v \<Rightarrow> v
              | None \<Rightarrow> balanceMonitorBlockDelay (defaultSet c))"
  by (simp add: EvmBalanceMonitorBlockDelay_def config_ParseUint16_def lookupEnv_env_value split: option.splits)

lemma EvmGasBumpThreshold_eq:
  "EvmGasBumpThreshold S c =
     Returns (case env_value S ''ETH_GAS_BUMP_THRESHOLD'' (ParseUint64 S) of
                Some v \<Rightarrow> v
              | None \<Rightarrow> gasBumpThreshold (defaultSet c))"
  by (simp add: EvmGasBumpThreshold_def config_ParseUint64_def lookupEnv_env_value split: option.splits)

lemma EvmGasBumpWei_eq:
  "EvmGasBumpWei S c =
     Returns (case env_value S ''ETH_GAS_BUMP_WEI'' (ParseBigInt S) of
                Some v \<Rightarrow> v
              | None \<Rightarrow> (case cfg_EvmGasBumpWei (persistedCfg c) of Some p \<Rightarrow> p | None \<Rightarrow> gasBumpWei (defaultSet c)))"
  by (simp add: EvmGasBumpWei_def config_ParseBigInt_def lookupEnv_env_value split: option.splits)

lemma EvmMaxInFlightTransactions_eq:
  "EvmMaxInFlightTransactions S c =
     Returns (case env_value S ''ETH_MAX_IN_FLIGHT_TRANSACTIONS'' (ParseUint32 S) of
                Some v \<Rightarrow> v
              | None \<Rightarrow> maxInFlightTransactions (defaultSet c))"
  by (simp add: EvmMaxInFlightTransactions_def config_ParseUint32_def lookupEnv_env_value split: option.splits)

lemma EvmMaxGasPriceWei_eq:
  "EvmMaxGasPriceWei S c =
     Returns (case env_value S ''ETH_MAX_GAS_PRICE_WEI'' (ParseBigInt S) of
                Some v \<Rightarrow> v
              | None \<Rightarrow> (case cfg_EvmMaxGasPriceWei (persistedCfg c) of Some p \<Rightarrow> p | None \<Rightarrow> maxGasPriceWei (defaultSet c)))"
  by (simp add: EvmMaxGasPriceWei_def config_ParseBigInt_def lookupEnv_env_value split: option.splits)

lemma EvmMaxQueuedTransactions_eq:
  "EvmMaxQueuedTransactions S c =
     Returns (case env_value S ''ETH_MAX_QUEUED_TRANSACTIONS'' (ParseUint64 S) of
                Some v \<Rightarrow> v
              | None \<Rightarrow> maxQueuedTransactions (defaultSet c))"
  by (simp add: EvmMaxQueuedTransactions_def config_ParseUint64_def lookupEnv_env_value split: option.splits)

lemma EvmMinGasPriceWei_eq:
  "EvmMinGasPriceWei S c =
     Returns (case env_value S ''ETH_MIN_GAS_PRICE_WEI'' (ParseBigInt S) of
                Some v \<Rightarrow> v
              | None \<Rightarrow> minGasPriceWei (defaultSet c))"
  by (simp add: EvmMinGasPriceWei_def config_ParseBigInt_def lookupEnv_env_value split: option.splits)

lemma EvmGasLimitDefault_eq:
  "EvmGasLimitDefault S c =
     Returns (case env_value S ''ETH_GAS_LIMIT_DEFAULT'' (ParseUint64 S) of
                Some v \<Rightarrow> v
              | None \<Rightarrow> (if Valid (cfg_EvmGasLimitDefault (persistedCfg c)) then Value (cfg_EvmGasLimitDefault (persistedCfg c)) else gasLimitDefault (defaultSet c)))"
  by (simp add: EvmGasLimitDefault_def config_ParseUint64_def lookupEnv_env_value split: option.splits)

lemma EvmGasLimitTransfer_eq:
  "EvmGasLimitTransfer S c =
     Returns (case env_value S ''ETH_GAS_LIMIT_TRANSFER'' (ParseUint64 S) of
                Some v \<Rightarrow> v
              | None \<Rightarrow> gasLimitTransfer (defaultSet c))"
  by (simp add: EvmGasLimitTransfer_def config_ParseUint64_def lookupEnv_env_value split: option.splits)

lemma EvmHeadTrackerSamplingInterval_eq:
  "EvmHeadTrackerSamplingInterval S c =
     Returns (case env_value S ''ETH_HEAD_TRACKER_SAMPLING_INTERVAL'' (ParseDuration S) of
                Some v \<Rightarrow> v
              | None \<Rightarrow> (case cfg_EvmHeadTrackerSamplingInterval (persistedCfg c) of Some p \<Rightarrow> p | None \<Rightarrow> headTrackerSamplingInterval (defaultSet c)))"
  by (simp add: EvmHeadTrackerSamplingInterval_def config_ParseDuration_def lookupEnv_env_value split: option.splits)

lemma EthTxResendAfterThreshold_eq:
  "EthTxResendAfterThreshold S c =
     Returns (case env_value S ''ETH_TX_RESEND_AFTER_THRESHOLD'' (ParseDuration S) of
                Some v \<Rightarrow> v
              | None \<Rightarrow> (case cfg_EthTxResendAfterThreshold (persistedCfg c) of Some p \<Rightarrow> p | None \<Rightarrow> ethTxResendAfterThreshold (defaultSet c)))"
  by (simp add: EthTxResendAfterThreshold_def config_ParseDuration_def lookupEnv_env_value split: option.splits)

lemma EvmDefaultBatchSize_eq:
  "EvmDefaultBatchSize S c =
     Returns (case env_value S ''ETH_RPC_DEFAULT_BATCH_SIZE'' (ParseUint32 S) of
                Some v \<Rightarrow> v
              | None \<Rightarrow> rpcDefaultBatchSize (defaultSet c))"
  by (simp add: EvmDefaultBatchSize_def config_ParseUint32_def lookupEnv_env_value split: option.splits)

lemma BlockHistoryEstimatorBlockDelay_eq:
  "BlockHistoryEstimatorBlockDelay S c =
     Returns (case env_value S ''BLOCK_HISTORY_ESTIMATOR_BLOCK_DELAY'' (ParseUint16 S) of
                Some v \<Rightarrow> v
              | None \<Rightarrow> (if Valid (cfg_BlockHistoryEstimatorBlockDelay (persistedCfg c)) then ucast (Value (cfg_BlockHistoryEstimatorBlockDelay (persistedCfg c))) else blockHistoryEstimatorBlockDelay (defaultSet c)))"
  by (simp add: BlockHistoryEstimatorBlockDelay_def config_ParseUint16_def lookupEnv_env_value split: option.splits)

lemma BlockHistoryEstimatorBlockHistorySize_eq:
  "BlockHistoryEstimatorBlockHistorySize S c =
     Returns (case env_value S ''BLOCK_HISTORY_ESTIMATOR_BLOCK_HISTORY_SIZE'' (ParseUint16 S) of
                Some v \<Rightarrow> v
              | None \<Rightarrow> (if Valid (cfg_BlockHistoryEstimatorBlockHistorySize (persistedCfg c)) then ucast (Value (cfg_BlockHistoryEstimatorBlockHistorySize (persistedCfg c))) else blockHistoryEstimatorBlockHistorySize (defaultSet c)))"
  by (simp add: BlockHistoryEstimatorBlockHistorySize_def config_ParseUint16_def lookupEnv_env_value split: option.splits)

lemma BlockHistoryEstimatorTransactionPercentile_eq:
  "BlockHistoryEstimatorTransactionPercentile S c =
     Returns (case env_value S ''BLOCK_HISTORY_ESTIMATOR_TRANSACTION_PERCENTILE'' (ParseUint16 S) of
                Some v \<Rightarrow> v
              | None \<Rightarrow> blockHistoryEstimatorTransactionPercentile (defaultSet c))"
  by (simp add: BlockHistoryEstimatorTransactionPercentile_def config_ParseUint16_def lookupEnv_env_value split: option.splits)

lemma LinkContractAddress_eq:
  "LinkContractAddress S c =
     Returns (case env_value S ''LINK_CONTRACT_ADDRESS'' (ParseString S) of
                Some v \<Rightarrow> v
              | None \<Rightarrow> linkContractAddress (defaultSet c))"
  by (simp add: LinkContractAddress_def config_ParseString_def lookupEnv_env_value split: option.splits)

lemma MinIncomingConfirmations_eq:
  "MinIncomingConfirmations S c =
     Returns (case env_value S ''MIN_INCOMING_CONFIRMATIONS'' (ParseUint32 S) of
                Some v \<Rightarrow> v
              | None \<Rightarrow> minIncomingConfirmations (defaultSet c))"
  by (simp add: MinIncomingConfirmations_def config_ParseUint32_def lookupEnv_env_value split: option.splits)

lemma MinRequiredOutgoingConfirmations_eq:
  "MinRequiredOutgoingConfirmations S c =
     Returns (case env_value S ''MIN_REQUIRED_OUTGOING_CONFIRMATIONS'' (ParseUint64 S) of
                Some v \<Rightarrow> v
              | None \<Rightarrow> (if Valid (cfg_MinRequiredOutgoingConfirmations (persistedCfg c)) then Value (cfg_MinRequiredOutgoingConfirmations (persistedCfg c)) else minRequiredOutgoingConfirmations (defaultSet c)))"
  by (simp add: MinRequiredOutgoingConfirmations_def config_ParseUint64_def lookupEnv_env_value split: option.splits)

lemma MinimumContractPayment_eq:
  "MinimumContractPayment S c =
     Returns (case env_value S ''MINIMUM_CONTRACT_PAYMENT_LINK_JUELS'' (ParseLink S) of
                Some v \<Rightarrow> v
              | None \<Rightarrow> minimumContractPayment (defaultSet c))"
  by (simp add: MinimumContractPayment_def config_ParseLink_def lookupEnv_env_value split: option.splits)

lemma EvmGasBumpTxDepth_eq:
  "EvmGasBumpTxDepth S c =
     Returns (case env_value S ''ETH_GAS_BUMP_TX_DEPTH'' (ParseUint16 S) of
                Some v \<Rightarrow> v
              | None \<Rightarrow> (if Valid (cfg_EvmGasBumpTxDepth (persistedCfg c)) then ucast (Value (cfg_EvmGasBumpTxDepth (persistedCfg c))) else gasBumpTxDepth (defaultSet c)))"
  by (simp add: EvmGasBumpTxDepth_def config_ParseUint16_def lookupEnv_env_value split: option.splits)

lemma EvmGasBumpPercent_eq:
  "EvmGasBumpPercent S c =
     Returns (case env_value S ''ETH_GAS_BUMP_PERCENT'' (ParseUint16 S) of
                Some v \<Rightarrow> v
              | None \<Rightarrow> (if Valid (cfg_EvmGasBumpPercent (persistedCfg c)) then ucast (Value (cfg_EvmGasBumpPercent (persistedCfg c))) else gasBumpPercent (defaultSet c)))"
  by (simp add: EvmGasBumpPercent_def config_ParseUint16_def lookupEnv_env_value split: option.splits)

lemma EvmNonceAutoSync_eq:
  "EvmNonceAutoSync S c =
     Returns (case env_value S ''ETH_NONCE_AUTO_SYNC'' (ParseBool S) of
                Some v \<Rightarrow> v
              | None \<Rightarrow> (if Valid (cfg_EvmNonceAutoSync (persistedCfg c)) then Value (cfg_EvmNonceAutoSync (persistedCfg c)) else nonceAutoSync (defaultSet c)))"
  by (simp add: EvmNonceAutoSync_def config_ParseBool_def lookupEnv_env_value split: option.splits)

lemma EvmGasLimitMultiplier_eq:
  "EvmGasLimitMultiplier S c =
     Returns (case env_value S ''ETH_GAS_LIMIT_MULTIPLIER'' (ParseF32 S) of
                Some v \<Rightarrow> v
              | None \<Rightarrow> (if Valid (cfg_EvmGasLimitMultiplier (persistedCfg c)) then float32_of_float64 S (Value (cfg_EvmGasLimitMultiplier (persistedCfg c))) else gasLimitMultiplier (defaultSet c)))"
  by (simp add: EvmGasLimitMultiplier_def config_ParseF32_def lookupEnv_env_value split: option.splits)

lemma EvmHeadTrackerMaxBufferSize_eq:
  "EvmHeadTrackerMaxBufferSize S c =
     Returns (case env_value S ''ETH_HEAD_TRACKER_MAX_BUFFER_SIZE'' (ParseUint64 S) of
                Some v \<Rightarrow> v
              | None \<Rightarrow> (if Valid (cfg_EvmHeadTrackerMaxBufferSize (persistedCfg c)) then Value (cfg_EvmHeadTrackerMaxBufferSize (persistedCfg c)) else headTrackerMaxBufferSize (defaultSet c)))"
  by (simp add: EvmHeadTrackerMaxBufferSize_def config_ParseUint64_def lookupEnv_env_value split: option.splits)

lemma EthTxReaperInterval_eq:
  "EthTxReaperInterval S c =
     Returns (case env_value S ''ETH_TX_REAPER_INTERVAL'' (ParseDuration S) of
                Some v \<Rightarrow> v
              | None \<Rightarrow> ethTxReaperInterval (defaultSet c))"
  by (simp add: EthTxReaperInterval_def config_ParseDuration_def lookupEnv_env_value split: option.splits)

lemma EthTxReaperThreshold_eq:
  "EthTxReaperThreshold S c =
     Returns (case env_value S ''ETH_TX_REAPER_THRESHOLD'' (ParseDuration S) of
                Some v \<Rightarrow> v
              | None \<Rightarrow> ethTxReaperThreshold (defaultSet c))"
  by (simp add: EthTxReaperThreshold_def config_ParseDuration_def lookupEnv_env_value split: option.splits)

lemma EvmLogBackfillBatchSize_eq:
  "EvmLogBackfillBatchSize S c =
     Returns (case env_value S ''ETH_LOG_BACKFILL_BATCH_SIZE'' (ParseUint32 S) of
                Some v \<Rightarrow> v
              | None \<Rightarrow> (if Valid (cfg_EvmLogBackfillBatchSize (persistedCfg c)) then ucast (Value (cfg_EvmLogBackfillBatchSize (persistedCfg c))) else logBackfillBatchSize (defaultSet c)))"
  by (simp add: EvmLogBackfillBatchSize_def config_ParseUint32_def lookupEnv_env_value split: option.splits)

lemma EvmRPCDefaultBatchSize_eq:
  "EvmRPCDefaultBatchSize S c =
     Returns (case env_value S ''ETH_RPC_DEFAULT_BATCH_SIZE'' (ParseUint32 S) of
                Some v \<Rightarrow> v
              | None \<Rightarrow> (if Valid (cfg_EvmRPCDefaultBatchSize (persistedCfg c)) then ucast (Value (cfg_EvmRPCDefaultBatchSize (persistedCfg c))) else rpcDefaultBatchSize (defaultSet c)))"
  by (simp add: EvmRPCDefaultBatchSize_def config_ParseUint32_def lookupEnv_env_value split: option.splits)

lemma FlagsContractAddress_eq:
  "FlagsContractAddress S c =
     Returns (case env_value S ''FLAGS_CONTRACT_ADDRESS'' (ParseString S) of
                Some v \<Rightarrow> v
              | None \<Rightarrow> (if Valid (cfg_FlagsContractAddress (persistedCfg c)) then Value (cfg_FlagsContractAddress (persistedCfg c)) else flagsContractAddress (defaultSet c)))"
  by (simp add: FlagsContractAddress_def config_ParseString_def lookupEnv_env_value split: option.splits)

lemma EvmFinalityDepth_eq:
  "EvmFinalityDepth S c =
     (case env_value S ''ETH_FINALITY_DEPTH'' (ParseUint64 S) of
        Some v \<Rightarrow> Panics (InterfaceConversion ''uint64'' ''uint'')
      | None \<Rightarrow> Returns (if Valid (cfg_EvmFinalityDepth (persistedCfg c)) then Value (cfg_EvmFinalityDepth (persistedCfg c)) else finalityDepth (defaultSet c)))"
  by (simp add: EvmFinalityDepth_def config_ParseUint64_def lookupEnv_env_value split: option.splits)

lemma EvmHeadTrackerHistoryDepth_eq:
  "EvmHeadTrackerHistoryDepth S c =
     (case env_value S ''ETH_HEAD_TRACKER_HISTORY_DEPTH'' (ParseUint64 S) of
        Some v \<Rightarrow> Panics (InterfaceConversion ''uint64'' ''uint'')
      | None \<Rightarrow> Returns (if Valid (cfg_EvmHeadTrackerHistoryDepth (persistedCfg c)) then Value (cfg_EvmHeadTrackerHistoryDepth (persistedCfg c)) else headTrackerHistoryDepth (defaultSet c)))"
  by (simp add: EvmHeadTrackerHistoryDepth_def config_ParseUint64_def lookupEnv_env_value split: option.splits)

lemma BlockEmissionIdleWarningThreshold_eq:
  "BlockEmissionIdleWarningThreshold S c = Returns (blockEmissionIdleWarningThreshold (defaultSet c))"
  by (simp add: BlockEmissionIdleWarningThreshold_def)

lemma EvmGasPriceDefault_eq:
  "EvmGasPriceDefault S c =
     (case env_value S ''ETH_GAS_PRICE_DEFAULT'' (ParseBigInt S) of
        Some v \<Rightarrow> Returns (v, c)
      | None \<Rightarrow>
          if writer (persistMu c) then Blocks
          else Returns
            (case cfg_EvmGasPriceDefault (persistedCfg c) of
               Some p \<Rightarrow> p
             | None \<Rightarrow> gasPriceDefault (defaultSet c),
             c\<lparr>persistMu := (persistMu c)\<lparr>readers := readers (persistMu c) + 2\<rparr>\<rparr>))"
  by (simp add: EvmGasPriceDefault_def config_ParseBigInt_def lookupEnv_env_value RLock_def
      split: option.splits)

lemma BlockHistoryEstimatorBatchSize_eq:
  "BlockHistoryEstimatorBatchSize S c =
     Returns
       (let size = (case env_value S ''BLOCK_HISTORY_ESTIMATOR_BATCH_SIZE'' (ParseUint32 S) of
                      Some v \<Rightarrow> v
                    | None \<Rightarrow> blockHistoryEstimatorBatchSize (defaultSet c))
        in if 0 < size then size
           else (case env_value S ''ETH_RPC_DEFAULT_BATCH_SIZE'' (ParseUint32 S) of
                   Some v \<Rightarrow> v
                 | None \<Rightarrow> rpcDefaultBatchSize (defaultSet c)))"
  by (simp add: BlockHistoryEstimatorBatchSize_def config_ParseUint32_def lookupEnv_env_value
      EvmDefaultBatchSize_eq Let_def split: option.splits)

lemma GasEstimatorMode_eq:
  "GasEstimatorMode S c =
     Returns
       (if EthereumDisabled (GeneralConfig c) then ''FixedPrice''
        else (case env_value S ''GAS_ESTIMATOR_MODE'' (ParseString S) of
                Some v \<Rightarrow> v
              | None \<Rightarrow>
                  if Valid (cfg_GasEstimatorMode (persistedCfg c))
                  then Value (cfg_GasEstimatorMode (persistedCfg c))
                  else gasEstimatorMode (defaultSet c)))"
  by (simp add: GasEstimatorMode_def config_ParseString_def lookupEnv_env_value split: option.splits)

lemma BalanceMonitorEnabled_eq:
  "BalanceMonitorEnabled S c =
     Returns
       (if EthereumDisabled (GeneralConfig c) then False
        else (case env_value S ''BALANCE_MONITOR_ENABLED'' (ParseBool S) of
                Some v \<Rightarrow> v
              | None \<Rightarrow> balanceMonitorEnabled (defaultSet c)))"
  by (simp add: BalanceMonitorEnabled_def config_ParseBool_def lookupEnv_env_value split: option.splits)

lemma OCRContractConfirmations_eq:
  "OCRContractConfirmations S c override =
     Returns
       (if override \<noteq> 0 then override
        else (case env_value S ''OCR_CONTRACT_CONFIRMATIONS'' (ParseUint16 S) of
                Some v \<Rightarrow> v
              | None \<Rightarrow> ocrContractConfirmations (defaultSet c)))"
  by (simp add: OCRContractConfirmations_def config_ParseUint16_def lookupEnv_env_value
      split: option.splits)

text \<open>
  C1, as the code has it. When the environment holds a well-formed value for a getter's
  variable, \<open>lookupEnv\<close> reports it and the getter returns it, whatever the persisted
  configuration and the default set hold. This is so for every getter that reads the
  environment but \<open>EvmFinalityDepth\<close> and \<open>EvmHeadTrackerHistoryDepth\<close>, with three
  conditions the code makes: \<open>GasEstimatorMode\<close> and \<open>BalanceMonitorEnabled\<close> read the
  environment only when Ethereum is not disabled, \<open>BlockHistoryEstimatorBatchSize\<close>
  returns the environment's value only when it is not 0, and \<open>OCRContractConfirmations\<close>
  reads the environment only when its argument is 0.
\<close>

theorem environment_value_wins:
  "(\<forall>v. env_value S k p = Some v \<longrightarrow>
      fst (lookupEnv (environ S) k (as_parser tag p)) = (tag v, True)) \<and>
   (\<forall>v. env_value S ''ETH_BALANCE_MONITOR_BLOCK_DELAY'' (ParseUint16 S) = Some v \<longrightarrow>
      EvmBalanceMonitorBlockDelay S c = Returns v) \<and>
   (\<forall>v. env_value S ''ETH_GAS_BUMP_THRESHOLD'' (ParseUint64 S) = Some v \<longrightarrow>
      EvmGasBumpThreshold S c = Returns v) \<and>
   (\<forall>v. env_value S ''ETH_GAS_BUMP_WEI'' (ParseBigInt S) = Some v \<longrightarrow>
      EvmGasBumpWei S c = Returns v) \<and>
   (\<forall>v. env_value S ''ETH_MAX_IN_FLIGHT_TRANSACTIONS'' (ParseUint32 S) = Some v \<longrightarrow>
      EvmMaxInFlightTransactions S c = Returns v) \<and>
   (\<forall>v. env_value S ''ETH_MAX_GAS_PRICE_WEI'' (ParseBigInt S) = Some v \<longrightarrow>
      EvmMaxGasPriceWei S c = Returns v) \<and>
   (\<forall>v. env_value S ''ETH_MAX_QUEUED_TRANSACTIONS'' (ParseUint64 S) = Some v \<longrightarrow>
      EvmMaxQueuedTransactions S c = Returns v) \<and>
   (\<forall>v. env_value S ''ETH_MIN_GAS_PRICE_WEI'' (ParseBigInt S) = Some v \<longrightarrow>
      EvmMinGasPriceWei S c = Returns v) \<and>
   (\<forall>v. env_value S ''ETH_GAS_LIMIT_DEFAULT'' (ParseUint64 S) = Some v \<longrightarrow>
      EvmGasLimitDefault S c = Returns v) \<and>
   (\<forall>v. env_value S ''ETH_GAS_LIMIT_TRANSFER'' (ParseUint64 S) = Some v \<longrightarrow>
      EvmGasLimitTransfer S c = Returns v) \<and>
   (\<forall>v. env_value S ''ETH_HEAD_TRACKER_SAMPLING_INTERVAL'' (ParseDuration S) = Some v \<longrightarrow>
      EvmHeadTrackerSamplingInterval S c = Returns v) \<and>
   (\<forall>v. env_value S ''ETH_TX_RESEND_AFTER_THRESHOLD'' (ParseDuration S) = Some v \<longrightarrow>
      EthTxResendAfterThreshold S c = Returns v) \<and>
   (\<forall>v. env_value S ''ETH_RPC_DEFAULT_BATCH_SIZE'' (ParseUint32 S) = Some v \<longrightarrow>
      EvmDefaultBatchSize S c = Returns v) \<and>
   (\<forall>v. env_value S ''BLOCK_HISTORY_ESTIMATOR_BLOCK_DELAY'' (ParseUint16 S) = Some v \<longrightarrow>
      BlockHistoryEstimatorBlockDelay S c = Returns v) \<and>
   (\<forall>v. env_value S ''BLOCK_HISTORY_ESTIMATOR_BLOCK_HISTORY_SIZE'' (ParseUint16 S) = Some v \<longrightarrow>
      BlockHistoryEstimatorBlockHistorySize S c = Returns v) \<and>
   (\<forall>v. env_value S ''BLOCK_HISTORY_ESTIMATOR_TRANSACTION_PERCENTILE'' (ParseUint16 S) = Some v \<longrightarrow>
      BlockHistoryEstimatorTransactionPercentile S c = Returns v) \<and>
   (\<forall>v. env_value S ''LINK_CONTRACT_ADDRESS'' (ParseString S) = Some v \<longrightarrow>
      LinkContractAddress S c = Returns v) \<and>
   (\<forall>v. env_value S ''MIN_INCOMING_CONFIRMATIONS'' (ParseUint32 S) = Some v \<longrightarrow>
      MinIncomingConfirmations S c = Returns v) \<and>
   (\<forall>v. env_value S ''MIN_REQUIRED_OUTGOING_CONFIRMATIONS'' (ParseUint64 S) = Some v \<longrightarrow>
      MinRequiredOutgoingConfirmations S c = Returns v) \<and>
   (\<forall>v. env_value S ''MINIMUM_CONTRACT_PAYMENT_LINK_JUELS'' (ParseLink S) = Some v \<longrightarrow>
      MinimumContractPayment S c = Returns v) \<and>
   (\<forall>v. env_value S ''ETH_GAS_BUMP_TX_DEPTH'' (ParseUint16 S) = Some v \<longrightarrow>
      EvmGasBumpTxDepth S c = Returns v) \<and>
   (\<forall>v. env_value S ''ETH_GAS_BUMP_PERCENT'' (ParseUint16 S) = Some v \<longrightarrow>
      EvmGasBumpPercent S c = Returns v) \<and>
   (\<forall>v. env_value S ''ETH_NONCE_AUTO_SYNC'' (ParseBool S) = Some v \<longrightarrow>
      EvmNonceAutoSync S c = Returns v) \<and>
   (\<forall>v. env_value S ''ETH_GAS_LIMIT_MULTIPLIER'' (ParseF32 S) = Some v \<longrightarrow>
      EvmGasLimitMultiplier S c = Returns v) \<and>
   (\<forall>v. env_value S ''ETH_HEAD_TRACKER_MAX_BUFFER_SIZE'' (ParseUint64 S) = Some v \<longrightarrow>
      EvmHeadTrackerMaxBufferSize S c = Returns v) \<and>
   (\<forall>v. env_value S ''ETH_TX_REAPER_INTERVAL'' (ParseDuration S) = Some v \<longrightarrow>
      EthTxReaperInterval S c = Returns v) \<and>
   (\<forall>v. env_value S ''ETH_TX_REAPER_THRESHOLD'' (ParseDuration S) = Some v \<longrightarrow>
      EthTxReaperThreshold S c = Returns v) \<and>
   (\<forall>v. env_value S ''ETH_LOG_BACKFILL_BATCH_SIZE'' (ParseUint32 S) = Some v \<longrightarrow>
      EvmLogBackfillBatchSize S c = Returns v) \<and>
   (\<forall>v. env_value S ''ETH_RPC_DEFAULT_BATCH_SIZE'' (ParseUint32 S) = Some v \<longrightarrow>
      EvmRPCDefaultBatchSize S c = Returns v) \<and>
   (\<forall>v. env_value S ''FLAGS_CONTRACT_ADDRESS'' (ParseString S) = Some v \<longrightarrow>
      FlagsContractAddress S c = Returns v) \<and>
   (\<forall>v. env_value S ''ETH_GAS_PRICE_DEFAULT'' (ParseBigInt S) = Some v \<longrightarrow>
      EvmGasPriceDefault S c = Returns (v, c)) \<and>
   (\<forall>v. env_value S ''BLOCK_HISTORY_ESTIMATOR_BATCH_SIZE'' (ParseUint32 S) = Some v \<and> 0 < v \<longrightarrow>
      BlockHistoryEstimatorBatchSize S c = Returns v) \<and>
   (\<forall>v. env_value S ''GAS_ESTIMATOR_MODE'' (ParseString S) = Some v \<and>
        \<not> EthereumDisabled (GeneralConfig c) \<longrightarrow>
      GasEstimatorMode S c = Returns v) \<and>
   (\<forall>v. env_value S ''OCR_CONTRACT_CONFIRMATIONS'' (ParseUint16 S) = Some v \<longrightarrow>
      OCRContractConfirmations S c 0 = Returns v) \<and>
   (\<forall>v. env_value S ''BALANCE_MONITOR_ENABLED'' (ParseBool S) = Some v \<and>
        \<not> EthereumDisabled (GeneralConfig c) \<longrightarrow>
      BalanceMonitorEnabled S c = Returns v)"
  by (simp add: lookupEnv_env_value
      EvmBalanceMonitorBlockDelay_eq
      EvmGasBumpThreshold_eq
      EvmGasBumpWei_eq
      EvmMaxInFlightTransactions_eq
      EvmMaxGasPriceWei_eq
      EvmMaxQueuedTransactions_eq
      EvmMinGasPriceWei_eq
      EvmGasLimitDefault_eq
      EvmGasLimitTransfer_eq
      EvmHeadTrackerSamplingInterval_eq
      EthTxResendAfterThreshold_eq
      EvmDefaultBatchSize_eq
      BlockHistoryEstimatorBlockDelay_eq
      BlockHistoryEstimatorBlockHistorySize_eq
      BlockHistoryEstimatorTransactionPercentile_eq
      LinkContractAddress_eq
      MinIncomingConfirmations_eq
      MinRequiredOutgoingConfirmations_eq
      MinimumContractPayment_eq
      EvmGasBumpTxDepth_eq
      EvmGasBumpPercent_eq
      EvmNonceAutoSync_eq
      EvmGasLimitMultiplier_eq
      EvmHeadTrackerMaxBufferSize_eq
      EthTxReaperInterval_eq
      EthTxReaperThreshold_eq
      EvmLogBackfillBatchSize_eq
      EvmRPCDefaultBatchSize_eq
      FlagsContractAddress_eq
      EvmGasPriceDefault_eq
      BlockHistoryEstimatorBatchSize_eq
      GasEstimatorMode_eq
      OCRContractConfirmations_eq
      BalanceMonitorEnabled_eq)

lemma example_env_values:
  "env_value example_env_sys ''ETH_BALANCE_MONITOR_BLOCK_DELAY'' (ParseUint16 example_env_sys) = Some 7 \<and>
   env_value example_env_sys ''ETH_GAS_BUMP_THRESHOLD'' (ParseUint64 example_env_sys) = Some 7 \<and>
   env_value example_env_sys ''ETH_GAS_BUMP_WEI'' (ParseBigInt example_env_sys) = Some 7 \<and>
   env_value example_env_sys ''ETH_MAX_IN_FLIGHT_TRANSACTIONS'' (ParseUint32 example_env_sys) = Some 7 \<and>
   env_value example_env_sys ''ETH_MAX_GAS_PRICE_WEI'' (ParseBigInt example_env_sys) = Some 7 \<and>
   env_value example_env_sys ''ETH_MAX_QUEUED_TRANSACTIONS'' (ParseUint64 example_env_sys) = Some 7 \<and>
   env_value example_env_sys ''ETH_MIN_GAS_PRICE_WEI'' (ParseBigInt example_env_sys) = Some 7 \<and>
   env_value example_env_sys ''ETH_GAS_LIMIT_DEFAULT'' (ParseUint64 example_env_sys) = Some 7 \<and>
   env_value example_env_sys ''ETH_GAS_LIMIT_TRANSFER'' (ParseUint64 example_env_sys) = Some 7 \<and>
   env_value example_env_sys ''ETH_HEAD_TRACKER_SAMPLING_INTERVAL'' (ParseDuration example_env_sys) = Some 1000000000 \<and>
   env_value example_env_sys ''ETH_TX_RESEND_AFTER_THRESHOLD'' (ParseDuration example_env_sys) = Some 1000000000 \<and>
   env_value example_env_sys ''ETH_RPC_DEFAULT_BATCH_SIZE'' (ParseUint32 example_env_sys) = Some 7 \<and>
   env_value example_env_sys ''BLOCK_HISTORY_ESTIMATOR_BLOCK_DELAY'' (ParseUint16 example_env_sys) = Some 7 \<and>
   env_value example_env_sys ''BLOCK_HISTORY_ESTIMATOR_BLOCK_HISTORY_SIZE'' (ParseUint16 example_env_sys) = Some 7 \<and>
   env_value example_env_sys ''BLOCK_HISTORY_ESTIMATOR_TRANSACTION_PERCENTILE'' (ParseUint16 example_env_sys) = Some 7 \<and>
   env_value example_env_sys ''LINK_CONTRACT_ADDRESS'' (ParseString example_env_sys) = Some ''0x7'' \<and>
   env_value example_env_sys ''MIN_INCOMING_CONFIRMATIONS'' (ParseUint32 example_env_sys) = Some 7 \<and>
   env_value example_env_sys ''MIN_REQUIRED_OUTGOING_CONFIRMATIONS'' (ParseUint64 example_env_sys) = Some 7 \<and>
   env_value example_env_sys ''MINIMUM_CONTRACT_PAYMENT_LINK_JUELS'' (ParseLink example_env_sys) = Some (Some 7) \<and>
   env_value example_env_sys ''ETH_GAS_BUMP_TX_DEPTH'' (ParseUint16 example_env_sys) = Some 7 \<and>
   env_value example_env_sys ''ETH_GAS_BUMP_PERCENT'' (ParseUint16 example_env_sys) = Some 7 \<and>
   env_value example_env_sys ''ETH_NONCE_AUTO_SYNC'' (ParseBool example_env_sys) = Some True \<and>
   env_value example_env_sys ''ETH_GAS_LIMIT_MULTIPLIER'' (ParseF32 example_env_sys) = Some 0x3F800000 \<and>
   env_value example_env_sys ''ETH_HEAD_TRACKER_MAX_BUFFER_SIZE'' (ParseUint64 example_env_sys) = Some 7 \<and>
   env_value example_env_sys ''ETH_TX_REAPER_INTERVAL'' (ParseDuration example_env_sys) = Some 1000000000 \<and>
   env_value example_env_sys ''ETH_TX_REAPER_THRESHOLD'' (ParseDuration example_env_sys) = Some 1000000000 \<and>
   env_value example_env_sys ''ETH_LOG_BACKFILL_BATCH_SIZE'' (ParseUint32 example_env_sys) = Some 7 \<and>
   env_value example_env_sys ''FLAGS_CONTRACT_ADDRESS'' (ParseString example_env_sys) = Some ''0x7'' \<and>
   env_value example_env_sys ''ETH_GAS_PRICE_DEFAULT'' (ParseBigInt example_env_sys) = Some 7 \<and>
   env_value example_env_sys ''BLOCK_HISTORY_ESTIMATOR_BATCH_SIZE'' (ParseUint32 example_env_sys) = Some 7 \<and>
   env_value example_env_sys ''GAS_ESTIMATOR_MODE'' (ParseString example_env_sys) = Some ''0x7'' \<and>
   env_value example_env_sys ''OCR_CONTRACT_CONFIRMATIONS'' (ParseUint16 example_env_sys) = Some 7 \<and>
   env_value example_env_sys ''BALANCE_MONITOR_ENABLED'' (ParseBool example_env_sys) = Some True"
  by (simp add: env_value_def example_env_sys_def example_sys_def example_env_def example_ParseUint_def)

theorem environment_value_wins_witness:
  "env_value example_env_sys ''ETH_BALANCE_MONITOR_BLOCK_DELAY'' (ParseUint16 example_env_sys) = Some 7 \<and>
   EvmBalanceMonitorBlockDelay example_env_sys example_config = Returns 7 \<and>
   env_value example_env_sys ''ETH_GAS_BUMP_THRESHOLD'' (ParseUint64 example_env_sys) = Some 7 \<and>
   EvmGasBumpThreshold example_env_sys example_config = Returns 7 \<and>
   env_value example_env_sys ''ETH_GAS_BUMP_WEI'' (ParseBigInt example_env_sys) = Some 7 \<and>
   EvmGasBumpWei example_env_sys example_config = Returns 7 \<and>
   env_value example_env_sys ''ETH_MAX_IN_FLIGHT_TRANSACTIONS'' (ParseUint32 example_env_sys) = Some 7 \<and>
   EvmMaxInFlightTransactions example_env_sys example_config = Returns 7 \<and>
   env_value example_env_sys ''ETH_MAX_GAS_PRICE_WEI'' (ParseBigInt example_env_sys) = Some 7 \<and>
   EvmMaxGasPriceWei example_env_sys example_config = Returns 7 \<and>
   env_value example_env_sys ''ETH_MAX_QUEUED_TRANSACTIONS'' (ParseUint64 example_env_sys) = Some 7 \<and>
   EvmMaxQueuedTransactions example_env_sys example_config = Returns 7 \<and>
   env_value example_env_sys ''ETH_MIN_GAS_PRICE_WEI'' (ParseBigInt example_env_sys) = Some 7 \<and>
   EvmMinGasPriceWei example_env_sys example_config = Returns 7 \<and>
   env_value example_env_sys ''ETH_GAS_LIMIT_DEFAULT'' (ParseUint64 example_env_sys) = Some 7 \<and>
   EvmGasLimitDefault example_env_sys example_config = Returns 7 \<and>
   env_value example_env_sys ''ETH_GAS_LIMIT_TRANSFER'' (ParseUint64 example_env_sys) = Some 7 \<and>
   EvmGasLimitTransfer example_env_sys example_config = Returns 7 \<and>
   env_value example_env_sys ''ETH_HEAD_TRACKER_SAMPLING_INTERVAL'' (ParseDuration example_env_sys) = Some 1000000000 \<and>
   EvmHeadTrackerSamplingInterval example_env_sys example_config = Returns 1000000000 \<and>
   env_value example_env_sys ''ETH_TX_RESEND_AFTER_THRESHOLD'' (ParseDuration example_env_sys) = Some 1000000000 \<and>
   EthTxResendAfterThreshold example_env_sys example_config = Returns 1000000000 \<and>
   env_value example_env_sys ''ETH_RPC_DEFAULT_BATCH_SIZE'' (ParseUint32 example_env_sys) = Some 7 \<and>
   EvmDefaultBatchSize example_env_sys example_config = Returns 7 \<and>
   env_value example_env_sys ''BLOCK_HISTORY_ESTIMATOR_BLOCK_DELAY'' (ParseUint16 example_env_sys) = Some 7 \<and>
   BlockHistoryEstimatorBlockDelay example_env_sys example_config = Returns 7 \<and>
   env_value example_env_sys ''BLOCK_HISTORY_ESTIMATOR_BLOCK_HISTORY_SIZE'' (ParseUint16 example_env_sys) = Some 7 \<and>
   BlockHistoryEstimatorBlockHistorySize example_env_sys example_config = Returns 7 \<and>
   env_value example_env_sys ''BLOCK_HISTORY_ESTIMATOR_TRANSACTION_PERCENTILE'' (ParseUint16 example_env_sys) = Some 7 \<and>
   BlockHistoryEstimatorTransactionPercentile example_env_sys example_config = Returns 7 \<and>
   env_value example_env_sys ''LINK_CONTRACT_ADDRESS'' (ParseString example_env_sys) = Some ''0x7'' \<and>
   LinkContractAddress example_env_sys example_config = Returns ''0x7'' \<and>
   env_value example_env_sys ''MIN_INCOMING_CONFIRMATIONS'' (ParseUint32 example_env_sys) = Some 7 \<and>
   MinIncomingConfirmations example_env_sys example_config = Returns 7 \<and>
   env_value example_env_sys ''MIN_REQUIRED_OUTGOING_CONFIRMATIONS'' (ParseUint64 example_env_sys) = Some 7 \<and>
   MinRequiredOutgoingConfirmations example_env_sys example_config = Returns 7 \<and>
   env_value example_env_sys ''MINIMUM_CONTRACT_PAYMENT_LINK_JUELS'' (ParseLink example_env_sys) = Some (Some 7) \<and>
   MinimumContractPayment example_env_sys example_config = Returns (Some 7) \<and>
   env_value example_env_sys ''ETH_GAS_BUMP_TX_DEPTH'' (ParseUint16 example_env_sys) = Some 7 \<and>
   EvmGasBumpTxDepth example_env_sys example_config = Returns 7 \<and>
   env_value example_env_sys ''ETH_GAS_BUMP_PERCENT'' (ParseUint16 example_env_sys) = Some 7 \<and>
   EvmGasBumpPercent example_env_sys example_config = Returns 7 \<and>
   env_value example_env_sys ''ETH_NONCE_AUTO_SYNC'' (ParseBool example_env_sys) = Some True \<and>
   EvmNonceAutoSync example_env_sys example_config = Returns True \<and>
   env_value example_env_sys ''ETH_GAS_LIMIT_MULTIPLIER'' (ParseF32 example_env_sys) = Some 0x3F800000 \<and>
   EvmGasLimitMultiplier example_env_sys example_config = Returns 0x3F800000 \<and>
   env_value example_env_sys ''ETH_HEAD_TRACKER_MAX_BUFFER_SIZE'' (ParseUint64 example_env_sys) = Some 7 \<and>
   EvmHeadTrackerMaxBufferSize example_env_sys example_config = Returns 7 \<and>
   env_value example_env_sys ''ETH_TX_REAPER_INTERVAL'' (ParseDuration example_env_sys) = Some 1000000000 \<and>
   EthTxReaperInterval example_env_sys example_config = Returns 1000000000 \<and>
   env_value example_env_sys ''ETH_TX_REAPER_THRESHOLD'' (ParseDuration example_env_sys) = Some 1000000000 \<and>
   EthTxReaperThreshold example_env_sys example_config = Returns 1000000000 \<and>
   env_value example_env_sys ''ETH_LOG_BACKFILL_BATCH_SIZE'' (ParseUint32 example_env_sys) = Some 7 \<and>
   EvmLogBackfillBatchSize example_env_sys example_config = Returns 7 \<and>
   env_value example_env_sys ''ETH_RPC_DEFAULT_BATCH_SIZE'' (ParseUint32 example_env_sys) = Some 7 \<and>
   EvmRPCDefaultBatchSize example_env_sys example_config = Returns 7 \<and>
   env_value example_env_sys ''FLAGS_CONTRACT_ADDRESS'' (ParseString example_env_sys) = Some ''0x7'' \<and>
   FlagsContractAddress example_env_sys example_config = Returns ''0x7'' \<and>
   env_value example_env_sys ''ETH_GAS_PRICE_DEFAULT'' (ParseBigInt example_env_sys) = Some 7 \<and>
   EvmGasPriceDefault example_env_sys example_config = Returns (7, example_config) \<and>
   env_value example_env_sys ''BLOCK_HISTORY_ESTIMATOR_BATCH_SIZE'' (ParseUint32 example_env_sys) = Some 7 \<and>
   BlockHistoryEstimatorBatchSize example_env_sys example_config = Returns 7 \<and>
   env_value example_env_sys ''GAS_ESTIMATOR_MODE'' (ParseString example_env_sys) = Some ''0x7'' \<and>
   GasEstimatorMode example_env_sys example_config = Returns ''0x7'' \<and>
   env_value example_env_sys ''OCR_CONTRACT_CONFIRMATIONS'' (ParseUint16 example_env_sys) = Some 7 \<and>
   OCRContractConfirmations example_env_sys example_config 0 = Returns 7 \<and>
   env_value example_env_sys ''BALANCE_MONITOR_ENABLED'' (ParseBool example_env_sys) = Some True \<and>
   BalanceMonitorEnabled example_env_sys example_config = Returns True"
proof -
  have enabled: "\<not> EthereumDisabled (GeneralConfig example_config)"
    by (simp add: example_config_def example_GeneralConfig_def)
  show ?thesis
    using environment_value_wins [of example_env_sys "''ETH_GAS_BUMP_WEI''"
        "ParseBigInt example_env_sys" ABigInt example_config]
      example_env_values enabled
    by (simp add: ex_bool_eq)
qed


lemma malformed_as_parser:
  "malformed S k (as_parser tag p) = (environ S k \<noteq> None \<and> env_value S k p = None)"
  by (simp add: malformed_def as_parser_def env_value_def split: option.splits sum.splits)

lemma env_value_unsetenv:
  "env_value (unsetenv k S) k' p = (if k' = k then None else env_value S k' p)"
  by (simp add: env_value_def unsetenv_def)

lemma unsetenv_fields:
  "ParseUint16 (unsetenv k S) = ParseUint16 S" "ParseUint32 (unsetenv k S) = ParseUint32 S"
  "ParseUint64 (unsetenv k S) = ParseUint64 S" "ParseBigInt (unsetenv k S) = ParseBigInt S"
  "ParseDuration (unsetenv k S) = ParseDuration S" "ParseString (unsetenv k S) = ParseString S"
  "ParseBool (unsetenv k S) = ParseBool S" "ParseF32 (unsetenv k S) = ParseF32 S"
  "ParseLink (unsetenv k S) = ParseLink S"
  "float32_of_float64 (unsetenv k S) = float32_of_float64 S"
  by (simp_all add: unsetenv_def)

text \<open>
  The claim as stated fails on the code where the code decides otherwise on purpose:
  with Ethereum disabled the estimator mode is \<open>FixedPrice\<close> whatever the environment
  says, a batch size of 0 in the environment gives the default batch size, and a
  non-zero \<open>override\<close> is returned before the environment is read.
\<close>

theorem environment_value_counterexample:
  "env_value (example_sys\<lparr>environ := [''GAS_ESTIMATOR_MODE'' \<mapsto> ''BlockHistory'']\<rparr>)
      ''GAS_ESTIMATOR_MODE''
      (ParseString (example_sys\<lparr>environ := [''GAS_ESTIMATOR_MODE'' \<mapsto> ''BlockHistory'']\<rparr>)) =
     Some ''BlockHistory'' \<and>
   GasEstimatorMode (example_sys\<lparr>environ := [''GAS_ESTIMATOR_MODE'' \<mapsto> ''BlockHistory'']\<rparr>)
      example_disabled_config = Returns ''FixedPrice'' \<and>
   env_value (example_sys\<lparr>environ := [''BLOCK_HISTORY_ESTIMATOR_BATCH_SIZE'' \<mapsto> ''0'']\<rparr>)
      ''BLOCK_HISTORY_ESTIMATOR_BATCH_SIZE''
      (ParseUint32 (example_sys\<lparr>environ := [''BLOCK_HISTORY_ESTIMATOR_BATCH_SIZE'' \<mapsto> ''0'']\<rparr>)) =
     Some 0 \<and>
   BlockHistoryEstimatorBatchSize
      (example_sys\<lparr>environ := [''BLOCK_HISTORY_ESTIMATOR_BATCH_SIZE'' \<mapsto> ''0'']\<rparr>)
      example_config = Returns 100 \<and>
   env_value (example_sys\<lparr>environ := [''OCR_CONTRACT_CONFIRMATIONS'' \<mapsto> ''7'']\<rparr>)
      ''OCR_CONTRACT_CONFIRMATIONS''
      (ParseUint16 (example_sys\<lparr>environ := [''OCR_CONTRACT_CONFIRMATIONS'' \<mapsto> ''7'']\<rparr>)) =
     Some 7 \<and>
   OCRContractConfirmations
      (example_sys\<lparr>environ := [''OCR_CONTRACT_CONFIRMATIONS'' \<mapsto> ''7'']\<rparr>)
      example_config 5 = Returns 5"
  by (simp add: GasEstimatorMode_eq BlockHistoryEstimatorBatchSize_eq OCRContractConfirmations_eq
      env_value_def example_sys_def example_ParseUint_def example_disabled_config_def
      example_config_def example_GeneralConfig_def example_defaultSet_def)

text \<open>
  The two getters of type \<open>uint\<close> are left out of the theorem above. There a well-formed
  value makes the getter panic: \<open>config.ParseUint64\<close> returns a \<open>uint64\<close> and the getter
  asserts \<open>val.(uint)\<close>, where \<open>EvmHeadTrackerMaxBufferSize\<close> asserts \<open>val.(uint64)\<close> and
  converts.
\<close>

lemma uint_getters_panic:
  "env_value S ''ETH_FINALITY_DEPTH'' (ParseUint64 S) = Some v \<Longrightarrow>
     EvmFinalityDepth S c = Panics (InterfaceConversion ''uint64'' ''uint'')"
  "env_value S ''ETH_HEAD_TRACKER_HISTORY_DEPTH'' (ParseUint64 S) = Some v \<Longrightarrow>
     EvmHeadTrackerHistoryDepth S c = Panics (InterfaceConversion ''uint64'' ''uint'')"
  by (simp_all add: EvmFinalityDepth_eq EvmHeadTrackerHistoryDepth_eq)

lemma EvmBalanceMonitorBlockDelay_GeneralConfig:
  "EvmBalanceMonitorBlockDelay S (c\<lparr>GeneralConfig := g\<rparr>) = EvmBalanceMonitorBlockDelay S c"
  by (simp add: EvmBalanceMonitorBlockDelay_eq Let_def split: option.splits)

lemma EvmGasBumpThreshold_GeneralConfig:
  "EvmGasBumpThreshold S (c\<lparr>GeneralConfig := g\<rparr>) = EvmGasBumpThreshold S c"
  by (simp add: EvmGasBumpThreshold_eq Let_def split: option.splits)

lemma EvmGasBumpWei_GeneralConfig:
  "EvmGasBumpWei S (c\<lparr>GeneralConfig := g\<rparr>) = EvmGasBumpWei S c"
  by (simp add: EvmGasBumpWei_eq Let_def split: option.splits)

lemma EvmMaxInFlightTransactions_GeneralConfig:
  "EvmMaxInFlightTransactions S (c\<lparr>GeneralConfig := g\<rparr>) = EvmMaxInFlightTransactions S c"
  by (simp add: EvmMaxInFlightTransactions_eq Let_def split: option.splits)

lemma EvmMaxGasPriceWei_GeneralConfig:
  "EvmMaxGasPriceWei S (c\<lparr>GeneralConfig := g\<rparr>) = EvmMaxGasPriceWei S c"
  by (simp add: EvmMaxGasPriceWei_eq Let_def split: option.splits)

lemma EvmMaxQueuedTransactions_GeneralConfig:
  "EvmMaxQueuedTransactions S (c\<lparr>GeneralConfig := g\<rparr>) = EvmMaxQueuedTransactions S c"
  by (simp add: EvmMaxQueuedTransactions_eq Let_def split: option.splits)

lemma EvmMinGasPriceWei_GeneralConfig:
  "EvmMinGasPriceWei S (c\<lparr>GeneralConfig := g\<rparr>) = EvmMinGasPriceWei S c"
  by (simp add: EvmMinGasPriceWei_eq Let_def split: option.splits)

lemma EvmGasLimitDefault_GeneralConfig:
  "EvmGasLimitDefault S (c\<lparr>GeneralConfig := g\<rparr>) = EvmGasLimitDefault S c"
  by (simp add: EvmGasLimitDefault_eq Let_def split: option.splits)

lemma EvmGasLimitTransfer_GeneralConfig:
  "EvmGasLimitTransfer S (c\<lparr>GeneralConfig := g\<rparr>) = EvmGasLimitTransfer S c"
  by (simp add: EvmGasLimitTransfer_eq Let_def split: option.splits)

lemma EvmHeadTrackerSamplingInterval_GeneralConfig:
  "EvmHeadTrackerSamplingInterval S (c\<lparr>GeneralConfig := g\<rparr>) = EvmHeadTrackerSamplingInterval S c"
  by (simp add: EvmHeadTrackerSamplingInterval_eq Let_def split: option.splits)

lemma EthTxResendAfterThreshold_GeneralConfig:
  "EthTxResendAfterThreshold S (c\<lparr>GeneralConfig := g\<rparr>) = EthTxResendAfterThreshold S c"
  by (simp add: EthTxResendAfterThreshold_eq Let_def split: option.splits)

lemma EvmDefaultBatchSize_GeneralConfig:
  "EvmDefaultBatchSize S (c\<lparr>GeneralConfig := g\<rparr>) = EvmDefaultBatchSize S c"
  by (simp add: EvmDefaultBatchSize_eq Let_def split: option.splits)

lemma BlockHistoryEstimatorBlockDelay_GeneralConfig:
  "BlockHistoryEstimatorBlockDelay S (c\<lparr>GeneralConfig := g\<rparr>) = BlockHistoryEstimatorBlockDelay S c"
  by (simp add: BlockHistoryEstimatorBlockDelay_eq Let_def split: option.splits)

lemma BlockHistoryEstimatorBlockHistorySize_GeneralConfig:
  "BlockHistoryEstimatorBlockHistorySize S (c\<lparr>GeneralConfig := g\<rparr>) = BlockHistoryEstimatorBlockHistorySize S c"
  by (simp add: BlockHistoryEstimatorBlockHistorySize_eq Let_def split: option.splits)

lemma BlockHistoryEstimatorTransactionPercentile_GeneralConfig:
  "BlockHistoryEstimatorTransactionPercentile S (c\<lparr>GeneralConfig := g\<rparr>) = BlockHistoryEstimatorTransactionPercentile S c"
  by (simp add: BlockHistoryEstimatorTransactionPercentile_eq Let_def split: option.splits)

lemma LinkContractAddress_GeneralConfig:
  "LinkContractAddress S (c\<lparr>GeneralConfig := g\<rparr>) = LinkContractAddress S c"
  by (simp add: LinkContractAddress_eq Let_def split: option.splits)

lemma MinIncomingConfirmations_GeneralConfig:
  "MinIncomingConfirmations S (c\<lparr>GeneralConfig := g\<rparr>) = MinIncomingConfirmations S c"
  by (simp add: MinIncomingConfirmations_eq Let_def split: option.splits)

lemma MinRequiredOutgoingConfirmations_GeneralConfig:
  "MinRequiredOutgoingConfirmations S (c\<lparr>GeneralConfig := g\<rparr>) = MinRequiredOutgoingConfirmations S c"
  by (simp add: MinRequiredOutgoingConfirmations_eq Let_def split: option.splits)

lemma MinimumContractPayment_GeneralConfig:
  "MinimumContractPayment S (c\<lparr>GeneralConfig := g\<rparr>) = MinimumContractPayment S c"
  by (simp add: MinimumContractPayment_eq Let_def split: option.splits)

lemma EvmGasBumpTxDepth_GeneralConfig:
  "EvmGasBumpTxDepth S (c\<lparr>GeneralConfig := g\<rparr>) = EvmGasBumpTxDepth S c"
  by (simp add: EvmGasBumpTxDepth_eq Let_def split: option.splits)

lemma EvmGasBumpPercent_GeneralConfig:
  "EvmGasBumpPercent S (c\<lparr>GeneralConfig := g\<rparr>) = EvmGasBumpPercent S c"
  by (simp add: EvmGasBumpPercent_eq Let_def split: option.splits)

lemma EvmNonceAutoSync_GeneralConfig:
  "EvmNonceAutoSync S (c\<lparr>GeneralConfig := g\<rparr>) = EvmNonceAutoSync S c"
  by (simp add: EvmNonceAutoSync_eq Let_def split: option.splits)

lemma EvmGasLimitMultiplier_GeneralConfig:
  "EvmGasLimitMultiplier S (c\<lparr>GeneralConfig := g\<rparr>) = EvmGasLimitMultiplier S c"
  by (simp add: EvmGasLimitMultiplier_eq Let_def split: option.splits)

lemma EvmHeadTrackerMaxBufferSize_GeneralConfig:
  "EvmHeadTrackerMaxBufferSize S (c\<lparr>GeneralConfig := g\<rparr>) = EvmHeadTrackerMaxBufferSize S c"
  by (simp add: EvmHeadTrackerMaxBufferSize_eq Let_def split: option.splits)

lemma EthTxReaperInterval_GeneralConfig:
  "EthTxReaperInterval S (c\<lparr>GeneralConfig := g\<rparr>) = EthTxReaperInterval S c"
  by (simp add: EthTxReaperInterval_eq Let_def split: option.splits)

lemma EthTxReaperThreshold_GeneralConfig:
  "EthTxReaperThreshold S (c\<lparr>GeneralConfig := g\<rparr>) = EthTxReaperThreshold S c"
  by (simp add: EthTxReaperThreshold_eq Let_def split: option.splits)

lemma EvmLogBackfillBatchSize_GeneralConfig:
  "EvmLogBackfillBatchSize S (c\<lparr>GeneralConfig := g\<rparr>) = EvmLogBackfillBatchSize S c"
  by (simp add: EvmLogBackfillBatchSize_eq Let_def split: option.splits)

lemma EvmRPCDefaultBatchSize_GeneralConfig:
  "EvmRPCDefaultBatchSize S (c\<lparr>GeneralConfig := g\<rparr>) = EvmRPCDefaultBatchSize S c"
  by (simp add: EvmRPCDefaultBatchSize_eq Let_def split: option.splits)

lemma FlagsContractAddress_GeneralConfig:
  "FlagsContractAddress S (c\<lparr>GeneralConfig := g\<rparr>) = FlagsContractAddress S c"
  by (simp add: FlagsContractAddress_eq Let_def split: option.splits)

lemma EvmFinalityDepth_GeneralConfig:
  "EvmFinalityDepth S (c\<lparr>GeneralConfig := g\<rparr>) = EvmFinalityDepth S c"
  by (simp add: EvmFinalityDepth_eq Let_def split: option.splits)

lemma EvmHeadTrackerHistoryDepth_GeneralConfig:
  "EvmHeadTrackerHistoryDepth S (c\<lparr>GeneralConfig := g\<rparr>) = EvmHeadTrackerHistoryDepth S c"
  by (simp add: EvmHeadTrackerHistoryDepth_eq Let_def split: option.splits)

lemma BlockEmissionIdleWarningThreshold_GeneralConfig:
  "BlockEmissionIdleWarningThreshold S (c\<lparr>GeneralConfig := g\<rparr>) = BlockEmissionIdleWarningThreshold S c"
  by (simp add: BlockEmissionIdleWarningThreshold_eq Let_def split: option.splits)

lemma BlockHistoryEstimatorBatchSize_GeneralConfig:
  "BlockHistoryEstimatorBatchSize S (c\<lparr>GeneralConfig := g\<rparr>) = BlockHistoryEstimatorBatchSize S c"
  by (simp add: BlockHistoryEstimatorBatchSize_eq Let_def split: option.splits)

lemma OCRContractConfirmations_GeneralConfig:
  "OCRContractConfirmations S (c\<lparr>GeneralConfig := g\<rparr>) override =
     OCRContractConfirmations S c override"
  by (simp add: OCRContractConfirmations_eq split: option.splits)

lemma EvmGasPriceDefault_GeneralConfig:
  "value_of (EvmGasPriceDefault S (c\<lparr>GeneralConfig := g\<rparr>)) = value_of (EvmGasPriceDefault S c)"
  by (simp add: EvmGasPriceDefault_eq split: option.splits)

lemma disabled_fixed:
  "EthereumDisabled (GeneralConfig c) \<longrightarrow>
     GasEstimatorMode S c = Returns ''FixedPrice'' \<and> BalanceMonitorEnabled S c = Returns False"
  by (simp add: GasEstimatorMode_eq BalanceMonitorEnabled_eq)

text \<open>
  C7. With Ethereum disabled in the global configuration, \<open>GasEstimatorMode\<close> returns
  \<open>FixedPrice\<close> and \<open>BalanceMonitorEnabled\<close> returns false, whatever the environment, the
  persisted configuration and the default set hold. No other getter reads the global
  configuration: replacing it changes no other getter's result.
\<close>

theorem disabled_short_circuit:
  "(EthereumDisabled (GeneralConfig c) \<longrightarrow>
      GasEstimatorMode S c = Returns ''FixedPrice'' \<and> BalanceMonitorEnabled S c = Returns False) \<and>
   EvmBalanceMonitorBlockDelay S (c\<lparr>GeneralConfig := g\<rparr>) = EvmBalanceMonitorBlockDelay S c \<and>
   EvmGasBumpThreshold S (c\<lparr>GeneralConfig := g\<rparr>) = EvmGasBumpThreshold S c \<and>
   EvmGasBumpWei S (c\<lparr>GeneralConfig := g\<rparr>) = EvmGasBumpWei S c \<and>
   EvmMaxInFlightTransactions S (c\<lparr>GeneralConfig := g\<rparr>) = EvmMaxInFlightTransactions S c \<and>
   EvmMaxGasPriceWei S (c\<lparr>GeneralConfig := g\<rparr>) = EvmMaxGasPriceWei S c \<and>
   EvmMaxQueuedTransactions S (c\<lparr>GeneralConfig := g\<rparr>) = EvmMaxQueuedTransactions S c \<and>
   EvmMinGasPriceWei S (c\<lparr>GeneralConfig := g\<rparr>) = EvmMinGasPriceWei S c \<and>
   EvmGasLimitDefault S (c\<lparr>GeneralConfig := g\<rparr>) = EvmGasLimitDefault S c \<and>
   EvmGasLimitTransfer S (c\<lparr>GeneralConfig := g\<rparr>) = EvmGasLimitTransfer S c \<and>
   EvmHeadTrackerSamplingInterval S (c\<lparr>GeneralConfig := g\<rparr>) = EvmHeadTrackerSamplingInterval S c \<and>
   EthTxResendAfterThreshold S (c\<lparr>GeneralConfig := g\<rparr>) = EthTxResendAfterThreshold S c \<and>
   EvmDefaultBatchSize S (c\<lparr>GeneralConfig := g\<rparr>) = EvmDefaultBatchSize S c \<and>
   BlockHistoryEstimatorBlockDelay S (c\<lparr>GeneralConfig := g\<rparr>) = BlockHistoryEstimatorBlockDelay S c \<and>
   BlockHistoryEstimatorBlockHistorySize S (c\<lparr>GeneralConfig := g\<rparr>) = BlockHistoryEstimatorBlockHistorySize S c \<and>
   BlockHistoryEstimatorTransactionPercentile S (c\<lparr>GeneralConfig := g\<rparr>) = BlockHistoryEstimatorTransactionPercentile S c \<and>
   LinkContractAddress S (c\<lparr>GeneralConfig := g\<rparr>) = LinkContractAddress S c \<and>
   MinIncomingConfirmations S (c\<lparr>GeneralConfig := g\<rparr>) = MinIncomingConfirmations S c \<and>
   MinRequiredOutgoingConfirmations S (c\<lparr>GeneralConfig := g\<rparr>) = MinRequiredOutgoingConfirmations S c \<and>
   MinimumContractPayment S (c\<lparr>GeneralConfig := g\<rparr>) = MinimumContractPayment S c \<and>
   EvmGasBumpTxDepth S (c\<lparr>GeneralConfig := g\<rparr>) = EvmGasBumpTxDepth S c \<and>
   EvmGasBumpPercent S (c\<lparr>GeneralConfig := g\<rparr>) = EvmGasBumpPercent S c \<and>
   EvmNonceAutoSync S (c\<lparr>GeneralConfig := g\<rparr>) = EvmNonceAutoSync S c \<and>
   EvmGasLimitMultiplier S (c\<lparr>GeneralConfig := g\<rparr>) = EvmGasLimitMultiplier S c \<and>
   EvmHeadTrackerMaxBufferSize S (c\<lparr>GeneralConfig := g\<rparr>) = EvmHeadTrackerMaxBufferSize S c \<and>
   EthTxReaperInterval S (c\<lparr>GeneralConfig := g\<rparr>) = EthTxReaperInterval S c \<and>
   EthTxReaperThreshold S (c\<lparr>GeneralConfig := g\<rparr>) = EthTxReaperThreshold S c \<and>
   EvmLogBackfillBatchSize S (c\<lparr>GeneralConfig := g\<rparr>) = EvmLogBackfillBatchSize S c \<and>
   EvmRPCDefaultBatchSize S (c\<lparr>GeneralConfig := g\<rparr>) = EvmRPCDefaultBatchSize S c \<and>
   FlagsContractAddress S (c\<lparr>GeneralConfig := g\<rparr>) = FlagsContractAddress S c \<and>
   EvmFinalityDepth S (c\<lparr>GeneralConfig := g\<rparr>) = EvmFinalityDepth S c \<and>
   EvmHeadTrackerHistoryDepth S (c\<lparr>GeneralConfig := g\<rparr>) = EvmHeadTrackerHistoryDepth S c \<and>
   BlockEmissionIdleWarningThreshold S (c\<lparr>GeneralConfig := g\<rparr>) = BlockEmissionIdleWarningThreshold S c \<and>
   BlockHistoryEstimatorBatchSize S (c\<lparr>GeneralConfig := g\<rparr>) = BlockHistoryEstimatorBatchSize S c \<and>
   OCRContractConfirmations S (c\<lparr>GeneralConfig := g\<rparr>) override =
     OCRContractConfirmations S c override \<and>
   value_of (EvmGasPriceDefault S (c\<lparr>GeneralConfig := g\<rparr>)) =
     value_of (EvmGasPriceDefault S c)"
  by (intro conjI)
    (rule disabled_fixed
      EvmBalanceMonitorBlockDelay_GeneralConfig
      EvmGasBumpThreshold_GeneralConfig
      EvmGasBumpWei_GeneralConfig
      EvmMaxInFlightTransactions_GeneralConfig
      EvmMaxGasPriceWei_GeneralConfig
      EvmMaxQueuedTransactions_GeneralConfig
      EvmMinGasPriceWei_GeneralConfig
      EvmGasLimitDefault_GeneralConfig
      EvmGasLimitTransfer_GeneralConfig
      EvmHeadTrackerSamplingInterval_GeneralConfig
      EthTxResendAfterThreshold_GeneralConfig
      EvmDefaultBatchSize_GeneralConfig
      BlockHistoryEstimatorBlockDelay_GeneralConfig
      BlockHistoryEstimatorBlockHistorySize_GeneralConfig
      BlockHistoryEstimatorTransactionPercentile_GeneralConfig
      LinkContractAddress_GeneralConfig
      MinIncomingConfirmations_GeneralConfig
      MinRequiredOutgoingConfirmations_GeneralConfig
      MinimumContractPayment_GeneralConfig
      EvmGasBumpTxDepth_GeneralConfig
      EvmGasBumpPercent_GeneralConfig
      EvmNonceAutoSync_GeneralConfig
      EvmGasLimitMultiplier_GeneralConfig
      EvmHeadTrackerMaxBufferSize_GeneralConfig
      EthTxReaperInterval_GeneralConfig
      EthTxReaperThreshold_GeneralConfig
      EvmLogBackfillBatchSize_GeneralConfig
      EvmRPCDefaultBatchSize_GeneralConfig
      FlagsContractAddress_GeneralConfig
      EvmFinalityDepth_GeneralConfig
      EvmHeadTrackerHistoryDepth_GeneralConfig
      BlockEmissionIdleWarningThreshold_GeneralConfig
      BlockHistoryEstimatorBatchSize_GeneralConfig
      OCRContractConfirmations_GeneralConfig
      EvmGasPriceDefault_GeneralConfig)+

theorem disabled_short_circuit_witness:
  "EthereumDisabled (GeneralConfig example_disabled_config) \<and>
   env_value example_env_sys ''GAS_ESTIMATOR_MODE'' (ParseString example_env_sys) = Some ''0x7'' \<and>
   env_value example_env_sys ''BALANCE_MONITOR_ENABLED'' (ParseBool example_env_sys) = Some True \<and>
   gasEstimatorMode (defaultSet example_disabled_config) = ''BlockHistory'' \<and>
   balanceMonitorEnabled (defaultSet example_disabled_config) \<and>
   GasEstimatorMode example_env_sys example_disabled_config = Returns ''FixedPrice'' \<and>
   BalanceMonitorEnabled example_env_sys example_disabled_config = Returns False"
proof -
  have d: "EthereumDisabled (GeneralConfig example_disabled_config)"
    "gasEstimatorMode (defaultSet example_disabled_config) = ''BlockHistory''"
    "balanceMonitorEnabled (defaultSet example_disabled_config)"
    by (simp_all add: example_disabled_config_def example_config_def example_defaultSet_def)
  have e: "env_value example_env_sys ''GAS_ESTIMATOR_MODE'' (ParseString example_env_sys) = Some ''0x7''"
    "env_value example_env_sys ''BALANCE_MONITOR_ENABLED'' (ParseBool example_env_sys) = Some True"
    by (simp_all add: env_value_def example_env_sys_def example_sys_def example_env_def)
  show ?thesis
    using disabled_short_circuit [of example_disabled_config example_env_sys] d e by simp
qed

lemma lookupEnv_malformed:
  "malformed S k parse \<longrightarrow>
      (\<exists>s err. environ S k = Some s \<and> snd (parse s) = Some err \<and>
         lookupEnv (environ S) k parse =
           ((ANil, False),
            [Errorw (''Invalid value provided for '' @ s @ '', falling back to default.'') s k err])) \<and>
      fst (lookupEnv (environ S) k parse) = fst (lookupEnv (environ (unsetenv k S)) k parse)"
  by (auto simp: malformed_def lookupEnv_def unsetenv_def split: option.splits prod.splits)

lemma EvmBalanceMonitorBlockDelay_malformed:
  "malformed S ''ETH_BALANCE_MONITOR_BLOCK_DELAY'' (config_ParseUint16 S) \<longrightarrow>
      EvmBalanceMonitorBlockDelay S c =
        Returns (balanceMonitorBlockDelay (defaultSet c)) \<and>
      EvmBalanceMonitorBlockDelay (unsetenv ''ETH_BALANCE_MONITOR_BLOCK_DELAY'' S) c =
        Returns (balanceMonitorBlockDelay (defaultSet c))"
  by (simp add: EvmBalanceMonitorBlockDelay_eq config_ParseUint16_def malformed_as_parser env_value_unsetenv
      unsetenv_fields Let_def)

lemma EvmGasBumpThreshold_malformed:
  "malformed S ''ETH_GAS_BUMP_THRESHOLD'' (config_ParseUint64 S) \<longrightarrow>
      EvmGasBumpThreshold S c =
        Returns (gasBumpThreshold (defaultSet c)) \<and>
      EvmGasBumpThreshold (unsetenv ''ETH_GAS_BUMP_THRESHOLD'' S) c =
        Returns (gasBumpThreshold (defaultSet c))"
  by (simp add: EvmGasBumpThreshold_eq config_ParseUint64_def malformed_as_parser env_value_unsetenv
      unsetenv_fields Let_def)

lemma EvmGasBumpWei_malformed:
  "malformed S ''ETH_GAS_BUMP_WEI'' (config_ParseBigInt S) \<longrightarrow>
      EvmGasBumpWei S c =
        Returns (case cfg_EvmGasBumpWei (persistedCfg c) of Some p \<Rightarrow> p | None \<Rightarrow> gasBumpWei (defaultSet c)) \<and>
      EvmGasBumpWei (unsetenv ''ETH_GAS_BUMP_WEI'' S) c =
        Returns (case cfg_EvmGasBumpWei (persistedCfg c) of Some p \<Rightarrow> p | None \<Rightarrow> gasBumpWei (defaultSet c))"
  by (simp add: EvmGasBumpWei_eq config_ParseBigInt_def malformed_as_parser env_value_unsetenv
      unsetenv_fields Let_def)

lemma EvmMaxInFlightTransactions_malformed:
  "malformed S ''ETH_MAX_IN_FLIGHT_TRANSACTIONS'' (config_ParseUint32 S) \<longrightarrow>
      EvmMaxInFlightTransactions S c =
        Returns (maxInFlightTransactions (defaultSet c)) \<and>
      EvmMaxInFlightTransactions (unsetenv ''ETH_MAX_IN_FLIGHT_TRANSACTIONS'' S) c =
        Returns (maxInFlightTransactions (defaultSet c))"
  by (simp add: EvmMaxInFlightTransactions_eq config_ParseUint32_def malformed_as_parser env_value_unsetenv
      unsetenv_fields Let_def)

lemma EvmMaxGasPriceWei_malformed:
  "malformed S ''ETH_MAX_GAS_PRICE_WEI'' (config_ParseBigInt S) \<longrightarrow>
      EvmMaxGasPriceWei S c =
        Returns (case cfg_EvmMaxGasPriceWei (persistedCfg c) of Some p \<Rightarrow> p | None \<Rightarrow> maxGasPriceWei (defaultSet c)) \<and>
      EvmMaxGasPriceWei (unsetenv ''ETH_MAX_GAS_PRICE_WEI'' S) c =
        Returns (case cfg_EvmMaxGasPriceWei (persistedCfg c) of Some p \<Rightarrow> p | None \<Rightarrow> maxGasPriceWei (defaultSet c))"
  by (simp add: EvmMaxGasPriceWei_eq config_ParseBigInt_def malformed_as_parser env_value_unsetenv
      unsetenv_fields Let_def)

lemma EvmMaxQueuedTransactions_malformed:
  "malformed S ''ETH_MAX_QUEUED_TRANSACTIONS'' (config_ParseUint64 S) \<longrightarrow>
      EvmMaxQueuedTransactions S c =
        Returns (maxQueuedTransactions (defaultSet c)) \<and>
      EvmMaxQueuedTransactions (unsetenv ''ETH_MAX_QUEUED_TRANSACTIONS'' S) c =
        Returns (maxQueuedTransactions (defaultSet c))"
  by (simp add: EvmMaxQueuedTransactions_eq config_ParseUint64_def malformed_as_parser env_value_unsetenv
      unsetenv_fields Let_def)

lemma EvmMinGasPriceWei_malformed:
  "malformed S ''ETH_MIN_GAS_PRICE_WEI'' (config_ParseBigInt S) \<longrightarrow>
      EvmMinGasPriceWei S c =
        Returns (minGasPriceWei (defaultSet c)) \<and>
      EvmMinGasPriceWei (unsetenv ''ETH_MIN_GAS_PRICE_WEI'' S) c =
        Returns (minGasPriceWei (defaultSet c))"
  by (simp add: EvmMinGasPriceWei_eq config_ParseBigInt_def malformed_as_parser env_value_unsetenv
      unsetenv_fields Let_def)

lemma EvmGasLimitDefault_malformed:
  "malformed S ''ETH_GAS_LIMIT_DEFAULT'' (config_ParseUint64 S) \<longrightarrow>
      EvmGasLimitDefault S c =
        Returns (if Valid (cfg_EvmGasLimitDefault (persistedCfg c)) then Value (cfg_EvmGasLimitDefault (persistedCfg c)) else gasLimitDefault (defaultSet c)) \<and>
      EvmGasLimitDefault (unsetenv ''ETH_GAS_LIMIT_DEFAULT'' S) c =
        Returns (if Valid (cfg_EvmGasLimitDefault (persistedCfg c)) then Value (cfg_EvmGasLimitDefault (persistedCfg c)) else gasLimitDefault (defaultSet c))"
  by (simp add: EvmGasLimitDefault_eq config_ParseUint64_def malformed_as_parser env_value_unsetenv
      unsetenv_fields Let_def)

lemma EvmGasLimitTransfer_malformed:
  "malformed S ''ETH_GAS_LIMIT_TRANSFER'' (config_ParseUint64 S) \<longrightarrow>
      EvmGasLimitTransfer S c =
        Returns (gasLimitTransfer (defaultSet c)) \<and>
      EvmGasLimitTransfer (unsetenv ''ETH_GAS_LIMIT_TRANSFER'' S) c =
        Returns (gasLimitTransfer (defaultSet c))"
  by (simp add: EvmGasLimitTransfer_eq config_ParseUint64_def malformed_as_parser env_value_unsetenv
      unsetenv_fields Let_def)

lemma EvmHeadTrackerSamplingInterval_malformed:
  "malformed S ''ETH_HEAD_TRACKER_SAMPLING_INTERVAL'' (config_ParseDuration S) \<longrightarrow>
      EvmHeadTrackerSamplingInterval S c =
        Returns (case cfg_EvmHeadTrackerSamplingInterval (persistedCfg c) of Some p \<Rightarrow> p | None \<Rightarrow> headTrackerSamplingInterval (defaultSet c)) \<and>
      EvmHeadTrackerSamplingInterval (unsetenv ''ETH_HEAD_TRACKER_SAMPLING_INTERVAL'' S) c =
        Returns (case cfg_EvmHeadTrackerSamplingInterval (persistedCfg c) of Some p \<Rightarrow> p | None \<Rightarrow> headTrackerSamplingInterval (defaultSet c))"
  by (simp add: EvmHeadTrackerSamplingInterval_eq config_ParseDuration_def malformed_as_parser env_value_unsetenv
      unsetenv_fields Let_def)

lemma EthTxResendAfterThreshold_malformed:
  "malformed S ''ETH_TX_RESEND_AFTER_THRESHOLD'' (config_ParseDuration S) \<longrightarrow>
      EthTxResendAfterThreshold S c =
        Returns (case cfg_EthTxResendAfterThreshold (persistedCfg c) of Some p \<Rightarrow> p | None \<Rightarrow> ethTxResendAfterThreshold (defaultSet c)) \<and>
      EthTxResendAfterThreshold (unsetenv ''ETH_TX_RESEND_AFTER_THRESHOLD'' S) c =
        Returns (case cfg_EthTxResendAfterThreshold (persistedCfg c) of Some p \<Rightarrow> p | None \<Rightarrow> ethTxResendAfterThreshold (defaultSet c))"
  by (simp add: EthTxResendAfterThreshold_eq config_ParseDuration_def malformed_as_parser env_value_unsetenv
      unsetenv_fields Let_def)

lemma EvmDefaultBatchSize_malformed:
  "malformed S ''ETH_RPC_DEFAULT_BATCH_SIZE'' (config_ParseUint32 S) \<longrightarrow>
      EvmDefaultBatchSize S c =
        Returns (rpcDefaultBatchSize (defaultSet c)) \<and>
      EvmDefaultBatchSize (unsetenv ''ETH_RPC_DEFAULT_BATCH_SIZE'' S) c =
        Returns (rpcDefaultBatchSize (defaultSet c))"
  by (simp add: EvmDefaultBatchSize_eq config_ParseUint32_def malformed_as_parser env_value_unsetenv
      unsetenv_fields Let_def)

lemma BlockHistoryEstimatorBlockDelay_malformed:
  "malformed S ''BLOCK_HISTORY_ESTIMATOR_BLOCK_DELAY'' (config_ParseUint16 S) \<longrightarrow>
      BlockHistoryEstimatorBlockDelay S c =
        Returns (if Valid (cfg_BlockHistoryEstimatorBlockDelay (persistedCfg c)) then ucast (Value (cfg_BlockHistoryEstimatorBlockDelay (persistedCfg c))) else blockHistoryEstimatorBlockDelay (defaultSet c)) \<and>
      BlockHistoryEstimatorBlockDelay (unsetenv ''BLOCK_HISTORY_ESTIMATOR_BLOCK_DELAY'' S) c =
        Returns (if Valid (cfg_BlockHistoryEstimatorBlockDelay (persistedCfg c)) then ucast (Value (cfg_BlockHistoryEstimatorBlockDelay (persistedCfg c))) else blockHistoryEstimatorBlockDelay (defaultSet c))"
  by (simp add: BlockHistoryEstimatorBlockDelay_eq config_ParseUint16_def malformed_as_parser env_value_unsetenv
      unsetenv_fields Let_def)

lemma BlockHistoryEstimatorBlockHistorySize_malformed:
  "malformed S ''BLOCK_HISTORY_ESTIMATOR_BLOCK_HISTORY_SIZE'' (config_ParseUint16 S) \<longrightarrow>
      BlockHistoryEstimatorBlockHistorySize S c =
        Returns (if Valid (cfg_BlockHistoryEstimatorBlockHistorySize (persistedCfg c)) then ucast (Value (cfg_BlockHistoryEstimatorBlockHistorySize (persistedCfg c))) else blockHistoryEstimatorBlockHistorySize (defaultSet c)) \<and>
      BlockHistoryEstimatorBlockHistorySize (unsetenv ''BLOCK_HISTORY_ESTIMATOR_BLOCK_HISTORY_SIZE'' S) c =
        Returns (if Valid (cfg_BlockHistoryEstimatorBlockHistorySize (persistedCfg c)) then ucast (Value (cfg_BlockHistoryEstimatorBlockHistorySize (persistedCfg c))) else blockHistoryEstimatorBlockHistorySize (defaultSet c))"
  by (simp add: BlockHistoryEstimatorBlockHistorySize_eq config_ParseUint16_def malformed_as_parser env_value_unsetenv
      unsetenv_fields Let_def)

lemma BlockHistoryEstimatorTransactionPercentile_malformed:
  "malformed S ''BLOCK_HISTORY_ESTIMATOR_TRANSACTION_PERCENTILE'' (config_ParseUint16 S) \<longrightarrow>
      BlockHistoryEstimatorTransactionPercentile S c =
        Returns (blockHistoryEstimatorTransactionPercentile (defaultSet c)) \<and>
      BlockHistoryEstimatorTransactionPercentile (unsetenv ''BLOCK_HISTORY_ESTIMATOR_TRANSACTION_PERCENTILE'' S) c =
        Returns (blockHistoryEstimatorTransactionPercentile (defaultSet c))"
  by (simp add: BlockHistoryEstimatorTransactionPercentile_eq config_ParseUint16_def malformed_as_parser env_value_unsetenv
      unsetenv_fields Let_def)

lemma MinIncomingConfirmations_malformed:
  "malformed S ''MIN_INCOMING_CONFIRMATIONS'' (config_ParseUint32 S) \<longrightarrow>
      MinIncomingConfirmations S c =
        Returns (minIncomingConfirmations (defaultSet c)) \<and>
      MinIncomingConfirmations (unsetenv ''MIN_INCOMING_CONFIRMATIONS'' S) c =
        Returns (minIncomingConfirmations (defaultSet c))"
  by (simp add: MinIncomingConfirmations_eq config_ParseUint32_def malformed_as_parser env_value_unsetenv
      unsetenv_fields Let_def)

lemma MinRequiredOutgoingConfirmations_malformed:
  "malformed S ''MIN_REQUIRED_OUTGOING_CONFIRMATIONS'' (config_ParseUint64 S) \<longrightarrow>
      MinRequiredOutgoingConfirmations S c =
        Returns (if Valid (cfg_MinRequiredOutgoingConfirmations (persistedCfg c)) then Value (cfg_MinRequiredOutgoingConfirmations (persistedCfg c)) else minRequiredOutgoingConfirmations (defaultSet c)) \<and>
      MinRequiredOutgoingConfirmations (unsetenv ''MIN_REQUIRED_OUTGOING_CONFIRMATIONS'' S) c =
        Returns (if Valid (cfg_MinRequiredOutgoingConfirmations (persistedCfg c)) then Value (cfg_MinRequiredOutgoingConfirmations (persistedCfg c)) else minRequiredOutgoingConfirmations (defaultSet c))"
  by (simp add: MinRequiredOutgoingConfirmations_eq config_ParseUint64_def malformed_as_parser env_value_unsetenv
      unsetenv_fields Let_def)

lemma MinimumContractPayment_malformed:
  "malformed S ''MINIMUM_CONTRACT_PAYMENT_LINK_JUELS'' (config_ParseLink S) \<longrightarrow>
      MinimumContractPayment S c =
        Returns (minimumContractPayment (defaultSet c)) \<and>
      MinimumContractPayment (unsetenv ''MINIMUM_CONTRACT_PAYMENT_LINK_JUELS'' S) c =
        Returns (minimumContractPayment (defaultSet c))"
  by (simp add: MinimumContractPayment_eq config_ParseLink_def malformed_as_parser env_value_unsetenv
      unsetenv_fields Let_def)

lemma EvmGasBumpTxDepth_malformed:
  "malformed S ''ETH_GAS_BUMP_TX_DEPTH'' (config_ParseUint16 S) \<longrightarrow>
      EvmGasBumpTxDepth S c =
        Returns (if Valid (cfg_EvmGasBumpTxDepth (persistedCfg c)) then ucast (Value (cfg_EvmGasBumpTxDepth (persistedCfg c))) else gasBumpTxDepth (defaultSet c)) \<and>
      EvmGasBumpTxDepth (unsetenv ''ETH_GAS_BUMP_TX_DEPTH'' S) c =
        Returns (if Valid (cfg_EvmGasBumpTxDepth (persistedCfg c)) then ucast (Value (cfg_EvmGasBumpTxDepth (persistedCfg c))) else gasBumpTxDepth (defaultSet c))"
  by (simp add: EvmGasBumpTxDepth_eq config_ParseUint16_def malformed_as_parser env_value_unsetenv
      unsetenv_fields Let_def)

lemma EvmGasBumpPercent_malformed:
  "malformed S ''ETH_GAS_BUMP_PERCENT'' (config_ParseUint16 S) \<longrightarrow>
      EvmGasBumpPercent S c =
        Returns (if Valid (cfg_EvmGasBumpPercent (persistedCfg c)) then ucast (Value (cfg_EvmGasBumpPercent (persistedCfg c))) else gasBumpPercent (defaultSet c)) \<and>
      EvmGasBumpPercent (unsetenv ''ETH_GAS_BUMP_PERCENT'' S) c =
        Returns (if Valid (cfg_EvmGasBumpPercent (persistedCfg c)) then ucast (Value (cfg_EvmGasBumpPercent (persistedCfg c))) else gasBumpPercent (defaultSet c))"
  by (simp add: EvmGasBumpPercent_eq config_ParseUint16_def malformed_as_parser env_value_unsetenv
      unsetenv_fields Let_def)

lemma EvmNonceAutoSync_malformed:
  "malformed S ''ETH_NONCE_AUTO_SYNC'' (config_ParseBool S) \<longrightarrow>
      EvmNonceAutoSync S c =
        Returns (if Valid (cfg_EvmNonceAutoSync (persistedCfg c)) then Value (cfg_EvmNonceAutoSync (persistedCfg c)) else nonceAutoSync (defaultSet c)) \<and>
      EvmNonceAutoSync (unsetenv ''ETH_NONCE_AUTO_SYNC'' S) c =
        Returns (if Valid (cfg_EvmNonceAutoSync (persistedCfg c)) then Value (cfg_EvmNonceAutoSync (persistedCfg c)) else nonceAutoSync (defaultSet c))"
  by (simp add: EvmNonceAutoSync_eq config_ParseBool_def malformed_as_parser env_value_unsetenv
      unsetenv_fields Let_def)

lemma EvmGasLimitMultiplier_malformed:
  "malformed S ''ETH_GAS_LIMIT_MULTIPLIER'' (config_ParseF32 S) \<longrightarrow>
      EvmGasLimitMultiplier S c =
        Returns (if Valid (cfg_EvmGasLimitMultiplier (persistedCfg c)) then float32_of_float64 S (Value (cfg_EvmGasLimitMultiplier (persistedCfg c))) else gasLimitMultiplier (defaultSet c)) \<and>
      EvmGasLimitMultiplier (unsetenv ''ETH_GAS_LIMIT_MULTIPLIER'' S) c =
        Returns (if Valid (cfg_EvmGasLimitMultiplier (persistedCfg c)) then float32_of_float64 S (Value (cfg_EvmGasLimitMultiplier (persistedCfg c))) else gasLimitMultiplier (defaultSet c))"
  by (simp add: EvmGasLimitMultiplier_eq config_ParseF32_def malformed_as_parser env_value_unsetenv
      unsetenv_fields Let_def)

lemma EvmHeadTrackerMaxBufferSize_malformed:
  "malformed S ''ETH_HEAD_TRACKER_MAX_BUFFER_SIZE'' (config_ParseUint64 S) \<longrightarrow>
      EvmHeadTrackerMaxBufferSize S c =
        Returns (if Valid (cfg_EvmHeadTrackerMaxBufferSize (persistedCfg c)) then Value (cfg_EvmHeadTrackerMaxBufferSize (persistedCfg c)) else headTrackerMaxBufferSize (defaultSet c)) \<and>
      EvmHeadTrackerMaxBufferSize (unsetenv ''ETH_HEAD_TRACKER_MAX_BUFFER_SIZE'' S) c =
        Returns (if Valid (cfg_EvmHeadTrackerMaxBufferSize (persistedCfg c)) then Value (cfg_EvmHeadTrackerMaxBufferSize (persistedCfg c)) else headTrackerMaxBufferSize (defaultSet c))"
  by (simp add: EvmHeadTrackerMaxBufferSize_eq config_ParseUint64_def malformed_as_parser env_value_unsetenv
      unsetenv_fields Let_def)

lemma EthTxReaperInterval_malformed:
  "malformed S ''ETH_TX_REAPER_INTERVAL'' (config_ParseDuration S) \<longrightarrow>
      EthTxReaperInterval S c =
        Returns (ethTxReaperInterval (defaultSet c)) \<and>
      EthTxReaperInterval (unsetenv ''ETH_TX_REAPER_INTERVAL'' S) c =
        Returns (ethTxReaperInterval (defaultSet c))"
  by (simp add: EthTxReaperInterval_eq config_ParseDuration_def malformed_as_parser env_value_unsetenv
      unsetenv_fields Let_def)

lemma EthTxReaperThreshold_malformed:
  "malformed S ''ETH_TX_REAPER_THRESHOLD'' (config_ParseDuration S) \<longrightarrow>
      EthTxReaperThreshold S c =
        Returns (ethTxReaperThreshold (defaultSet c)) \<and>
      EthTxReaperThreshold (unsetenv ''ETH_TX_REAPER_THRESHOLD'' S) c =
        Returns (ethTxReaperThreshold (defaultSet c))"
  by (simp add: EthTxReaperThreshold_eq config_ParseDuration_def malformed_as_parser env_value_unsetenv
      unsetenv_fields Let_def)

lemma EvmLogBackfillBatchSize_malformed:
  "malformed S ''ETH_LOG_BACKFILL_BATCH_SIZE'' (config_ParseUint32 S) \<longrightarrow>
      EvmLogBackfillBatchSize S c =
        Returns (if Valid (cfg_EvmLogBackfillBatchSize (persistedCfg c)) then ucast (Value (cfg_EvmLogBackfillBatchSize (persistedCfg c))) else logBackfillBatchSize (defaultSet c)) \<and>
      EvmLogBackfillBatchSize (unsetenv ''ETH_LOG_BACKFILL_BATCH_SIZE'' S) c =
        Returns (if Valid (cfg_EvmLogBackfillBatchSize (persistedCfg c)) then ucast (Value (cfg_EvmLogBackfillBatchSize (persistedCfg c))) else logBackfillBatchSize (defaultSet c))"
  by (simp add: EvmLogBackfillBatchSize_eq config_ParseUint32_def malformed_as_parser env_value_unsetenv
      unsetenv_fields Let_def)

lemma EvmRPCDefaultBatchSize_malformed:
  "malformed S ''ETH_RPC_DEFAULT_BATCH_SIZE'' (config_ParseUint32 S) \<longrightarrow>
      EvmRPCDefaultBatchSize S c =
        Returns (if Valid (cfg_EvmRPCDefaultBatchSize (persistedCfg c)) then ucast (Value (cfg_EvmRPCDefaultBatchSize (persistedCfg c))) else rpcDefaultBatchSize (defaultSet c)) \<and>
      EvmRPCDefaultBatchSize (unsetenv ''ETH_RPC_DEFAULT_BATCH_SIZE'' S) c =
        Returns (if Valid (cfg_EvmRPCDefaultBatchSize (persistedCfg c)) then ucast (Value (cfg_EvmRPCDefaultBatchSize (persistedCfg c))) else rpcDefaultBatchSize (defaultSet c))"
  by (simp add: EvmRPCDefaultBatchSize_eq config_ParseUint32_def malformed_as_parser env_value_unsetenv
      unsetenv_fields Let_def)

lemma EvmFinalityDepth_malformed:
  "malformed S ''ETH_FINALITY_DEPTH'' (config_ParseUint64 S) \<longrightarrow>
      EvmFinalityDepth S c =
        Returns (if Valid (cfg_EvmFinalityDepth (persistedCfg c)) then Value (cfg_EvmFinalityDepth (persistedCfg c)) else finalityDepth (defaultSet c)) \<and>
      EvmFinalityDepth (unsetenv ''ETH_FINALITY_DEPTH'' S) c =
        Returns (if Valid (cfg_EvmFinalityDepth (persistedCfg c)) then Value (cfg_EvmFinalityDepth (persistedCfg c)) else finalityDepth (defaultSet c))"
  by (simp add: EvmFinalityDepth_eq config_ParseUint64_def malformed_as_parser env_value_unsetenv
      unsetenv_fields Let_def)

lemma EvmHeadTrackerHistoryDepth_malformed:
  "malformed S ''ETH_HEAD_TRACKER_HISTORY_DEPTH'' (config_ParseUint64 S) \<longrightarrow>
      EvmHeadTrackerHistoryDepth S c =
        Returns (if Valid (cfg_EvmHeadTrackerHistoryDepth (persistedCfg c)) then Value (cfg_EvmHeadTrackerHistoryDepth (persistedCfg c)) else headTrackerHistoryDepth (defaultSet c)) \<and>
      EvmHeadTrackerHistoryDepth (unsetenv ''ETH_HEAD_TRACKER_HISTORY_DEPTH'' S) c =
        Returns (if Valid (cfg_EvmHeadTrackerHistoryDepth (persistedCfg c)) then Value (cfg_EvmHeadTrackerHistoryDepth (persistedCfg c)) else headTrackerHistoryDepth (defaultSet c))"
  by (simp add: EvmHeadTrackerHistoryDepth_eq config_ParseUint64_def malformed_as_parser env_value_unsetenv
      unsetenv_fields Let_def)

lemma BlockHistoryEstimatorBatchSize_malformed:
  "malformed S ''BLOCK_HISTORY_ESTIMATOR_BATCH_SIZE'' (config_ParseUint32 S) \<longrightarrow>
      BlockHistoryEstimatorBatchSize S c =
        Returns (if 0 < blockHistoryEstimatorBatchSize (defaultSet c) then blockHistoryEstimatorBatchSize (defaultSet c)
                else (case env_value S ''ETH_RPC_DEFAULT_BATCH_SIZE'' (ParseUint32 S) of
                        Some v \<Rightarrow> v
                      | None \<Rightarrow> rpcDefaultBatchSize (defaultSet c))) \<and>
      BlockHistoryEstimatorBatchSize (unsetenv ''BLOCK_HISTORY_ESTIMATOR_BATCH_SIZE'' S) c =
        Returns (if 0 < blockHistoryEstimatorBatchSize (defaultSet c) then blockHistoryEstimatorBatchSize (defaultSet c)
                else (case env_value S ''ETH_RPC_DEFAULT_BATCH_SIZE'' (ParseUint32 S) of
                        Some v \<Rightarrow> v
                      | None \<Rightarrow> rpcDefaultBatchSize (defaultSet c)))"
  by (simp add: BlockHistoryEstimatorBatchSize_eq config_ParseUint32_def malformed_as_parser env_value_unsetenv
      unsetenv_fields Let_def)

lemma BlockHistoryEstimatorBatchSize_malformed_rpc:
  "malformed S ''ETH_RPC_DEFAULT_BATCH_SIZE'' (config_ParseUint32 S) \<longrightarrow>
      BlockHistoryEstimatorBatchSize S c =
        Returns (let size = (case env_value S ''BLOCK_HISTORY_ESTIMATOR_BATCH_SIZE'' (ParseUint32 S) of
                              Some v \<Rightarrow> v
                            | None \<Rightarrow> blockHistoryEstimatorBatchSize (defaultSet c))
                in if 0 < size then size else rpcDefaultBatchSize (defaultSet c)) \<and>
      BlockHistoryEstimatorBatchSize (unsetenv ''ETH_RPC_DEFAULT_BATCH_SIZE'' S) c =
        Returns (let size = (case env_value S ''BLOCK_HISTORY_ESTIMATOR_BATCH_SIZE'' (ParseUint32 S) of
                              Some v \<Rightarrow> v
                            | None \<Rightarrow> blockHistoryEstimatorBatchSize (defaultSet c))
                in if 0 < size then size else rpcDefaultBatchSize (defaultSet c))"
  by (simp add: BlockHistoryEstimatorBatchSize_eq config_ParseUint32_def malformed_as_parser env_value_unsetenv
      unsetenv_fields Let_def)

lemma OCRContractConfirmations_malformed:
  "malformed S ''OCR_CONTRACT_CONFIRMATIONS'' (config_ParseUint16 S) \<longrightarrow>
      OCRContractConfirmations S c override =
        Returns (if override \<noteq> 0 then override else ocrContractConfirmations (defaultSet c)) \<and>
      OCRContractConfirmations (unsetenv ''OCR_CONTRACT_CONFIRMATIONS'' S) c override =
        Returns (if override \<noteq> 0 then override else ocrContractConfirmations (defaultSet c))"
  by (simp add: OCRContractConfirmations_eq config_ParseUint16_def malformed_as_parser env_value_unsetenv
      unsetenv_fields Let_def)

lemma BalanceMonitorEnabled_malformed:
  "malformed S ''BALANCE_MONITOR_ENABLED'' (config_ParseBool S) \<longrightarrow>
      BalanceMonitorEnabled S c =
        Returns (if EthereumDisabled (GeneralConfig c) then False
                else balanceMonitorEnabled (defaultSet c)) \<and>
      BalanceMonitorEnabled (unsetenv ''BALANCE_MONITOR_ENABLED'' S) c =
        Returns (if EthereumDisabled (GeneralConfig c) then False
                else balanceMonitorEnabled (defaultSet c))"
  by (simp add: BalanceMonitorEnabled_eq config_ParseBool_def malformed_as_parser env_value_unsetenv
      unsetenv_fields Let_def)

lemma EvmGasPriceDefault_malformed:
  "malformed S ''ETH_GAS_PRICE_DEFAULT'' (config_ParseBigInt S) \<longrightarrow>
      EvmGasPriceDefault S c = EvmGasPriceDefault (unsetenv ''ETH_GAS_PRICE_DEFAULT'' S) c \<and>
      (\<not> writer (persistMu c) \<longrightarrow>
         value_of (EvmGasPriceDefault S c) =
           Returns (case cfg_EvmGasPriceDefault (persistedCfg c) of
                     Some p \<Rightarrow> p
                   | None \<Rightarrow> gasPriceDefault (defaultSet c)))"
  by (simp add: EvmGasPriceDefault_eq config_ParseBigInt_def malformed_as_parser env_value_unsetenv
      unsetenv_fields)

text \<open>
  The variables \<open>GAS_ESTIMATOR_MODE\<close>, \<open>LINK_CONTRACT_ADDRESS\<close> and \<open>FLAGS_CONTRACT_ADDRESS\<close>
  are parsed by \<open>config.ParseString\<close>. Whatever this function returns, a value that it
  rejects is passed over in the same way; when it accepts every string, none of the
  three variables is ever malformed.
\<close>

lemma LinkContractAddress_malformed:
  "malformed S ''LINK_CONTRACT_ADDRESS'' (config_ParseString S) \<longrightarrow>
      LinkContractAddress S c =
        Returns (linkContractAddress (defaultSet c)) \<and>
      LinkContractAddress (unsetenv ''LINK_CONTRACT_ADDRESS'' S) c =
        Returns (linkContractAddress (defaultSet c))"
  by (simp add: LinkContractAddress_eq config_ParseString_def malformed_as_parser env_value_unsetenv
      unsetenv_fields Let_def)

lemma FlagsContractAddress_malformed:
  "malformed S ''FLAGS_CONTRACT_ADDRESS'' (config_ParseString S) \<longrightarrow>
      FlagsContractAddress S c =
        Returns (if Valid (cfg_FlagsContractAddress (persistedCfg c)) then Value (cfg_FlagsContractAddress (persistedCfg c)) else flagsContractAddress (defaultSet c)) \<and>
      FlagsContractAddress (unsetenv ''FLAGS_CONTRACT_ADDRESS'' S) c =
        Returns (if Valid (cfg_FlagsContractAddress (persistedCfg c)) then Value (cfg_FlagsContractAddress (persistedCfg c)) else flagsContractAddress (defaultSet c))"
  by (simp add: FlagsContractAddress_eq config_ParseString_def malformed_as_parser env_value_unsetenv
      unsetenv_fields Let_def)

lemma GasEstimatorMode_malformed:
  "malformed S ''GAS_ESTIMATOR_MODE'' (config_ParseString S) \<longrightarrow>
      GasEstimatorMode S c =
        Returns (if EthereumDisabled (GeneralConfig c) then ''FixedPrice''
                else if Valid (cfg_GasEstimatorMode (persistedCfg c))
                then Value (cfg_GasEstimatorMode (persistedCfg c))
                else gasEstimatorMode (defaultSet c)) \<and>
      GasEstimatorMode (unsetenv ''GAS_ESTIMATOR_MODE'' S) c =
        Returns (if EthereumDisabled (GeneralConfig c) then ''FixedPrice''
                else if Valid (cfg_GasEstimatorMode (persistedCfg c))
                then Value (cfg_GasEstimatorMode (persistedCfg c))
                else gasEstimatorMode (defaultSet c))"
  by (simp add: GasEstimatorMode_eq config_ParseString_def malformed_as_parser env_value_unsetenv
      unsetenv_fields Let_def)

lemma accepted_not_malformed:
  assumes "\<forall>s. \<exists>v. p s = Inr v"
  shows "\<not> malformed S k (as_parser tag p)"
proof (cases "environ S k")
  case None
  then show ?thesis by (simp add: malformed_def)
next
  case (Some s)
  from assms obtain v where "p s = Inr v" by blast
  with Some show ?thesis by (simp add: malformed_def as_parser_def)
qed

lemma plain_string_well_formed:
  "(\<forall>s. \<exists>v. ParseString S s = Inr v) \<longrightarrow>
      \<not> malformed S ''GAS_ESTIMATOR_MODE'' (config_ParseString S) \<and>
      \<not> malformed S ''LINK_CONTRACT_ADDRESS'' (config_ParseString S) \<and>
      \<not> malformed S ''FLAGS_CONTRACT_ADDRESS'' (config_ParseString S)"
  by (simp add: config_ParseString_def accepted_not_malformed)

text \<open>
  C9. A variable that is set to a value its parse function rejects is logged by
  \<open>lookupEnv\<close>, in one line, and \<open>lookupEnv\<close> then reports no value, as for a variable that
  is not set. Every getter that reads the variable returns, and it returns the value of
  the next layer: the persisted value where the getter has one and it is set, the value
  of the default set otherwise; this is also what it returns with the variable removed
  from the environment. The guards of \<open>GasEstimatorMode\<close>, \<open>BalanceMonitorEnabled\<close>,
  \<open>OCRContractConfirmations\<close> and \<open>BlockHistoryEstimatorBatchSize\<close> come first as they do
  for a variable that is not set. \<open>EvmGasPriceDefault\<close> takes the read lock for the
  persisted value, and returns it when no writer holds the lock. The two getters that
  panic on a well-formed value return the persisted or default value here. A variable
  read with \<open>config.ParseString\<close> is never malformed when that function accepts every
  string.
\<close>

theorem malformed_env_ignored:
  "(malformed S k parse \<longrightarrow>
      (\<exists>s err. environ S k = Some s \<and> snd (parse s) = Some err \<and>
         lookupEnv (environ S) k parse =
           ((ANil, False),
            [Errorw (''Invalid value provided for '' @ s @ '', falling back to default.'') s k err])) \<and>
      fst (lookupEnv (environ S) k parse) = fst (lookupEnv (environ (unsetenv k S)) k parse)) \<and>
   (malformed S ''ETH_BALANCE_MONITOR_BLOCK_DELAY'' (config_ParseUint16 S) \<longrightarrow>
      EvmBalanceMonitorBlockDelay S c =
        Returns (balanceMonitorBlockDelay (defaultSet c)) \<and>
      EvmBalanceMonitorBlockDelay (unsetenv ''ETH_BALANCE_MONITOR_BLOCK_DELAY'' S) c =
        Returns (balanceMonitorBlockDelay (defaultSet c))) \<and>
   (malformed S ''ETH_GAS_BUMP_THRESHOLD'' (config_ParseUint64 S) \<longrightarrow>
      EvmGasBumpThreshold S c =
        Returns (gasBumpThreshold (defaultSet c)) \<and>
      EvmGasBumpThreshold (unsetenv ''ETH_GAS_BUMP_THRESHOLD'' S) c =
        Returns (gasBumpThreshold (defaultSet c))) \<and>
   (malformed S ''ETH_GAS_BUMP_WEI'' (config_ParseBigInt S) \<longrightarrow>
      EvmGasBumpWei S c =
        Returns (case cfg_EvmGasBumpWei (persistedCfg c) of Some p \<Rightarrow> p | None \<Rightarrow> gasBumpWei (defaultSet c)) \<and>
      EvmGasBumpWei (unsetenv ''ETH_GAS_BUMP_WEI'' S) c =
        Returns (case cfg_EvmGasBumpWei (persistedCfg c) of Some p \<Rightarrow> p | None \<Rightarrow> gasBumpWei (defaultSet c))) \<and>
   (malformed S ''ETH_MAX_IN_FLIGHT_TRANSACTIONS'' (config_ParseUint32 S) \<longrightarrow>
      EvmMaxInFlightTransactions S c =
        Returns (maxInFlightTransactions (defaultSet c)) \<and>
      EvmMaxInFlightTransactions (unsetenv ''ETH_MAX_IN_FLIGHT_TRANSACTIONS'' S) c =
        Returns (maxInFlightTransactions (defaultSet c))) \<and>
   (malformed S ''ETH_MAX_GAS_PRICE_WEI'' (config_ParseBigInt S) \<longrightarrow>
      EvmMaxGasPriceWei S c =
        Returns (case cfg_EvmMaxGasPriceWei (persistedCfg c) of Some p \<Rightarrow> p | None \<Rightarrow> maxGasPriceWei (defaultSet c)) \<and>
      EvmMaxGasPriceWei (unsetenv ''ETH_MAX_GAS_PRICE_WEI'' S) c =
        Returns (case cfg_EvmMaxGasPriceWei (persistedCfg c) of Some p \<Rightarrow> p | None \<Rightarrow> maxGasPriceWei (defaultSet c))) \<and>
   (malformed S ''ETH_MAX_QUEUED_TRANSACTIONS'' (config_ParseUint64 S) \<longrightarrow>
      EvmMaxQueuedTransactions S c =
        Returns (maxQueuedTransactions (defaultSet c)) \<and>
      EvmMaxQueuedTransactions (unsetenv ''ETH_MAX_QUEUED_TRANSACTIONS'' S) c =
        Returns (maxQueuedTransactions (defaultSet c))) \<and>
   (malformed S ''ETH_MIN_GAS_PRICE_WEI'' (config_ParseBigInt S) \<longrightarrow>
      EvmMinGasPriceWei S c =
        Returns (minGasPriceWei (defaultSet c)) \<and>
      EvmMinGasPriceWei (unsetenv ''ETH_MIN_GAS_PRICE_WEI'' S) c =
        Returns (minGasPriceWei (defaultSet c))) \<and>
   (malformed S ''ETH_GAS_LIMIT_DEFAULT'' (config_ParseUint64 S) \<longrightarrow>
      EvmGasLimitDefault S c =
        Returns (if Valid (cfg_EvmGasLimitDefault (persistedCfg c)) then Value (cfg_EvmGasLimitDefault (persistedCfg c)) else gasLimitDefault (defaultSet c)) \<and>
      EvmGasLimitDefault (unsetenv ''ETH_GAS_LIMIT_DEFAULT'' S) c =
        Returns (if Valid (cfg_EvmGasLimitDefault (persistedCfg c)) then Value (cfg_EvmGasLimitDefault (persistedCfg c)) else gasLimitDefault (defaultSet c))) \<and>
   (malformed S ''ETH_GAS_LIMIT_TRANSFER'' (config_ParseUint64 S) \<longrightarrow>
      EvmGasLimitTransfer S c =
        Returns (gasLimitTransfer (defaultSet c)) \<and>
      EvmGasLimitTransfer (unsetenv ''ETH_GAS_LIMIT_TRANSFER'' S) c =
        Returns (gasLimitTransfer (defaultSet c))) \<and>
   (malformed S ''ETH_HEAD_TRACKER_SAMPLING_INTERVAL'' (config_ParseDuration S) \<longrightarrow>
      EvmHeadTrackerSamplingInterval S c =
        Returns (case cfg_EvmHeadTrackerSamplingInterval (persistedCfg c) of Some p \<Rightarrow> p | None \<Rightarrow> headTrackerSamplingInterval (defaultSet c)) \<and>
      EvmHeadTrackerSamplingInterval (unsetenv ''ETH_HEAD_TRACKER_SAMPLING_INTERVAL'' S) c =
        Returns (case cfg_EvmHeadTrackerSamplingInterval (persistedCfg c) of Some p \<Rightarrow> p | None \<Rightarrow> headTrackerSamplingInterval (defaultSet c))) \<and>
   (malformed S ''ETH_TX_RESEND_AFTER_THRESHOLD'' (config_ParseDuration S) \<longrightarrow>
      EthTxResendAfterThreshold S c =
        Returns (case cfg_EthTxResendAfterThreshold (persistedCfg c) of Some p \<Rightarrow> p | None \<Rightarrow> ethTxResendAfterThreshold (defaultSet c)) \<and>
      EthTxResendAfterThreshold (unsetenv ''ETH_TX_RESEND_AFTER_THRESHOLD'' S) c =
        Returns (case cfg_EthTxResendAfterThreshold (persistedCfg c) of Some p \<Rightarrow> p | None \<Rightarrow> ethTxResendAfterThreshold (defaultSet c))) \<and>
   (malformed S ''ETH_RPC_DEFAULT_BATCH_SIZE'' (config_ParseUint32 S) \<longrightarrow>
      EvmDefaultBatchSize S c =
        Returns (rpcDefaultBatchSize (defaultSet c)) \<and>
      EvmDefaultBatchSize (unsetenv ''ETH_RPC_DEFAULT_BATCH_SIZE'' S) c =
        Returns (rpcDefaultBatchSize (defaultSet c))) \<and>
   (malformed S ''BLOCK_HISTORY_ESTIMATOR_BLOCK_DELAY'' (config_ParseUint16 S) \<longrightarrow>
      BlockHistoryEstimatorBlockDelay S c =
        Returns (if Valid (cfg_BlockHistoryEstimatorBlockDelay (persistedCfg c)) then ucast (Value (cfg_BlockHistoryEstimatorBlockDelay (persistedCfg c))) else blockHistoryEstimatorBlockDelay (defaultSet c)) \<and>
      BlockHistoryEstimatorBlockDelay (unsetenv ''BLOCK_HISTORY_ESTIMATOR_BLOCK_DELAY'' S) c =
        Returns (if Valid (cfg_BlockHistoryEstimatorBlockDelay (persistedCfg c)) then ucast (Value (cfg_BlockHistoryEstimatorBlockDelay (persistedCfg c))) else blockHistoryEstimatorBlockDelay (defaultSet c))) \<and>
   (malformed S ''BLOCK_HISTORY_ESTIMATOR_BLOCK_HISTORY_SIZE'' (config_ParseUint16 S) \<longrightarrow>
      BlockHistoryEstimatorBlockHistorySize S c =
        Returns (if Valid (cfg_BlockHistoryEstimatorBlockHistorySize (persistedCfg c)) then ucast (Value (cfg_BlockHistoryEstimatorBlockHistorySize (persistedCfg c))) else blockHistoryEstimatorBlockHistorySize (defaultSet c)) \<and>
      BlockHistoryEstimatorBlockHistorySize (unsetenv ''BLOCK_HISTORY_ESTIMATOR_BLOCK_HISTORY_SIZE'' S) c =
        Returns (if Valid (cfg_BlockHistoryEstimatorBlockHistorySize (persistedCfg c)) then ucast (Value (cfg_BlockHistoryEstimatorBlockHistorySize (persistedCfg c))) else blockHistoryEstimatorBlockHistorySize (defaultSet c))) \<and>
   (malformed S ''BLOCK_HISTORY_ESTIMATOR_TRANSACTION_PERCENTILE'' (config_ParseUint16 S) \<longrightarrow>
      BlockHistoryEstimatorTransactionPercentile S c =
        Returns (blockHistoryEstimatorTransactionPercentile (defaultSet c)) \<and>
      BlockHistoryEstimatorTransactionPercentile (unsetenv ''BLOCK_HISTORY_ESTIMATOR_TRANSACTION_PERCENTILE'' S) c =
        Returns (blockHistoryEstimatorTransactionPercentile (defaultSet c))) \<and>
   (malformed S ''MIN_INCOMING_CONFIRMATIONS'' (config_ParseUint32 S) \<longrightarrow>
      MinIncomingConfirmations S c =
        Returns (minIncomingConfirmations (defaultSet c)) \<and>
      MinIncomingConfirmations (unsetenv ''MIN_INCOMING_CONFIRMATIONS'' S) c =
        Returns (minIncomingConfirmations (defaultSet c))) \<and>
   (malformed S ''MIN_REQUIRED_OUTGOING_CONFIRMATIONS'' (config_ParseUint64 S) \<longrightarrow>
      MinRequiredOutgoingConfirmations S c =
        Returns (if Valid (cfg_MinRequiredOutgoingConfirmations (persistedCfg c)) then Value (cfg_MinRequiredOutgoingConfirmations (persistedCfg c)) else minRequiredOutgoingConfirmations (defaultSet c)) \<and>
      MinRequiredOutgoingConfirmations (unsetenv ''MIN_REQUIRED_OUTGOING_CONFIRMATIONS'' S) c =
        Returns (if Valid (cfg_MinRequiredOutgoingConfirmations (persistedCfg c)) then Value (cfg_MinRequiredOutgoingConfirmations (persistedCfg c)) else minRequiredOutgoingConfirmations (defaultSet c))) \<and>
   (malformed S ''MINIMUM_CONTRACT_PAYMENT_LINK_JUELS'' (config_ParseLink S) \<longrightarrow>
      MinimumContractPayment S c =
        Returns (minimumContractPayment (defaultSet c)) \<and>
      MinimumContractPayment (unsetenv ''MINIMUM_CONTRACT_PAYMENT_LINK_JUELS'' S) c =
        Returns (minimumContractPayment (defaultSet c))) \<and>
   (malformed S ''ETH_GAS_BUMP_TX_DEPTH'' (config_ParseUint16 S) \<longrightarrow>
      EvmGasBumpTxDepth S c =
        Returns (if Valid (cfg_EvmGasBumpTxDepth (persistedCfg c)) then ucast (Value (cfg_EvmGasBumpTxDepth (persistedCfg c))) else gasBumpTxDepth (defaultSet c)) \<and>
      EvmGasBumpTxDepth (unsetenv ''ETH_GAS_BUMP_TX_DEPTH'' S) c =
        Returns (if Valid (cfg_EvmGasBumpTxDepth (persistedCfg c)) then ucast (Value (cfg_EvmGasBumpTxDepth (persistedCfg c))) else gasBumpTxDepth (defaultSet c))) \<and>
   (malformed S ''ETH_GAS_BUMP_PERCENT'' (config_ParseUint16 S) \<longrightarrow>
      EvmGasBumpPercent S c =
        Returns (if Valid (cfg_EvmGasBumpPercent (persistedCfg c)) then ucast (Value (cfg_EvmGasBumpPercent (persistedCfg c))) else gasBumpPercent (defaultSet c)) \<and>
      EvmGasBumpPercent (unsetenv ''ETH_GAS_BUMP_PERCENT'' S) c =
        Returns (if Valid (cfg_EvmGasBumpPercent (persistedCfg c)) then ucast (Value (cfg_EvmGasBumpPercent (persistedCfg c))) else gasBumpPercent (defaultSet c))) \<and>
   (malformed S ''ETH_NONCE_AUTO_SYNC'' (config_ParseBool S) \<longrightarrow>
      EvmNonceAutoSync S c =
        Returns (if Valid (cfg_EvmNonceAutoSync (persistedCfg c)) then Value (cfg_EvmNonceAutoSync (persistedCfg c)) else nonceAutoSync (defaultSet c)) \<and>
      EvmNonceAutoSync (unsetenv ''ETH_NONCE_AUTO_SYNC'' S) c =
        Returns (if Valid (cfg_EvmNonceAutoSync (persistedCfg c)) then Value (cfg_EvmNonceAutoSync (persistedCfg c)) else nonceAutoSync (defaultSet c))) \<and>
   (malformed S ''ETH_GAS_LIMIT_MULTIPLIER'' (config_ParseF32 S) \<longrightarrow>
      EvmGasLimitMultiplier S c =
        Returns (if Valid (cfg_EvmGasLimitMultiplier (persistedCfg c)) then float32_of_float64 S (Value (cfg_EvmGasLimitMultiplier (persistedCfg c))) else gasLimitMultiplier (defaultSet c)) \<and>
      EvmGasLimitMultiplier (unsetenv ''ETH_GAS_LIMIT_MULTIPLIER'' S) c =
        Returns (if Valid (cfg_EvmGasLimitMultiplier (persistedCfg c)) then float32_of_float64 S (Value (cfg_EvmGasLimitMultiplier (persistedCfg c))) else gasLimitMultiplier (defaultSet c))) \<and>
   (malformed S ''ETH_HEAD_TRACKER_MAX_BUFFER_SIZE'' (config_ParseUint64 S) \<longrightarrow>
      EvmHeadTrackerMaxBufferSize S c =
        Returns (if Valid (cfg_EvmHeadTrackerMaxBufferSize (persistedCfg c)) then Value (cfg_EvmHeadTrackerMaxBufferSize (persistedCfg c)) else headTrackerMaxBufferSize (defaultSet c)) \<and>
      EvmHeadTrackerMaxBufferSize (unsetenv ''ETH_HEAD_TRACKER_MAX_BUFFER_SIZE'' S) c =
        Returns (if Valid (cfg_EvmHeadTrackerMaxBufferSize (persistedCfg c)) then Value (cfg_EvmHeadTrackerMaxBufferSize (persistedCfg c)) else headTrackerMaxBufferSize (defaultSet c))) \<and>
   (malformed S ''ETH_TX_REAPER_INTERVAL'' (config_ParseDuration S) \<longrightarrow>
      EthTxReaperInterval S c =
        Returns (ethTxReaperInterval (defaultSet c)) \<and>
      EthTxReaperInterval (unsetenv ''ETH_TX_REAPER_INTERVAL'' S) c =
        Returns (ethTxReaperInterval (defaultSet c))) \<and>
   (malformed S ''ETH_TX_REAPER_THRESHOLD'' (config_ParseDuration S) \<longrightarrow>
      EthTxReaperThreshold S c =
        Returns (ethTxReaperThreshold (defaultSet c)) \<and>
      EthTxReaperThreshold (unsetenv ''ETH_TX_REAPER_THRESHOLD'' S) c =
        Returns (ethTxReaperThreshold (defaultSet c))) \<and>
   (malformed S ''ETH_LOG_BACKFILL_BATCH_SIZE'' (config_ParseUint32 S) \<longrightarrow>
      EvmLogBackfillBatchSize S c =
        Returns (if Valid (cfg_EvmLogBackfillBatchSize (persistedCfg c)) then ucast (Value (cfg_EvmLogBackfillBatchSize (persistedCfg c))) else logBackfillBatchSize (defaultSet c)) \<and>
      EvmLogBackfillBatchSize (unsetenv ''ETH_LOG_BACKFILL_BATCH_SIZE'' S) c =
        Returns (if Valid (cfg_EvmLogBackfillBatchSize (persistedCfg c)) then ucast (Value (cfg_EvmLogBackfillBatchSize (persistedCfg c))) else logBackfillBatchSize (defaultSet c))) \<and>
   (malformed S ''ETH_RPC_DEFAULT_BATCH_SIZE'' (config_ParseUint32 S) \<longrightarrow>
      EvmRPCDefaultBatchSize S c =
        Returns (if Valid (cfg_EvmRPCDefaultBatchSize (persistedCfg c)) then ucast (Value (cfg_EvmRPCDefaultBatchSize (persistedCfg c))) else rpcDefaultBatchSize (defaultSet c)) \<and>
      EvmRPCDefaultBatchSize (unsetenv ''ETH_RPC_DEFAULT_BATCH_SIZE'' S) c =
        Returns (if Valid (cfg_EvmRPCDefaultBatchSize (persistedCfg c)) then ucast (Value (cfg_EvmRPCDefaultBatchSize (persistedCfg c))) else rpcDefaultBatchSize (defaultSet c))) \<and>
   (malformed S ''ETH_FINALITY_DEPTH'' (config_ParseUint64 S) \<longrightarrow>
      EvmFinalityDepth S c =
        Returns (if Valid (cfg_EvmFinalityDepth (persistedCfg c)) then Value (cfg_EvmFinalityDepth (persistedCfg c)) else finalityDepth (defaultSet c)) \<and>
      EvmFinalityDepth (unsetenv ''ETH_FINALITY_DEPTH'' S) c =
        Returns (if Valid (cfg_EvmFinalityDepth (persistedCfg c)) then Value (cfg_EvmFinalityDepth (persistedCfg c)) else finalityDepth (defaultSet c))) \<and>
   (malformed S ''ETH_HEAD_TRACKER_HISTORY_DEPTH'' (config_ParseUint64 S) \<longrightarrow>
      EvmHeadTrackerHistoryDepth S c =
        Returns (if Valid (cfg_EvmHeadTrackerHistoryDepth (persistedCfg c)) then Value (cfg_EvmHeadTrackerHistoryDepth (persistedCfg c)) else headTrackerHistoryDepth (defaultSet c)) \<and>
      EvmHeadTrackerHistoryDepth (unsetenv ''ETH_HEAD_TRACKER_HISTORY_DEPTH'' S) c =
        Returns (if Valid (cfg_EvmHeadTrackerHistoryDepth (persistedCfg c)) then Value (cfg_EvmHeadTrackerHistoryDepth (persistedCfg c)) else headTrackerHistoryDepth (defaultSet c))) \<and>
   (malformed S ''BLOCK_HISTORY_ESTIMATOR_BATCH_SIZE'' (config_ParseUint32 S) \<longrightarrow>
      BlockHistoryEstimatorBatchSize S c =
        Returns (if 0 < blockHistoryEstimatorBatchSize (defaultSet c) then blockHistoryEstimatorBatchSize (defaultSet c)
                else (case env_value S ''ETH_RPC_DEFAULT_BATCH_SIZE'' (ParseUint32 S) of
                        Some v \<Rightarrow> v
                      | None \<Rightarrow> rpcDefaultBatchSize (defaultSet c))) \<and>
      BlockHistoryEstimatorBatchSize (unsetenv ''BLOCK_HISTORY_ESTIMATOR_BATCH_SIZE'' S) c =
        Returns (if 0 < blockHistoryEstimatorBatchSize (defaultSet c) then blockHistoryEstimatorBatchSize (defaultSet c)
                else (case env_value S ''ETH_RPC_DEFAULT_BATCH_SIZE'' (ParseUint32 S) of
                        Some v \<Rightarrow> v
                      | None \<Rightarrow> rpcDefaultBatchSize (defaultSet c)))) \<and>
   (malformed S ''ETH_RPC_DEFAULT_BATCH_SIZE'' (config_ParseUint32 S) \<longrightarrow>
      BlockHistoryEstimatorBatchSize S c =
        Returns (let size = (case env_value S ''BLOCK_HISTORY_ESTIMATOR_BATCH_SIZE'' (ParseUint32 S) of
                              Some v \<Rightarrow> v
                            | None \<Rightarrow> blockHistoryEstimatorBatchSize (defaultSet c))
                in if 0 < size then size else rpcDefaultBatchSize (defaultSet c)) \<and>
      BlockHistoryEstimatorBatchSize (unsetenv ''ETH_RPC_DEFAULT_BATCH_SIZE'' S) c =
        Returns (let size = (case env_value S ''BLOCK_HISTORY_ESTIMATOR_BATCH_SIZE'' (ParseUint32 S) of
                              Some v \<Rightarrow> v
                            | None \<Rightarrow> blockHistoryEstimatorBatchSize (defaultSet c))
                in if 0 < size then size else rpcDefaultBatchSize (defaultSet c))) \<and>
   (malformed S ''OCR_CONTRACT_CONFIRMATIONS'' (config_ParseUint16 S) \<longrightarrow>
      OCRContractConfirmations S c override =
        Returns (if override \<noteq> 0 then override else ocrContractConfirmations (defaultSet c)) \<and>
      OCRContractConfirmations (unsetenv ''OCR_CONTRACT_CONFIRMATIONS'' S) c override =
        Returns (if override \<noteq> 0 then override else ocrContractConfirmations (defaultSet c))) \<and>
   (malformed S ''BALANCE_MONITOR_ENABLED'' (config_ParseBool S) \<longrightarrow>
      BalanceMonitorEnabled S c =
        Returns (if EthereumDisabled (GeneralConfig c) then False
                else balanceMonitorEnabled (defaultSet c)) \<and>
      BalanceMonitorEnabled (unsetenv ''BALANCE_MONITOR_ENABLED'' S) c =
        Returns (if EthereumDisabled (GeneralConfig c) then False
                else balanceMonitorEnabled (defaultSet c))) \<and>
   (malformed S ''ETH_GAS_PRICE_DEFAULT'' (config_ParseBigInt S) \<longrightarrow>
      EvmGasPriceDefault S c = EvmGasPriceDefault (unsetenv ''ETH_GAS_PRICE_DEFAULT'' S) c \<and>
      (\<not> writer (persistMu c) \<longrightarrow>
         value_of (EvmGasPriceDefault S c) =
           Returns (case cfg_EvmGasPriceDefault (persistedCfg c) of
                     Some p \<Rightarrow> p
                   | None \<Rightarrow> gasPriceDefault (defaultSet c)))) \<and>
   ((\<forall>s. \<exists>v. ParseString S s = Inr v) \<longrightarrow>
      \<not> malformed S ''GAS_ESTIMATOR_MODE'' (config_ParseString S) \<and>
      \<not> malformed S ''LINK_CONTRACT_ADDRESS'' (config_ParseString S) \<and>
      \<not> malformed S ''FLAGS_CONTRACT_ADDRESS'' (config_ParseString S))"
  by (intro conjI)
    (rule lookupEnv_malformed
      EvmBalanceMonitorBlockDelay_malformed
      EvmGasBumpThreshold_malformed
      EvmGasBumpWei_malformed
      EvmMaxInFlightTransactions_malformed
      EvmMaxGasPriceWei_malformed
      EvmMaxQueuedTransactions_malformed
      EvmMinGasPriceWei_malformed
      EvmGasLimitDefault_malformed
      EvmGasLimitTransfer_malformed
      EvmHeadTrackerSamplingInterval_malformed
      EthTxResendAfterThreshold_malformed
      EvmDefaultBatchSize_malformed
      BlockHistoryEstimatorBlockDelay_malformed
      BlockHistoryEstimatorBlockHistorySize_malformed
      BlockHistoryEstimatorTransactionPercentile_malformed
      MinIncomingConfirmations_malformed
      MinRequiredOutgoingConfirmations_malformed
      MinimumContractPayment_malformed
      EvmGasBumpTxDepth_malformed
      EvmGasBumpPercent_malformed
      EvmNonceAutoSync_malformed
      EvmGasLimitMultiplier_malformed
      EvmHeadTrackerMaxBufferSize_malformed
      EthTxReaperInterval_malformed
      EthTxReaperThreshold_malformed
      EvmLogBackfillBatchSize_malformed
      EvmRPCDefaultBatchSize_malformed
      EvmFinalityDepth_malformed
      EvmHeadTrackerHistoryDepth_malformed
      BlockHistoryEstimatorBatchSize_malformed
      BlockHistoryEstimatorBatchSize_malformed_rpc
      OCRContractConfirmations_malformed
      BalanceMonitorEnabled_malformed
      EvmGasPriceDefault_malformed
      plain_string_well_formed)+

lemma example_bad_sys_malformed:
  "malformed example_bad_sys ''BALANCE_MONITOR_ENABLED'' (config_ParseBool example_bad_sys)"
  "malformed example_bad_sys ''BLOCK_HISTORY_ESTIMATOR_BATCH_SIZE'' (config_ParseUint32 example_bad_sys)"
  "malformed example_bad_sys ''BLOCK_HISTORY_ESTIMATOR_BLOCK_DELAY'' (config_ParseUint16 example_bad_sys)"
  "malformed example_bad_sys ''BLOCK_HISTORY_ESTIMATOR_BLOCK_HISTORY_SIZE'' (config_ParseUint16 example_bad_sys)"
  "malformed example_bad_sys ''BLOCK_HISTORY_ESTIMATOR_TRANSACTION_PERCENTILE'' (config_ParseUint16 example_bad_sys)"
  "malformed example_bad_sys ''ETH_BALANCE_MONITOR_BLOCK_DELAY'' (config_ParseUint16 example_bad_sys)"
  "malformed example_bad_sys ''ETH_FINALITY_DEPTH'' (config_ParseUint64 example_bad_sys)"
  "malformed example_bad_sys ''ETH_GAS_BUMP_PERCENT'' (config_ParseUint16 example_bad_sys)"
  "malformed example_bad_sys ''ETH_GAS_BUMP_THRESHOLD'' (config_ParseUint64 example_bad_sys)"
  "malformed example_bad_sys ''ETH_GAS_BUMP_TX_DEPTH'' (config_ParseUint16 example_bad_sys)"
  "malformed example_bad_sys ''ETH_GAS_BUMP_WEI'' (config_ParseBigInt example_bad_sys)"
  "malformed example_bad_sys ''ETH_GAS_LIMIT_DEFAULT'' (config_ParseUint64 example_bad_sys)"
  "malformed example_bad_sys ''ETH_GAS_LIMIT_MULTIPLIER'' (config_ParseF32 example_bad_sys)"
  "malformed example_bad_sys ''ETH_GAS_LIMIT_TRANSFER'' (config_ParseUint64 example_bad_sys)"
  "malformed example_bad_sys ''ETH_GAS_PRICE_DEFAULT'' (config_ParseBigInt example_bad_sys)"
  "malformed example_bad_sys ''ETH_HEAD_TRACKER_HISTORY_DEPTH'' (config_ParseUint64 example_bad_sys)"
  "malformed example_bad_sys ''ETH_HEAD_TRACKER_MAX_BUFFER_SIZE'' (config_ParseUint64 example_bad_sys)"
  "malformed example_bad_sys ''ETH_HEAD_TRACKER_SAMPLING_INTERVAL'' (config_ParseDuration example_bad_sys)"
  "malformed example_bad_sys ''ETH_LOG_BACKFILL_BATCH_SIZE'' (config_ParseUint32 example_bad_sys)"
  "malformed example_bad_sys ''ETH_MAX_GAS_PRICE_WEI'' (config_ParseBigInt example_bad_sys)"
  "malformed example_bad_sys ''ETH_MAX_IN_FLIGHT_TRANSACTIONS'' (config_ParseUint32 example_bad_sys)"
  "malformed example_bad_sys ''ETH_MAX_QUEUED_TRANSACTIONS'' (config_ParseUint64 example_bad_sys)"
  "malformed example_bad_sys ''ETH_MIN_GAS_PRICE_WEI'' (config_ParseBigInt example_bad_sys)"
  "malformed example_bad_sys ''ETH_NONCE_AUTO_SYNC'' (config_ParseBool example_bad_sys)"
  "malformed example_bad_sys ''ETH_RPC_DEFAULT_BATCH_SIZE'' (config_ParseUint32 example_bad_sys)"
  "malformed example_bad_sys ''ETH_TX_REAPER_INTERVAL'' (config_ParseDuration example_bad_sys)"
  "malformed example_bad_sys ''ETH_TX_REAPER_THRESHOLD'' (config_ParseDuration example_bad_sys)"
  "malformed example_bad_sys ''ETH_TX_RESEND_AFTER_THRESHOLD'' (config_ParseDuration example_bad_sys)"
  "malformed example_bad_sys ''MINIMUM_CONTRACT_PAYMENT_LINK_JUELS'' (config_ParseLink example_bad_sys)"
  "malformed example_bad_sys ''MIN_INCOMING_CONFIRMATIONS'' (config_ParseUint32 example_bad_sys)"
  "malformed example_bad_sys ''MIN_REQUIRED_OUTGOING_CONFIRMATIONS'' (config_ParseUint64 example_bad_sys)"
  "malformed example_bad_sys ''OCR_CONTRACT_CONFIRMATIONS'' (config_ParseUint16 example_bad_sys)"
  by (simp_all add: malformed_def example_bad_sys_def example_sys_def config_Parse_defs
      as_parser_def example_ParseUint_def)

lemma example_bad_sys_lookupEnv:
  "lookupEnv (environ example_bad_sys) ''ETH_GAS_BUMP_WEI'' (config_ParseBigInt example_bad_sys) =
     ((ANil, False),
      [Errorw ''Invalid value provided for x7, falling back to default.'' ''x7'' ''ETH_GAS_BUMP_WEI''
         (New ''invalid syntax'')])"
  by (simp add: lookupEnv_def example_bad_sys_def example_sys_def config_ParseBigInt_def
      as_parser_def example_ParseUint_def)

lemma example_bad_sys_ParseString:
  "\<forall>s. \<exists>v. ParseString example_bad_sys s = Inr v"
  by (simp add: example_bad_sys_def example_sys_def)

lemma example_depths_config_layers:
  "persistedCfg example_depths_config =
     example_ChainCfg\<lparr>cfg_EvmHeadTrackerHistoryDepth := \<lparr>Value = 10, Valid = True\<rparr>,
                       cfg_EvmFinalityDepth := \<lparr>Value = 15, Valid = True\<rparr>\<rparr>"
  "defaultSet example_depths_config = example_defaultSet\<lparr>minGasPriceWei := 30000000000\<rparr>"
  "GeneralConfig example_depths_config = example_GeneralConfig"
  "\<not> writer (persistMu example_depths_config)"
  by (simp_all add: example_depths_config_def example_history_config_def example_config_def)

text \<open>
  Every variable is set to \<open>x7\<close>, which only \<open>ParseString\<close> accepts; the persisted
  configuration holds a finality depth of 15 and a head tracker history depth of 10 and
  nothing else.
\<close>

theorem malformed_env_ignored_witness:
  "lookupEnv (environ example_bad_sys) ''ETH_GAS_BUMP_WEI'' (config_ParseBigInt example_bad_sys) =
     ((ANil, False),
      [Errorw ''Invalid value provided for x7, falling back to default.'' ''x7'' ''ETH_GAS_BUMP_WEI''
         (New ''invalid syntax'')]) \<and>
   malformed example_bad_sys ''ETH_BALANCE_MONITOR_BLOCK_DELAY'' (config_ParseUint16 example_bad_sys) \<and>
   EvmBalanceMonitorBlockDelay example_bad_sys example_depths_config = Returns 1 \<and>
   malformed example_bad_sys ''ETH_GAS_BUMP_THRESHOLD'' (config_ParseUint64 example_bad_sys) \<and>
   EvmGasBumpThreshold example_bad_sys example_depths_config = Returns 3 \<and>
   malformed example_bad_sys ''ETH_GAS_BUMP_WEI'' (config_ParseBigInt example_bad_sys) \<and>
   EvmGasBumpWei example_bad_sys example_depths_config = Returns 5000000000 \<and>
   malformed example_bad_sys ''ETH_MAX_IN_FLIGHT_TRANSACTIONS'' (config_ParseUint32 example_bad_sys) \<and>
   EvmMaxInFlightTransactions example_bad_sys example_depths_config = Returns 16 \<and>
   malformed example_bad_sys ''ETH_MAX_GAS_PRICE_WEI'' (config_ParseBigInt example_bad_sys) \<and>
   EvmMaxGasPriceWei example_bad_sys example_depths_config = Returns 5000000000000 \<and>
   malformed example_bad_sys ''ETH_MAX_QUEUED_TRANSACTIONS'' (config_ParseUint64 example_bad_sys) \<and>
   EvmMaxQueuedTransactions example_bad_sys example_depths_config = Returns 250 \<and>
   malformed example_bad_sys ''ETH_MIN_GAS_PRICE_WEI'' (config_ParseBigInt example_bad_sys) \<and>
   EvmMinGasPriceWei example_bad_sys example_depths_config = Returns 30000000000 \<and>
   malformed example_bad_sys ''ETH_GAS_LIMIT_DEFAULT'' (config_ParseUint64 example_bad_sys) \<and>
   EvmGasLimitDefault example_bad_sys example_depths_config = Returns 500000 \<and>
   malformed example_bad_sys ''ETH_GAS_LIMIT_TRANSFER'' (config_ParseUint64 example_bad_sys) \<and>
   EvmGasLimitTransfer example_bad_sys example_depths_config = Returns 21000 \<and>
   malformed example_bad_sys ''ETH_HEAD_TRACKER_SAMPLING_INTERVAL'' (config_ParseDuration example_bad_sys) \<and>
   EvmHeadTrackerSamplingInterval example_bad_sys example_depths_config = Returns 1000000000 \<and>
   malformed example_bad_sys ''ETH_TX_RESEND_AFTER_THRESHOLD'' (config_ParseDuration example_bad_sys) \<and>
   EthTxResendAfterThreshold example_bad_sys example_depths_config = Returns 60000000000 \<and>
   malformed example_bad_sys ''ETH_RPC_DEFAULT_BATCH_SIZE'' (config_ParseUint32 example_bad_sys) \<and>
   EvmDefaultBatchSize example_bad_sys example_depths_config = Returns 100 \<and>
   malformed example_bad_sys ''BLOCK_HISTORY_ESTIMATOR_BLOCK_DELAY'' (config_ParseUint16 example_bad_sys) \<and>
   BlockHistoryEstimatorBlockDelay example_bad_sys example_depths_config = Returns 1 \<and>
   malformed example_bad_sys ''BLOCK_HISTORY_ESTIMATOR_BLOCK_HISTORY_SIZE'' (config_ParseUint16 example_bad_sys) \<and>
   BlockHistoryEstimatorBlockHistorySize example_bad_sys example_depths_config = Returns 24 \<and>
   malformed example_bad_sys ''BLOCK_HISTORY_ESTIMATOR_TRANSACTION_PERCENTILE'' (config_ParseUint16 example_bad_sys) \<and>
   BlockHistoryEstimatorTransactionPercentile example_bad_sys example_depths_config = Returns 60 \<and>
   malformed example_bad_sys ''MIN_INCOMING_CONFIRMATIONS'' (config_ParseUint32 example_bad_sys) \<and>
   MinIncomingConfirmations example_bad_sys example_depths_config = Returns 3 \<and>
   malformed example_bad_sys ''MIN_REQUIRED_OUTGOING_CONFIRMATIONS'' (config_ParseUint64 example_bad_sys) \<and>
   MinRequiredOutgoingConfirmations example_bad_sys example_depths_config = Returns 12 \<and>
   malformed example_bad_sys ''MINIMUM_CONTRACT_PAYMENT_LINK_JUELS'' (config_ParseLink example_bad_sys) \<and>
   MinimumContractPayment example_bad_sys example_depths_config = Returns (Some 100000000000000) \<and>
   malformed example_bad_sys ''ETH_GAS_BUMP_TX_DEPTH'' (config_ParseUint16 example_bad_sys) \<and>
   EvmGasBumpTxDepth example_bad_sys example_depths_config = Returns 10 \<and>
   malformed example_bad_sys ''ETH_GAS_BUMP_PERCENT'' (config_ParseUint16 example_bad_sys) \<and>
   EvmGasBumpPercent example_bad_sys example_depths_config = Returns 20 \<and>
   malformed example_bad_sys ''ETH_NONCE_AUTO_SYNC'' (config_ParseBool example_bad_sys) \<and>
   EvmNonceAutoSync example_bad_sys example_depths_config = Returns True \<and>
   malformed example_bad_sys ''ETH_GAS_LIMIT_MULTIPLIER'' (config_ParseF32 example_bad_sys) \<and>
   EvmGasLimitMultiplier example_bad_sys example_depths_config = Returns 0x3F800000 \<and>
   malformed example_bad_sys ''ETH_HEAD_TRACKER_MAX_BUFFER_SIZE'' (config_ParseUint64 example_bad_sys) \<and>
   EvmHeadTrackerMaxBufferSize example_bad_sys example_depths_config = Returns 3 \<and>
   malformed example_bad_sys ''ETH_TX_REAPER_INTERVAL'' (config_ParseDuration example_bad_sys) \<and>
   EthTxReaperInterval example_bad_sys example_depths_config = Returns 3600000000000 \<and>
   malformed example_bad_sys ''ETH_TX_REAPER_THRESHOLD'' (config_ParseDuration example_bad_sys) \<and>
   EthTxReaperThreshold example_bad_sys example_depths_config = Returns 86400000000000 \<and>
   malformed example_bad_sys ''ETH_LOG_BACKFILL_BATCH_SIZE'' (config_ParseUint32 example_bad_sys) \<and>
   EvmLogBackfillBatchSize example_bad_sys example_depths_config = Returns 100 \<and>
   malformed example_bad_sys ''ETH_RPC_DEFAULT_BATCH_SIZE'' (config_ParseUint32 example_bad_sys) \<and>
   EvmRPCDefaultBatchSize example_bad_sys example_depths_config = Returns 100 \<and>
   malformed example_bad_sys ''ETH_FINALITY_DEPTH'' (config_ParseUint64 example_bad_sys) \<and>
   EvmFinalityDepth example_bad_sys example_depths_config = Returns 15 \<and>
   malformed example_bad_sys ''ETH_HEAD_TRACKER_HISTORY_DEPTH'' (config_ParseUint64 example_bad_sys) \<and>
   EvmHeadTrackerHistoryDepth example_bad_sys example_depths_config = Returns 10 \<and>
   malformed example_bad_sys ''BLOCK_HISTORY_ESTIMATOR_BATCH_SIZE'' (config_ParseUint32 example_bad_sys) \<and>
   BlockHistoryEstimatorBatchSize example_bad_sys example_depths_config = Returns 4 \<and>
   malformed example_bad_sys ''OCR_CONTRACT_CONFIRMATIONS'' (config_ParseUint16 example_bad_sys) \<and>
   OCRContractConfirmations example_bad_sys example_depths_config 0 = Returns 4 \<and>
   malformed example_bad_sys ''BALANCE_MONITOR_ENABLED'' (config_ParseBool example_bad_sys) \<and>
   BalanceMonitorEnabled example_bad_sys example_depths_config = Returns True \<and>
   malformed example_bad_sys ''ETH_RPC_DEFAULT_BATCH_SIZE'' (config_ParseUint32 example_bad_sys) \<and>
   malformed example_bad_sys ''ETH_GAS_PRICE_DEFAULT'' (config_ParseBigInt example_bad_sys) \<and>
   \<not> writer (persistMu example_depths_config) \<and>
   value_of (EvmGasPriceDefault example_bad_sys example_depths_config) = Returns 20000000000 \<and>
   (\<forall>s. \<exists>v. ParseString example_bad_sys s = Inr v) \<and>
   \<not> malformed example_bad_sys ''GAS_ESTIMATOR_MODE'' (config_ParseString example_bad_sys) \<and>
   \<not> malformed example_bad_sys ''LINK_CONTRACT_ADDRESS'' (config_ParseString example_bad_sys) \<and>
   \<not> malformed example_bad_sys ''FLAGS_CONTRACT_ADDRESS'' (config_ParseString example_bad_sys)"
proof -
  have layer:
    "EvmBalanceMonitorBlockDelay example_bad_sys example_depths_config =
        Returns (balanceMonitorBlockDelay (defaultSet example_depths_config)) \<and>
     EvmGasBumpThreshold example_bad_sys example_depths_config =
        Returns (gasBumpThreshold (defaultSet example_depths_config)) \<and>
     EvmGasBumpWei example_bad_sys example_depths_config =
        Returns (case cfg_EvmGasBumpWei (persistedCfg example_depths_config) of Some p \<Rightarrow> p | None \<Rightarrow> gasBumpWei (defaultSet example_depths_config)) \<and>
     EvmMaxInFlightTransactions example_bad_sys example_depths_config =
        Returns (maxInFlightTransactions (defaultSet example_depths_config)) \<and>
     EvmMaxGasPriceWei example_bad_sys example_depths_config =
        Returns (case cfg_EvmMaxGasPriceWei (persistedCfg example_depths_config) of Some p \<Rightarrow> p | None \<Rightarrow> maxGasPriceWei (defaultSet example_depths_config)) \<and>
     EvmMaxQueuedTransactions example_bad_sys example_depths_config =
        Returns (maxQueuedTransactions (defaultSet example_depths_config)) \<and>
     EvmMinGasPriceWei example_bad_sys example_depths_config =
        Returns (minGasPriceWei (defaultSet example_depths_config)) \<and>
     EvmGasLimitDefault example_bad_sys example_depths_config =
        Returns (if Valid (cfg_EvmGasLimitDefault (persistedCfg example_depths_config)) then Value (cfg_EvmGasLimitDefault (persistedCfg example_depths_config)) else gasLimitDefault (defaultSet example_depths_config)) \<and>
     EvmGasLimitTransfer example_bad_sys example_depths_config =
        Returns (gasLimitTransfer (defaultSet example_depths_config)) \<and>
     EvmHeadTrackerSamplingInterval example_bad_sys example_depths_config =
        Returns (case cfg_EvmHeadTrackerSamplingInterval (persistedCfg example_depths_config) of Some p \<Rightarrow> p | None \<Rightarrow> headTrackerSamplingInterval (defaultSet example_depths_config)) \<and>
     EthTxResendAfterThreshold example_bad_sys example_depths_config =
        Returns (case cfg_EthTxResendAfterThreshold (persistedCfg example_depths_config) of Some p \<Rightarrow> p | None \<Rightarrow> ethTxResendAfterThreshold (defaultSet example_depths_config)) \<and>
     EvmDefaultBatchSize example_bad_sys example_depths_config =
        Returns (rpcDefaultBatchSize (defaultSet example_depths_config)) \<and>
     BlockHistoryEstimatorBlockDelay example_bad_sys example_depths_config =
        Returns (if Valid (cfg_BlockHistoryEstimatorBlockDelay (persistedCfg example_depths_config)) then ucast (Value (cfg_BlockHistoryEstimatorBlockDelay (persistedCfg example_depths_config))) else blockHistoryEstimatorBlockDelay (defaultSet example_depths_config)) \<and>
     BlockHistoryEstimatorBlockHistorySize example_bad_sys example_depths_config =
        Returns (if Valid (cfg_BlockHistoryEstimatorBlockHistorySize (persistedCfg example_depths_config)) then ucast (Value (cfg_BlockHistoryEstimatorBlockHistorySize (persistedCfg example_depths_config))) else blockHistoryEstimatorBlockHistorySize (defaultSet example_depths_config)) \<and>
     BlockHistoryEstimatorTransactionPercentile example_bad_sys example_depths_config =
        Returns (blockHistoryEstimatorTransactionPercentile (defaultSet example_depths_config)) \<and>
     MinIncomingConfirmations example_bad_sys example_depths_config =
        Returns (minIncomingConfirmations (defaultSet example_depths_config)) \<and>
     MinRequiredOutgoingConfirmations example_bad_sys example_depths_config =
        Returns (if Valid (cfg_MinRequiredOutgoingConfirmations (persistedCfg example_depths_config)) then Value (cfg_MinRequiredOutgoingConfirmations (persistedCfg example_depths_config)) else minRequiredOutgoingConfirmations (defaultSet example_depths_config)) \<and>
     MinimumContractPayment example_bad_sys example_depths_config =
        Returns (minimumContractPayment (defaultSet example_depths_config)) \<and>
     EvmGasBumpTxDepth example_bad_sys example_depths_config =
        Returns (if Valid (cfg_EvmGasBumpTxDepth (persistedCfg example_depths_config)) then ucast (Value (cfg_EvmGasBumpTxDepth (persistedCfg example_depths_config))) else gasBumpTxDepth (defaultSet example_depths_config)) \<and>
     EvmGasBumpPercent example_bad_sys example_depths_config =
        Returns (if Valid (cfg_EvmGasBumpPercent (persistedCfg example_depths_config)) then ucast (Value (cfg_EvmGasBumpPercent (persistedCfg example_depths_config))) else gasBumpPercent (defaultSet example_depths_config)) \<and>
     EvmNonceAutoSync example_bad_sys example_depths_config =
        Returns (if Valid (cfg_EvmNonceAutoSync (persistedCfg example_depths_config)) then Value (cfg_EvmNonceAutoSync (persistedCfg example_depths_config)) else nonceAutoSync (defaultSet example_depths_config)) \<and>
     EvmGasLimitMultiplier example_bad_sys example_depths_config =
        Returns (if Valid (cfg_EvmGasLimitMultiplier (persistedCfg example_depths_config)) then float32_of_float64 example_bad_sys (Value (cfg_EvmGasLimitMultiplier (persistedCfg example_depths_config))) else gasLimitMultiplier (defaultSet example_depths_config)) \<and>
     EvmHeadTrackerMaxBufferSize example_bad_sys example_depths_config =
        Returns (if Valid (cfg_EvmHeadTrackerMaxBufferSize (persistedCfg example_depths_config)) then Value (cfg_EvmHeadTrackerMaxBufferSize (persistedCfg example_depths_config)) else headTrackerMaxBufferSize (defaultSet example_depths_config)) \<and>
     EthTxReaperInterval example_bad_sys example_depths_config =
        Returns (ethTxReaperInterval (defaultSet example_depths_config)) \<and>
     EthTxReaperThreshold example_bad_sys example_depths_config =
        Returns (ethTxReaperThreshold (defaultSet example_depths_config)) \<and>
     EvmLogBackfillBatchSize example_bad_sys example_depths_config =
        Returns (if Valid (cfg_EvmLogBackfillBatchSize (persistedCfg example_depths_config)) then ucast (Value (cfg_EvmLogBackfillBatchSize (persistedCfg example_depths_config))) else logBackfillBatchSize (defaultSet example_depths_config)) \<and>
     EvmRPCDefaultBatchSize example_bad_sys example_depths_config =
        Returns (if Valid (cfg_EvmRPCDefaultBatchSize (persistedCfg example_depths_config)) then ucast (Value (cfg_EvmRPCDefaultBatchSize (persistedCfg example_depths_config))) else rpcDefaultBatchSize (defaultSet example_depths_config)) \<and>
     EvmFinalityDepth example_bad_sys example_depths_config =
        Returns (if Valid (cfg_EvmFinalityDepth (persistedCfg example_depths_config)) then Value (cfg_EvmFinalityDepth (persistedCfg example_depths_config)) else finalityDepth (defaultSet example_depths_config)) \<and>
     EvmHeadTrackerHistoryDepth example_bad_sys example_depths_config =
        Returns (if Valid (cfg_EvmHeadTrackerHistoryDepth (persistedCfg example_depths_config)) then Value (cfg_EvmHeadTrackerHistoryDepth (persistedCfg example_depths_config)) else headTrackerHistoryDepth (defaultSet example_depths_config)) \<and>
     BlockHistoryEstimatorBatchSize example_bad_sys example_depths_config =
        Returns (if 0 < blockHistoryEstimatorBatchSize (defaultSet example_depths_config) then blockHistoryEstimatorBatchSize (defaultSet example_depths_config)
                else (case env_value example_bad_sys ''ETH_RPC_DEFAULT_BATCH_SIZE'' (ParseUint32 example_bad_sys) of
                        Some v \<Rightarrow> v
                      | None \<Rightarrow> rpcDefaultBatchSize (defaultSet example_depths_config))) \<and>
     BalanceMonitorEnabled example_bad_sys example_depths_config =
        Returns (if EthereumDisabled (GeneralConfig example_depths_config) then False
                else balanceMonitorEnabled (defaultSet example_depths_config)) \<and>
     value_of (EvmGasPriceDefault example_bad_sys example_depths_config) =
        Returns (case cfg_EvmGasPriceDefault (persistedCfg example_depths_config) of
                     Some p \<Rightarrow> p
                   | None \<Rightarrow> gasPriceDefault (defaultSet example_depths_config)) \<and>
     \<not> malformed example_bad_sys ''GAS_ESTIMATOR_MODE'' (config_ParseString example_bad_sys) \<and>
     \<not> malformed example_bad_sys ''LINK_CONTRACT_ADDRESS'' (config_ParseString example_bad_sys) \<and>
     \<not> malformed example_bad_sys ''FLAGS_CONTRACT_ADDRESS'' (config_ParseString example_bad_sys)"
    using malformed_env_ignored [where S = example_bad_sys and c = example_depths_config
        and override = 0 and k = "''ETH_GAS_BUMP_WEI''"
        and parse = "config_ParseBigInt example_bad_sys"]
      example_bad_sys_malformed example_bad_sys_ParseString example_depths_config_layers(4)
    by blast
  have ocr: "OCRContractConfirmations example_bad_sys example_depths_config 0 =
        Returns (ocrContractConfirmations (defaultSet example_depths_config))"
    using malformed_env_ignored [where S = example_bad_sys and c = example_depths_config
        and override = 0 and k = "''ETH_GAS_BUMP_WEI''"
        and parse = "config_ParseBigInt example_bad_sys"]
      example_bad_sys_malformed
    by simp
  show ?thesis
    using layer ocr example_bad_sys_malformed example_bad_sys_lookupEnv example_bad_sys_ParseString
    by (simp add: example_depths_config_layers example_ChainCfg_def example_defaultSet_def
        example_GeneralConfig_def)
qed

section \<open>Setting the default gas price\<close>

lemma digit_chars:
  "digit 0 = CHR ''0''" "digit 1 = CHR ''1''" "digit (Suc 0) = CHR ''1''" "digit 2 = CHR ''2''"
  "digit 3 = CHR ''3''" "digit 4 = CHR ''4''" "digit 5 = CHR ''5''" "digit 6 = CHR ''6''"
  "digit 7 = CHR ''7''" "digit 8 = CHR ''8''" "digit 9 = CHR ''9''"
  by code_simp+

text \<open>The getters do not read the lock.\<close>

lemma EvmGasBumpPercent_persistMu:
  "EvmGasBumpPercent S (c\<lparr>persistMu := m\<rparr>) = EvmGasBumpPercent S c"
  by (simp add: EvmGasBumpPercent_eq split: option.splits)

lemma EvmGasBumpTxDepth_persistMu:
  "EvmGasBumpTxDepth S (c\<lparr>persistMu := m\<rparr>) = EvmGasBumpTxDepth S c"
  by (simp add: EvmGasBumpTxDepth_eq split: option.splits)

lemma EvmMaxInFlightTransactions_persistMu:
  "EvmMaxInFlightTransactions S (c\<lparr>persistMu := m\<rparr>) = EvmMaxInFlightTransactions S c"
  by (simp add: EvmMaxInFlightTransactions_eq split: option.splits)

lemma EvmMinGasPriceWei_persistMu:
  "EvmMinGasPriceWei S (c\<lparr>persistMu := m\<rparr>) = EvmMinGasPriceWei S c"
  by (simp add: EvmMinGasPriceWei_eq split: option.splits)

lemma EvmMaxGasPriceWei_persistMu:
  "EvmMaxGasPriceWei S (c\<lparr>persistMu := m\<rparr>) = EvmMaxGasPriceWei S c"
  by (simp add: EvmMaxGasPriceWei_eq split: option.splits)

lemma EvmHeadTrackerHistoryDepth_persistMu:
  "EvmHeadTrackerHistoryDepth S (c\<lparr>persistMu := m\<rparr>) = EvmHeadTrackerHistoryDepth S c"
  by (simp add: EvmHeadTrackerHistoryDepth_eq split: option.splits)

lemma EvmFinalityDepth_persistMu:
  "EvmFinalityDepth S (c\<lparr>persistMu := m\<rparr>) = EvmFinalityDepth S c"
  by (simp add: EvmFinalityDepth_eq split: option.splits)

lemma GasEstimatorMode_persistMu:
  "GasEstimatorMode S (c\<lparr>persistMu := m\<rparr>) = GasEstimatorMode S c"
  by (simp add: GasEstimatorMode_eq split: option.splits)

lemma BlockHistoryEstimatorBlockHistorySize_persistMu:
  "BlockHistoryEstimatorBlockHistorySize S (c\<lparr>persistMu := m\<rparr>) = BlockHistoryEstimatorBlockHistorySize S c"
  by (simp add: BlockHistoryEstimatorBlockHistorySize_eq split: option.splits)

lemma MinIncomingConfirmations_persistMu:
  "MinIncomingConfirmations S (c\<lparr>persistMu := m\<rparr>) = MinIncomingConfirmations S c"
  by (simp add: MinIncomingConfirmations_eq split: option.splits)

lemma OCRContractConfirmations_persistMu:
  "OCRContractConfirmations S (c\<lparr>persistMu := m\<rparr>) override = OCRContractConfirmations S c override"
  by (simp add: OCRContractConfirmations_eq split: option.splits)

lemmas persistMu_simps =
  EvmGasBumpPercent_persistMu
  EvmGasBumpTxDepth_persistMu
  EvmMaxInFlightTransactions_persistMu
  EvmMinGasPriceWei_persistMu
  EvmMaxGasPriceWei_persistMu
  EvmHeadTrackerHistoryDepth_persistMu
  EvmFinalityDepth_persistMu
  GasEstimatorMode_persistMu
  BlockHistoryEstimatorBlockHistorySize_persistMu
  MinIncomingConfirmations_persistMu
  OCRContractConfirmations_persistMu

lemma RWMutex_unlocked: "\<not> writer m \<Longrightarrow> m\<lparr>writer := False\<rparr> = m"
  by (cases m) simp

lemma SetEvmGasPriceDefault_below:
  "EvmMinGasPriceWei S c = Returns mn \<Longrightarrow> EvmMaxGasPriceWei S c = Returns mx \<Longrightarrow> v < mn \<Longrightarrow>
     SetEvmGasPriceDefault S c v =
       Returns (Some (Errorf
         ''cannot set default gas price to %s, it is below the minimum allowed value of %s''
         [FStr (big_String v), FStr (big_String mn)]), c)"
  by (simp add: SetEvmGasPriceDefault_def Cmp_def)

lemma SetEvmGasPriceDefault_above:
  "EvmMinGasPriceWei S c = Returns mn \<Longrightarrow> EvmMaxGasPriceWei S c = Returns mx \<Longrightarrow>
   mn \<le> v \<Longrightarrow> mx < v \<Longrightarrow>
     SetEvmGasPriceDefault S c v =
       Returns (Some (Errorf
         ''cannot set default gas price to %s, it is above the maximum allowed value of %s''
         [FStr (big_String v), FStr (big_String mx)]), c)"
  by (simp add: SetEvmGasPriceDefault_def Cmp_def)

lemma SetEvmGasPriceDefault_within:
  "EvmMinGasPriceWei S c = Returns mn \<Longrightarrow> EvmMaxGasPriceWei S c = Returns mx \<Longrightarrow>
   mn \<le> v \<Longrightarrow> v \<le> mx \<Longrightarrow> readers (persistMu c) = 0 \<Longrightarrow> \<not> writer (persistMu c) \<Longrightarrow>
     SetEvmGasPriceDefault S c v =
       Returns (store (orm c) ''EvmGasPriceDefault'' v,
                c\<lparr>persistedCfg := (persistedCfg c)\<lparr>cfg_EvmGasPriceDefault := Some v\<rparr>\<rparr>)"
  by (simp add: SetEvmGasPriceDefault_def Cmp_def Lock_def Unlock_def Let_def RWMutex_unlocked)

lemma SetEvmGasPriceDefault_blocks:
  "EvmMinGasPriceWei S c = Returns mn \<Longrightarrow> EvmMaxGasPriceWei S c = Returns mx \<Longrightarrow>
   mn \<le> v \<Longrightarrow> v \<le> mx \<Longrightarrow> 0 < readers (persistMu c) \<Longrightarrow>
     SetEvmGasPriceDefault S c v = Blocks"
  by (simp add: SetEvmGasPriceDefault_def Cmp_def Lock_def)

lemma EvmGasPriceDefault_after_set:
  "\<not> writer (persistMu c) \<Longrightarrow>
     value_of (EvmGasPriceDefault S
        (c\<lparr>persistedCfg := (persistedCfg c)\<lparr>cfg_EvmGasPriceDefault := Some v\<rparr>\<rparr>)) =
       Returns (case env_value S ''ETH_GAS_PRICE_DEFAULT'' (ParseBigInt S) of
                  Some w \<Rightarrow> w
                | None \<Rightarrow> v)"
  by (simp add: EvmGasPriceDefault_eq split: option.splits)

text \<open>
  The read lock that \<open>EvmGasPriceDefault\<close> leaves held: when the environment gives no
  default gas price, a read returns with two read locks held, and a later
  \<open>SetEvmGasPriceDefault\<close> of a value within the bounds waits for the write lock for ever.
  \<open>SetEvmGasPriceDefault\<close> defers \<open>Unlock\<close>; the read defers \<open>RLock\<close>.
\<close>

lemma read_then_set_blocks:
  assumes "env_value S ''ETH_GAS_PRICE_DEFAULT'' (ParseBigInt S) = None"
    and "\<not> writer (persistMu c)"
    and "EvmGasPriceDefault S c = Returns (p, c1)"
    and "EvmMinGasPriceWei S c = Returns mn" and "EvmMaxGasPriceWei S c = Returns mx"
    and "mn \<le> v" and "v \<le> mx"
  shows "readers (persistMu c1) = readers (persistMu c) + 2"
    and "SetEvmGasPriceDefault S c1 v = Blocks"
proof -
  from assms(1-3) have c1: "c1 = c\<lparr>persistMu := (persistMu c)\<lparr>readers := readers (persistMu c) + 2\<rparr>\<rparr>"
    by (simp add: EvmGasPriceDefault_eq)
  then show "readers (persistMu c1) = readers (persistMu c) + 2" by simp
  have "EvmMinGasPriceWei S c1 = Returns mn" "EvmMaxGasPriceWei S c1 = Returns mx"
    using assms(4,5) by (simp_all add: c1 persistMu_simps)
  then show "SetEvmGasPriceDefault S c1 v = Blocks"
    using assms(6,7) by (rule SetEvmGasPriceDefault_blocks) (simp add: c1)
qed

text \<open>
  C3, as the code has it. With \<open>mn\<close> and \<open>mx\<close> the resolved minimum and maximum gas
  price: a value below \<open>mn\<close>, or above \<open>mx\<close>, is refused with an error that names the
  value and the bound, and the configuration is left as it was. A value within the
  bounds, set while no lock on \<open>persistMu\<close> is held, is stored in memory, the result of
  \<open>orm.store\<close> is returned, and the next \<open>EvmGasPriceDefault\<close> returns the value, unless
  the environment holds a well-formed \<open>ETH_GAS_PRICE_DEFAULT\<close>, which the read returns.
\<close>

theorem SetEvmGasPriceDefault_bounds:
  "EvmMinGasPriceWei S c = Returns mn \<Longrightarrow> EvmMaxGasPriceWei S c = Returns mx \<Longrightarrow>
     (v < mn \<longrightarrow>
        SetEvmGasPriceDefault S c v =
          Returns (Some (Errorf
            ''cannot set default gas price to %s, it is below the minimum allowed value of %s''
            [FStr (big_String v), FStr (big_String mn)]), c)) \<and>
     (mn \<le> v \<and> mx < v \<longrightarrow>
        SetEvmGasPriceDefault S c v =
          Returns (Some (Errorf
            ''cannot set default gas price to %s, it is above the maximum allowed value of %s''
            [FStr (big_String v), FStr (big_String mx)]), c)) \<and>
     (mn \<le> v \<and> v \<le> mx \<and> readers (persistMu c) = 0 \<and> \<not> writer (persistMu c) \<longrightarrow>
        SetEvmGasPriceDefault S c v =
          Returns (store (orm c) ''EvmGasPriceDefault'' v,
                   c\<lparr>persistedCfg := (persistedCfg c)\<lparr>cfg_EvmGasPriceDefault := Some v\<rparr>\<rparr>) \<and>
        value_of (EvmGasPriceDefault S
            (c\<lparr>persistedCfg := (persistedCfg c)\<lparr>cfg_EvmGasPriceDefault := Some v\<rparr>\<rparr>)) =
          Returns (case env_value S ''ETH_GAS_PRICE_DEFAULT'' (ParseBigInt S) of
                     Some w \<Rightarrow> w
                   | None \<Rightarrow> v))"
  using SetEvmGasPriceDefault_below [of S c mn mx v] SetEvmGasPriceDefault_above [of S c mn mx v]
    SetEvmGasPriceDefault_within [of S c mn mx v] EvmGasPriceDefault_after_set [of c S v]
  by blast

theorem SetEvmGasPriceDefault_bounds_witness:
  "EvmMinGasPriceWei example_sys example_config = Returns 1000000000 \<and>
   EvmMaxGasPriceWei example_sys example_config = Returns 5000000000000 \<and>
   SetEvmGasPriceDefault example_sys example_config 5 =
     Returns (Some (Errorf
       ''cannot set default gas price to %s, it is below the minimum allowed value of %s''
       [FStr ''5'', FStr ''1000000000'']), example_config) \<and>
   SetEvmGasPriceDefault example_sys example_config 5000000000001 =
     Returns (Some (Errorf
       ''cannot set default gas price to %s, it is above the maximum allowed value of %s''
       [FStr ''5000000000001'', FStr ''5000000000000'']), example_config) \<and>
   SetEvmGasPriceDefault example_sys example_config 3000000000 =
     Returns (None,
       example_config\<lparr>persistedCfg :=
         (persistedCfg example_config)\<lparr>cfg_EvmGasPriceDefault := Some 3000000000\<rparr>\<rparr>) \<and>
   env_value example_sys ''ETH_GAS_PRICE_DEFAULT'' (ParseBigInt example_sys) = None \<and>
   value_of (EvmGasPriceDefault example_sys
     (example_config\<lparr>persistedCfg :=
        (persistedCfg example_config)\<lparr>cfg_EvmGasPriceDefault := Some 3000000000\<rparr>\<rparr>)) =
     Returns 3000000000"
proof -
  have b: "EvmMinGasPriceWei example_sys example_config = Returns 1000000000"
    "EvmMaxGasPriceWei example_sys example_config = Returns 5000000000000"
    "readers (persistMu example_config) = 0" "\<not> writer (persistMu example_config)"
    "store (orm example_config) ''EvmGasPriceDefault'' 3000000000 = None"
    "env_value example_sys ''ETH_GAS_PRICE_DEFAULT'' (ParseBigInt example_sys) = None"
    by (simp_all add: EvmMinGasPriceWei_eq EvmMaxGasPriceWei_eq example_config_def
        example_defaultSet_def example_ChainCfg_def env_value_def example_sys_def)
  have s: "big_String 5 = ''5''" "big_String 1000000000 = ''1000000000''"
    "big_String 5000000000001 = ''5000000000001''" "big_String 5000000000000 = ''5000000000000''"
    by (simp_all add: big_String_def decimal.simps digit_chars)
  show ?thesis
    using SetEvmGasPriceDefault_bounds [OF b(1) b(2), of 5]
      SetEvmGasPriceDefault_bounds [OF b(1) b(2), of 5000000000001]
      SetEvmGasPriceDefault_bounds [OF b(1) b(2), of 3000000000] b s
    by simp
qed

text \<open>
  The claim as stated fails where the environment holds a default gas price: the value
  is stored, and the read returns the value of the environment.
\<close>

theorem SetEvmGasPriceDefault_read_counterexample:
  "SetEvmGasPriceDefault
      (example_sys\<lparr>environ := [''ETH_GAS_PRICE_DEFAULT'' \<mapsto> ''2000000000'']\<rparr>)
      example_config 3000000000 =
     Returns (None,
       example_config\<lparr>persistedCfg :=
         (persistedCfg example_config)\<lparr>cfg_EvmGasPriceDefault := Some 3000000000\<rparr>\<rparr>) \<and>
   value_of (EvmGasPriceDefault
      (example_sys\<lparr>environ := [''ETH_GAS_PRICE_DEFAULT'' \<mapsto> ''2000000000'']\<rparr>)
      (example_config\<lparr>persistedCfg :=
         (persistedCfg example_config)\<lparr>cfg_EvmGasPriceDefault := Some 3000000000\<rparr>\<rparr>)) =
     Returns 2000000000"
proof -
  let ?S = "example_sys\<lparr>environ := [''ETH_GAS_PRICE_DEFAULT'' \<mapsto> ''2000000000'']\<rparr>"
  have b: "EvmMinGasPriceWei ?S example_config = Returns 1000000000"
    "EvmMaxGasPriceWei ?S example_config = Returns 5000000000000"
    "readers (persistMu example_config) = 0" "\<not> writer (persistMu example_config)"
    "store (orm example_config) ''EvmGasPriceDefault'' 3000000000 = None"
    by (simp_all add: EvmMinGasPriceWei_eq EvmMaxGasPriceWei_eq example_config_def
        example_defaultSet_def example_ChainCfg_def env_value_def example_sys_def)
  have e: "env_value ?S ''ETH_GAS_PRICE_DEFAULT'' (ParseBigInt ?S) = Some 2000000000"
    by (simp add: env_value_def example_sys_def example_ParseUint_def)
  have "SetEvmGasPriceDefault ?S example_config 3000000000 =
     Returns (None,
       example_config\<lparr>persistedCfg :=
         (persistedCfg example_config)\<lparr>cfg_EvmGasPriceDefault := Some 3000000000\<rparr>\<rparr>)"
    using SetEvmGasPriceDefault_within [OF b(1) b(2), of 3000000000] b by simp
  moreover have "value_of (EvmGasPriceDefault ?S
      (example_config\<lparr>persistedCfg :=
         (persistedCfg example_config)\<lparr>cfg_EvmGasPriceDefault := Some 3000000000\<rparr>\<rparr>)) =
     Returns 2000000000"
    using EvmGasPriceDefault_after_set [OF b(4), of ?S 3000000000] e by simp
  ultimately show ?thesis by simp
qed

text \<open>
  C10, as the code has it. When a value within the bounds is set while no lock on
  \<open>persistMu\<close> is held and \<open>orm.store\<close> fails, \<open>SetEvmGasPriceDefault\<close> returns the error
  of the store, and the value stays written in memory: nothing rolls it back. The next
  \<open>EvmGasPriceDefault\<close> returns the value, unless the environment holds a well-formed
  \<open>ETH_GAS_PRICE_DEFAULT\<close>, which the read returns.
\<close>

theorem SetEvmGasPriceDefault_store_fails:
  "EvmMinGasPriceWei S c = Returns mn \<Longrightarrow> EvmMaxGasPriceWei S c = Returns mx \<Longrightarrow>
   mn \<le> v \<Longrightarrow> v \<le> mx \<Longrightarrow> readers (persistMu c) = 0 \<Longrightarrow> \<not> writer (persistMu c) \<Longrightarrow>
   store (orm c) ''EvmGasPriceDefault'' v = Some e \<Longrightarrow>
     (\<exists>c'. SetEvmGasPriceDefault S c v = Returns (Some e, c') \<and>
        cfg_EvmGasPriceDefault (persistedCfg c') = Some v \<and>
        persistMu c' = persistMu c \<and>
        value_of (EvmGasPriceDefault S c') =
          Returns (case env_value S ''ETH_GAS_PRICE_DEFAULT'' (ParseBigInt S) of
                     Some w \<Rightarrow> w
                   | None \<Rightarrow> v))"
  using SetEvmGasPriceDefault_within [of S c mn mx v] EvmGasPriceDefault_after_set [of c S v]
  by simp

lemma example_failing_config_values:
  "EvmMinGasPriceWei (example_sys\<lparr>environ := env\<rparr>) example_failing_config =
     Returns (case env_value (example_sys\<lparr>environ := env\<rparr>) ''ETH_MIN_GAS_PRICE_WEI''
                     (ParseBigInt (example_sys\<lparr>environ := env\<rparr>)) of
                Some w \<Rightarrow> w | None \<Rightarrow> 1000000000)"
  "EvmMaxGasPriceWei (example_sys\<lparr>environ := env\<rparr>) example_failing_config =
     Returns (case env_value (example_sys\<lparr>environ := env\<rparr>) ''ETH_MAX_GAS_PRICE_WEI''
                     (ParseBigInt (example_sys\<lparr>environ := env\<rparr>)) of
                Some w \<Rightarrow> w | None \<Rightarrow> 5000000000000)"
  "readers (persistMu example_failing_config) = 0"
  "\<not> writer (persistMu example_failing_config)"
  "store (orm example_failing_config) ''EvmGasPriceDefault'' v = Some (New ''connection refused'')"
  by (simp_all add: EvmMinGasPriceWei_eq EvmMaxGasPriceWei_eq example_failing_config_def
      example_config_def example_defaultSet_def example_ChainCfg_def split: option.splits)

theorem SetEvmGasPriceDefault_store_fails_witness:
  "EvmMinGasPriceWei example_sys example_failing_config = Returns 1000000000 \<and>
   EvmMaxGasPriceWei example_sys example_failing_config = Returns 5000000000000 \<and>
   store (orm example_failing_config) ''EvmGasPriceDefault'' 3000000000 =
     Some (New ''connection refused'') \<and>
   env_value example_sys ''ETH_GAS_PRICE_DEFAULT'' (ParseBigInt example_sys) = None \<and>
   (\<exists>c'. SetEvmGasPriceDefault example_sys example_failing_config 3000000000 =
            Returns (Some (New ''connection refused''), c') \<and>
          cfg_EvmGasPriceDefault (persistedCfg c') = Some 3000000000 \<and>
          value_of (EvmGasPriceDefault example_sys c') = Returns 3000000000)"
proof -
  have b: "EvmMinGasPriceWei example_sys example_failing_config = Returns 1000000000"
    "EvmMaxGasPriceWei example_sys example_failing_config = Returns 5000000000000"
    using example_failing_config_values(1,2) [of Map.empty]
    by (simp_all add: env_value_def example_sys_def)
  have e: "env_value example_sys ''ETH_GAS_PRICE_DEFAULT'' (ParseBigInt example_sys) = None"
    by (simp add: env_value_def example_sys_def)
  show ?thesis
    using SetEvmGasPriceDefault_store_fails [OF b(1) b(2) _ _ example_failing_config_values(3-5),
        of 3000000000] b e example_failing_config_values(5) [of 3000000000]
    by auto
qed

text \<open>
  The claim as stated fails where the environment holds a default gas price: the store
  fails, the value stays written, and the read returns the value of the environment.
\<close>

theorem SetEvmGasPriceDefault_store_fails_counterexample:
  "SetEvmGasPriceDefault
      (example_sys\<lparr>environ := [''ETH_GAS_PRICE_DEFAULT'' \<mapsto> ''2000000000'']\<rparr>)
      example_failing_config 3000000000 =
     Returns (Some (New ''connection refused''),
       example_failing_config\<lparr>persistedCfg :=
         (persistedCfg example_failing_config)\<lparr>cfg_EvmGasPriceDefault := Some 3000000000\<rparr>\<rparr>) \<and>
   value_of (EvmGasPriceDefault
      (example_sys\<lparr>environ := [''ETH_GAS_PRICE_DEFAULT'' \<mapsto> ''2000000000'']\<rparr>)
      (example_failing_config\<lparr>persistedCfg :=
         (persistedCfg example_failing_config)\<lparr>cfg_EvmGasPriceDefault := Some 3000000000\<rparr>\<rparr>)) =
     Returns 2000000000"
proof -
  let ?S = "example_sys\<lparr>environ := [''ETH_GAS_PRICE_DEFAULT'' \<mapsto> ''2000000000'']\<rparr>"
  have b: "EvmMinGasPriceWei ?S example_failing_config = Returns 1000000000"
    "EvmMaxGasPriceWei ?S example_failing_config = Returns 5000000000000"
    using example_failing_config_values(1,2) [of "[''ETH_GAS_PRICE_DEFAULT'' \<mapsto> ''2000000000'']"]
    by (simp_all add: env_value_def example_sys_def)
  have e: "env_value ?S ''ETH_GAS_PRICE_DEFAULT'' (ParseBigInt ?S) = Some 2000000000"
    by (simp add: env_value_def example_sys_def example_ParseUint_def)
  have "SetEvmGasPriceDefault ?S example_failing_config 3000000000 =
     Returns (Some (New ''connection refused''),
       example_failing_config\<lparr>persistedCfg :=
         (persistedCfg example_failing_config)\<lparr>cfg_EvmGasPriceDefault := Some 3000000000\<rparr>\<rparr>)"
    using SetEvmGasPriceDefault_within [OF b(1) b(2) _ _ example_failing_config_values(3,4),
        of 3000000000] example_failing_config_values(5) [of 3000000000]
    by simp
  moreover have "value_of (EvmGasPriceDefault ?S
      (example_failing_config\<lparr>persistedCfg :=
         (persistedCfg example_failing_config)\<lparr>cfg_EvmGasPriceDefault := Some 3000000000\<rparr>\<rparr>)) =
     Returns 2000000000"
    using EvmGasPriceDefault_after_set [OF example_failing_config_values(4), of ?S 3000000000] e
    by simp
  ultimately show ?thesis by simp
qed

section \<open>Validation\<close>

lemma Cmp_simps:
  "(0 < Cmp x y) = (y < x)" "(Cmp x y < 0) = (x < y)" "(Cmp x y = 0) = (x = y)"
  by (simp_all add: Cmp_def)

lemma if_else_False: "(if b then q else False) = (b \<and> q)"
  by simp

lemma obind_if_Returns:
  "g = Returns x \<Longrightarrow>
     obind (if b then obind g (\<lambda>p. Returns (h p)) else Returns y) f = f (if b then h x else y)"
  by simp

lemma Combine_None: "Combine [a, None] = a"
  by (cases a) (simp_all add: Combine_def List.map_filter_simps)

lemma Combine_if:
  "(if b then Combine [a, Some e] else a) = Combine [a, if b then Some e else None]"
  "(if \<exists>y. x = Some y then Combine [a, x] else a) = Combine [a, x]"
  by (auto simp: Combine_None)

lemma Errors_simps:
  "Errors None = []"
  "Errors (Some (New s)) = [New s]"
  "Errors (Some (Errorf s as)) = [Errorf s as]"
  "Errors (Combine [a, b]) = Errors a @ Errors b"
  "Errors (if b' then Some (New s) else None) = (if b' then [New s] else [])"
  "Errors (if b' then Some (Errorf s as) else None) = (if b' then [Errorf s as] else [])"
  by (simp_all add: Errors_Combine) (simp_all add: Errors_def)

lemma EvmGasPriceDefault_twice:
  assumes "value_of (EvmGasPriceDefault S c) = Returns gp"
  shows "\<exists>m m'. EvmGasPriceDefault S c = Returns (gp, c\<lparr>persistMu := m\<rparr>) \<and>
           EvmGasPriceDefault S (c\<lparr>persistMu := m\<rparr>) = Returns (gp, c\<lparr>persistMu := m'\<rparr>)"
proof (cases "env_value S ''ETH_GAS_PRICE_DEFAULT'' (ParseBigInt S)")
  case None
  with assms have w: "\<not> writer (persistMu c)"
    by (auto simp: EvmGasPriceDefault_eq split: if_splits)
  let ?m = "(persistMu c)\<lparr>readers := readers (persistMu c) + 2\<rparr>"
  let ?m' = "(persistMu c)\<lparr>readers := readers (persistMu c) + 4\<rparr>"
  from None w assms have "EvmGasPriceDefault S c = Returns (gp, c\<lparr>persistMu := ?m\<rparr>)"
    by (auto simp: EvmGasPriceDefault_eq split: option.splits)
  moreover from None w assms
  have "EvmGasPriceDefault S (c\<lparr>persistMu := ?m\<rparr>) = Returns (gp, c\<lparr>persistMu := ?m'\<rparr>)"
    by (auto simp: EvmGasPriceDefault_eq split: option.splits)
  ultimately show ?thesis by blast
next
  case (Some v)
  with assms have "EvmGasPriceDefault S c = Returns (gp, c\<lparr>persistMu := persistMu c\<rparr>)"
    "EvmGasPriceDefault S (c\<lparr>persistMu := persistMu c\<rparr>) = Returns (gp, c\<lparr>persistMu := persistMu c\<rparr>)"
    by (auto simp: EvmGasPriceDefault_eq)
  then show ?thesis by blast
qed

text \<open>
  When the getters return, \<open>Validate\<close> returns, and the errors of its result are: the
  errors of the global configuration's validation, then one error for each check of
  \<open>validate\<close> that fails, in the order of the checks, then the errors of the OCR check.
  No check is skipped after a failure.
\<close>

lemma Validate_enumerates:
  assumes bp: "EvmGasBumpPercent S c = Returns bp"
    and td: "EvmGasBumpTxDepth S c = Returns td"
    and mif: "EvmMaxInFlightTransactions S c = Returns mif"
    and mn: "EvmMinGasPriceWei S c = Returns mn"
    and gp: "value_of (EvmGasPriceDefault S c) = Returns gp"
    and mx: "EvmMaxGasPriceWei S c = Returns mx"
    and hist: "EvmHeadTrackerHistoryDepth S c = Returns hist"
    and fin: "EvmFinalityDepth S c = Returns fin"
    and mode: "GasEstimatorMode S c = Returns mode"
    and hs: "BlockHistoryEstimatorBlockHistorySize S c = Returns hs"
    and mic: "MinIncomingConfirmations S c = Returns mic"
    and oc: "OCRContractConfirmations S c 0 = Returns oc"
  shows "\<exists>err c'. Validate S c = Returns (err, c') \<and>
     Errors err =
       Errors (GeneralConfig_Validate (GeneralConfig c)) @
       (if (ucast bp :: uint64) < PriceBump S
        then [Errorf ''ETH_GAS_BUMP_PERCENT of %v may not be less than Geth's default of %v''
                [FUint16 bp, FUint64 (PriceBump S)]] else []) @
       (if mif < (ucast td :: uint32)
        then [New ''ETH_GAS_BUMP_TX_DEPTH must be less than or equal to ETH_MAX_IN_FLIGHT_TRANSACTIONS'']
        else []) @
       (if gp < mn
        then [New ''ETH_MIN_GAS_PRICE_WEI must be less than or equal to ETH_GAS_PRICE_DEFAULT'']
        else []) @
       (if mx < gp
        then [New ''ETH_MAX_GAS_PRICE_WEI must be greater than or equal to ETH_GAS_PRICE_DEFAULT'']
        else []) @
       (if hist < fin
        then [New ''ETH_HEAD_TRACKER_HISTORY_DEPTH must be equal to or greater than ETH_FINALITY_DEPTH'']
        else []) @
       (if mode = ''BlockHistory'' \<and> hs = 0
        then [New ''GAS_UPDATER_BLOCK_HISTORY_SIZE must be greater than or equal to 1 if block history estimator is enabled'']
        else []) @
       (if fin < 1 then [New ''ETH_FINALITY_DEPTH must be greater than or equal to 1''] else []) @
       (if mic < 1 then [New ''MIN_INCOMING_CONFIRMATIONS must be greater than or equal to 1'']
        else []) @
       Errors (SanityCheckLocalConfig S
         \<lparr>BlockchainTimeout = OCRBlockchainTimeout (GeneralConfig c) 0,
          ContractConfigConfirmations = oc,
          ContractConfigTrackerPollInterval = OCRContractPollInterval (GeneralConfig c) 0,
          ContractConfigTrackerSubscribeInterval = OCRContractSubscribeInterval (GeneralConfig c) 0,
          ContractTransmitterTransmitTimeout = OCRContractTransmitterTransmitTimeout (GeneralConfig c),
          DatabaseTimeout = OCRDatabaseTimeout (GeneralConfig c),
          DataSourceTimeout = OCRObservationTimeout (GeneralConfig c) 0,
          DataSourceGracePeriod = OCRObservationGracePeriod (GeneralConfig c)\<rparr>)"
proof -
  from EvmGasPriceDefault_twice [OF gp] obtain m m'
    where g1: "EvmGasPriceDefault S c = Returns (gp, c\<lparr>persistMu := m\<rparr>)"
      and g2: "EvmGasPriceDefault S (c\<lparr>persistMu := m\<rparr>) = Returns (gp, c\<lparr>persistMu := m'\<rparr>)"
    by blast
  have hs': "BlockHistoryEstimatorBlockHistorySize S (c\<lparr>persistMu := m'\<rparr>) = Returns hs"
    by (simp add: persistMu_simps hs)
  show ?thesis
    unfolding Validate_def validate_def
    by (simp add: bp td mif mn mx hist fin mode hs mic oc g1 g2 persistMu_simps
        obind_if_Returns [OF bp] obind_if_Returns [OF hs']
        if_else_False Let_def Cmp_simps Combine_if Errors_simps split del: if_split)
qed

text \<open>
  When the environment holds a well-formed finality depth or head tracker history depth,
  the fifth check calls a getter that panics, and so does \<open>Validate\<close>.
\<close>

lemma Validate_panics:
  assumes gp: "value_of (EvmGasPriceDefault S c) = Returns gp"
    and env: "env_value S ''ETH_HEAD_TRACKER_HISTORY_DEPTH'' (ParseUint64 S) \<noteq> None \<or>
              env_value S ''ETH_FINALITY_DEPTH'' (ParseUint64 S) \<noteq> None"
  shows "Validate S c = Panics (InterfaceConversion ''uint64'' ''uint'')"
proof -
  from EvmGasPriceDefault_twice [OF gp] obtain m m'
    where g1: "EvmGasPriceDefault S c = Returns (gp, c\<lparr>persistMu := m\<rparr>)"
      and g2: "EvmGasPriceDefault S (c\<lparr>persistMu := m\<rparr>) = Returns (gp, c\<lparr>persistMu := m'\<rparr>)"
    by blast
  have p: "obind (EvmHeadTrackerHistoryDepth S c) (\<lambda>history. obind (EvmFinalityDepth S c) (f history)) =
      Panics (InterfaceConversion ''uint64'' ''uint'')" for f :: "uint \<Rightarrow> uint \<Rightarrow> 'x outcome"
    using env by (auto simp: EvmHeadTrackerHistoryDepth_eq EvmFinalityDepth_eq split: option.splits)
  show ?thesis
    unfolding Validate_def validate_def
    by (simp add: EvmGasBumpPercent_eq EvmGasBumpTxDepth_eq EvmMaxInFlightTransactions_eq
        EvmMinGasPriceWei_eq EvmMaxGasPriceWei_eq g1 g2 persistMu_simps
        obind_if_Returns [OF EvmGasBumpPercent_eq] p Let_def split del: if_split)
qed

lemma example_depths_config_values:
  "EvmGasBumpPercent example_sys example_depths_config = Returns 20"
  "EvmGasBumpTxDepth example_sys example_depths_config = Returns 10"
  "EvmMaxInFlightTransactions example_sys example_depths_config = Returns 16"
  "EvmMinGasPriceWei example_sys example_depths_config = Returns 30000000000"
  "value_of (EvmGasPriceDefault example_sys example_depths_config) = Returns 20000000000"
  "EvmMaxGasPriceWei example_sys example_depths_config = Returns 5000000000000"
  "EvmHeadTrackerHistoryDepth example_sys example_depths_config = Returns 10"
  "EvmFinalityDepth example_sys example_depths_config = Returns 15"
  "GasEstimatorMode example_sys example_depths_config = Returns ''BlockHistory''"
  "BlockHistoryEstimatorBlockHistorySize example_sys example_depths_config = Returns 24"
  "MinIncomingConfirmations example_sys example_depths_config = Returns 3"
  "OCRContractConfirmations example_sys example_depths_config 0 = Returns 4"
  by (simp_all add: EvmGasBumpPercent_eq EvmGasBumpTxDepth_eq EvmMaxInFlightTransactions_eq
      EvmMinGasPriceWei_eq EvmGasPriceDefault_eq EvmMaxGasPriceWei_eq EvmHeadTrackerHistoryDepth_eq
      EvmFinalityDepth_eq GasEstimatorMode_eq BlockHistoryEstimatorBlockHistorySize_eq
      MinIncomingConfirmations_eq OCRContractConfirmations_eq env_value_def example_sys_def
      example_depths_config_def example_history_config_def example_config_def
      example_defaultSet_def example_ChainCfg_def example_GeneralConfig_def)

text \<open>
  The example of the specification, the depths being persisted overrides: a history
  depth of 10, a finality depth of 15 and a minimum gas price above the default gas
  price. \<open>Validate\<close> returns an error that holds both violations.
\<close>

lemma Validate_example:
  "\<exists>err c'. Validate example_sys example_depths_config = Returns (err, c') \<and>
     Errors err =
       [New ''ETH_MIN_GAS_PRICE_WEI must be less than or equal to ETH_GAS_PRICE_DEFAULT'',
        New ''ETH_HEAD_TRACKER_HISTORY_DEPTH must be equal to or greater than ETH_FINALITY_DEPTH'']"
  using Validate_enumerates [OF example_depths_config_values]
  by (simp add: example_sys_def example_depths_config_def example_history_config_def
      example_config_def example_GeneralConfig_def Errors_simps)

text \<open>
  C2 on the code. The same configuration, the finality depth of 15 now being the value of
  \<open>ETH_FINALITY_DEPTH\<close> in the environment: \<open>Validate\<close> does not return the combined
  error, it panics in \<open>EvmFinalityDepth\<close>.
\<close>

theorem Validate_finality_depth_from_environment:
  "env_value (example_sys\<lparr>environ := [''ETH_FINALITY_DEPTH'' \<mapsto> ''15'']\<rparr>) ''ETH_FINALITY_DEPTH''
      (ParseUint64 (example_sys\<lparr>environ := [''ETH_FINALITY_DEPTH'' \<mapsto> ''15'']\<rparr>)) = Some 15 \<and>
   EvmHeadTrackerHistoryDepth (example_sys\<lparr>environ := [''ETH_FINALITY_DEPTH'' \<mapsto> ''15'']\<rparr>)
      example_history_config = Returns 10 \<and>
   EvmMinGasPriceWei (example_sys\<lparr>environ := [''ETH_FINALITY_DEPTH'' \<mapsto> ''15'']\<rparr>)
      example_history_config = Returns 30000000000 \<and>
   value_of (EvmGasPriceDefault (example_sys\<lparr>environ := [''ETH_FINALITY_DEPTH'' \<mapsto> ''15'']\<rparr>)
      example_history_config) = Returns 20000000000 \<and>
   EvmFinalityDepth (example_sys\<lparr>environ := [''ETH_FINALITY_DEPTH'' \<mapsto> ''15'']\<rparr>)
      example_history_config = Panics (InterfaceConversion ''uint64'' ''uint'') \<and>
   Validate (example_sys\<lparr>environ := [''ETH_FINALITY_DEPTH'' \<mapsto> ''15'']\<rparr>)
      example_history_config = Panics (InterfaceConversion ''uint64'' ''uint'')"
proof -
  let ?S = "example_sys\<lparr>environ := [''ETH_FINALITY_DEPTH'' \<mapsto> ''15'']\<rparr>"
  have e: "env_value ?S ''ETH_FINALITY_DEPTH'' (ParseUint64 ?S) = Some 15"
    by (simp add: env_value_def example_sys_def example_ParseUint_def)
  have v: "EvmHeadTrackerHistoryDepth ?S example_history_config = Returns 10"
    "EvmMinGasPriceWei ?S example_history_config = Returns 30000000000"
    "value_of (EvmGasPriceDefault ?S example_history_config) = Returns 20000000000"
    by (simp_all add: EvmHeadTrackerHistoryDepth_eq EvmMinGasPriceWei_eq EvmGasPriceDefault_eq
        env_value_def example_sys_def example_history_config_def example_config_def
        example_defaultSet_def example_ChainCfg_def)
  have p: "EvmFinalityDepth ?S example_history_config = Panics (InterfaceConversion ''uint64'' ''uint'')"
    using e by (simp add: EvmFinalityDepth_eq)
  have "Validate ?S example_history_config = Panics (InterfaceConversion ''uint64'' ''uint'')"
    using Validate_panics [OF v(3)] e by simp
  with e v p show ?thesis by simp
qed

end
